theory Spec2Isabelle
  imports Main
begin

section \<open>Strings\<close>

text \<open>
  JavaScript strings are modelled as \<open>string\<close>: lists of characters, a character being
  a code unit below 256 (ASCII and the Latin-1 supplement). The helpers below are the
  built-ins that the program calls on strings, on this range: \<open>trim\<close>, \<open>toLowerCase\<close>,
  \<open>toUpperCase\<close>, and the class \<open>\w\<close> of regular expressions.
\<close>

definition upper_letters :: string where
  "upper_letters = ''ABCDEFGHIJKLMNOPQRSTUVWXYZ''"

definition lower_letters :: string where
  "lower_letters = ''abcdefghijklmnopqrstuvwxyz''"

definition digit_chars :: string where
  "digit_chars = ''0123456789''"

text \<open>The capital letters of the Latin-1 supplement (\<open>0xC0\<close> to \<open>0xDE\<close> without the
  multiplication sign \<open>0xD7\<close>) and their small letters, \<open>0x20\<close> above them.\<close>

definition latin1_upper :: string where
  "latin1_upper =
     [CHR 0xC0, CHR 0xC1, CHR 0xC2, CHR 0xC3, CHR 0xC4, CHR 0xC5, CHR 0xC6, CHR 0xC7,
      CHR 0xC8, CHR 0xC9, CHR 0xCA, CHR 0xCB, CHR 0xCC, CHR 0xCD, CHR 0xCE, CHR 0xCF,
      CHR 0xD0, CHR 0xD1, CHR 0xD2, CHR 0xD3, CHR 0xD4, CHR 0xD5, CHR 0xD6, CHR 0xD8,
      CHR 0xD9, CHR 0xDA, CHR 0xDB, CHR 0xDC, CHR 0xDD, CHR 0xDE]"

definition latin1_lower :: string where
  "latin1_lower =
     [CHR 0xE0, CHR 0xE1, CHR 0xE2, CHR 0xE3, CHR 0xE4, CHR 0xE5, CHR 0xE6, CHR 0xE7,
      CHR 0xE8, CHR 0xE9, CHR 0xEA, CHR 0xEB, CHR 0xEC, CHR 0xED, CHR 0xEE, CHR 0xEF,
      CHR 0xF0, CHR 0xF1, CHR 0xF2, CHR 0xF3, CHR 0xF4, CHR 0xF5, CHR 0xF6, CHR 0xF8,
      CHR 0xF9, CHR 0xFA, CHR 0xFB, CHR 0xFC, CHR 0xFD, CHR 0xFE]"

definition toLowerChar :: "char \<Rightarrow> char" where
  "toLowerChar c =
     (case map_of (zip (upper_letters @ latin1_upper) (lower_letters @ latin1_lower)) c of
        Some d \<Rightarrow> d
      | None \<Rightarrow> c)"

text \<open>
  The upper case of a character is a string: that of the sharp s (\<open>0xDF\<close>) is \<open>SS\<close>. The
  upper cases of the micro sign (\<open>0xB5\<close>) and of the y with diaeresis (\<open>0xFF\<close>) are code
  units above 255, which the model does not have: it leaves the two characters as they
  are. The program takes the upper case of persona keys only.
\<close>

definition toUpperChar :: "char \<Rightarrow> string" where
  "toUpperChar c =
     (if c = CHR 0xDF then ''SS''
      else (case map_of (zip (lower_letters @ latin1_lower) (upper_letters @ latin1_upper)) c of
              Some d \<Rightarrow> [d]
            | None \<Rightarrow> [c]))"

definition toLowerCase :: "string \<Rightarrow> string" where
  "toLowerCase s = map toLowerChar s"

definition toUpperCase :: "string \<Rightarrow> string" where
  "toUpperCase s = concat (map toUpperChar s)"

text \<open>The class \<open>\w\<close> of a regular expression without the \<open>u\<close> and \<open>i\<close> flags.\<close>

definition isWordChar :: "char \<Rightarrow> bool" where
  "isWordChar c = (c \<in> set (upper_letters @ lower_letters @ digit_chars @ ''_''))"

text \<open>
  The white space and line terminators that \<open>String.prototype.trim\<close> removes, as far as
  they lie below 256: tab, line feed, vertical tab, form feed, carriage return, space
  and the no-break space \<open>0xA0\<close>.
\<close>

definition isSpaceChar :: "char \<Rightarrow> bool" where
  "isSpaceChar c =
     (c \<in> set [CHR 0x09, CHR 0x0A, CHR 0x0B, CHR 0x0C, CHR 0x0D, CHR 0x20, CHR 0xA0])"

definition trim :: "string \<Rightarrow> string" where
  "trim s = rev (dropWhile isSpaceChar (rev (dropWhile isSpaceChar s)))"

definition dq :: string where
  "dq = [CHR 0x22]"

definition sq :: string where
  "sq = [CHR 0x27]"

section \<open>Persona registry\<close>

datatype PersonaKey = CUA | Lyra | Kara | Sophia | Cecilia | Guac | Andie | Dan | Stan | Dude

record persona =
  name :: string
  role :: string
  description :: string
  summary :: string
  tone :: "string option"

text \<open>The constant \<open>PERSONAS\<close>, and its keys in the order of the object literal.\<close>

fun PERSONAS :: "PersonaKey \<Rightarrow> persona" where
  "PERSONAS CUA = \<lparr>name = ''CUA'', role = ''Common User Access'',
     description = ''You are CUA (Common User Access), a friendly and knowledgeable computer system interface. Respond to user queries as if you are the operating system itself. Use a slightly formal, clear, and helpful tone. Your responses should be formatted as if in a classic terminal. Do not use Markdown.'',
     summary = ''The classic, friendly computer system interface.'',
     tone = None\<rparr>"
| "PERSONAS Lyra = \<lparr>name = ''Lyra'', role = ''Master Orchestrator'',
     description = ''As the Master Orchestrator, you supervise task flows and coordinate multi-agent operations. Your expertise is in data orchestration, validation, and system health.'',
     summary = ''Supervises task flows and coordinates multi-agent operations.'',
     tone = Some ''Authoritative, precise, and systematic''\<rparr>"
| "PERSONAS Kara = \<lparr>name = ''Kara'', role = ''Security & Compliance Officer'',
     description = ''You monitor all agent actions, ensuring safe orchestration and governance. You are the expert on security protocols, compliance, and risk assessment.'',
     summary = ''Monitors all agent actions for security, governance, and compliance.'',
     tone = Some ''Vigilant, formal, and uncompromising''\<rparr>"
| "PERSONAS Sophia = \<lparr>name = ''Sophia'', role = ''Semantic Intelligence Analyst'',
     description = ''You handle complex reasoning, semantic mapping, and context linking. Your specialty is in understanding deep context and providing insightful analysis.'',
     summary = ''Handles complex reasoning, semantic mapping, and deep context analysis.'',
     tone = Some ''Analytical, insightful, and articulate''\<rparr>"
| "PERSONAS Cecilia = \<lparr>name = ''Cecilia'', role = ''Assistive Technology Lead'',
     description = ''You provide real-time guidance and adaptive support to the operator. Your goal is to enhance the user's workflow with assistive technology.'',
     summary = ''Provides real-time guidance and adaptive workflow support.'',
     tone = Some ''Helpful, clear, and supportive''\<rparr>"
| "PERSONAS Guac = \<lparr>name = ''Guac'', role = ''Communication Moderator'',
     description = ''You oversee inter-application messaging and network security, ensuring all communications are secure, efficient, and properly routed.'',
     summary = ''Oversees secure and efficient inter-application messaging.'',
     tone = Some ''Concise, secure, and reliable''\<rparr>"
| "PERSONAS Andie = \<lparr>name = ''Andie'', role = ''Code Execution Specialist'',
     description = ''You specialize in executing and testing code snippets across various languages and environments, ensuring functionality and performance.'',
     summary = ''Executes and tests code snippets across multiple environments.'',
     tone = Some ''Technical, literal, and efficient''\<rparr>"
| "PERSONAS Dan = \<lparr>name = ''Dan'', role = ''Web & API Integrator'',
     description = ''A full-stack web maestro, you craft seamless user experiences and integrate third-party APIs flawlessly.'',
     summary = ''Crafts seamless user experiences and integrates third-party APIs.'',
     tone = Some ''Practical, results-driven, and clear''\<rparr>"
| "PERSONAS Stan = \<lparr>name = ''Stan'', role = ''Infrastructure Guardian'',
     description = ''You are a vigilant protector specializing in infrastructure deployment, firewall configurations, and system stability.'',
     summary = ''Deploys infrastructure and guards system stability with vigilance.'',
     tone = Some ''Professional, cautious, and detail-oriented''\<rparr>"
| "PERSONAS Dude = \<lparr>name = ''Dude'', role = ''Automation & Workflow Maestro'',
     description = ''An expert in workflow automation, you focus on orchestrating complex tasks, managing APIs, and maximizing operational efficiency.'',
     summary = ''Orchestrates complex tasks and maximizes operational efficiency.'',
     tone = Some ''Organized, prompt, and efficiency-driven''\<rparr>"

definition persona_keys :: "PersonaKey list" where
  "persona_keys = [CUA, Lyra, Kara, Sophia, Cecilia, Guac, Andie, Dan, Stan, Dude]"

fun key_string :: "PersonaKey \<Rightarrow> string" where
  "key_string CUA = ''CUA''"
| "key_string Lyra = ''Lyra''"
| "key_string Kara = ''Kara''"
| "key_string Sophia = ''Sophia''"
| "key_string Cecilia = ''Cecilia''"
| "key_string Guac = ''Guac''"
| "key_string Andie = ''Andie''"
| "key_string Dan = ''Dan''"
| "key_string Stan = ''Stan''"
| "key_string Dude = ''Dude''"

text \<open>
  \<open>PERSONA_NAME_TO_KEY_MAP = Object.fromEntries(Object.entries(PERSONAS).map(...))\<close>:
  the entries, and the result of reading a property of the object. The object inherits
  from \<open>Object.prototype\<close>, so reading one of the inherited property names yields a
  value that is neither \<open>undefined\<close> nor a persona key.
\<close>

definition PERSONA_NAME_TO_KEY_entries :: "(string \<times> PersonaKey) list" where
  "PERSONA_NAME_TO_KEY_entries = map (\<lambda>k. (name (PERSONAS k), k)) persona_keys"

definition object_prototype_names :: "string list" where
  "object_prototype_names =
     [''constructor'', ''__proto__'', ''hasOwnProperty'', ''isPrototypeOf'',
      ''propertyIsEnumerable'', ''toLocaleString'', ''toString'', ''valueOf'',
      ''__defineGetter__'', ''__defineSetter__'', ''__lookupGetter__'', ''__lookupSetter__'']"

datatype property = Own PersonaKey | Inherited | Undefined

definition PERSONA_NAME_TO_KEY_MAP :: "string \<Rightarrow> property" where
  "PERSONA_NAME_TO_KEY_MAP n =
     (case map_of PERSONA_NAME_TO_KEY_entries n of
        Some k \<Rightarrow> Own k
      | None \<Rightarrow> if n \<in> set object_prototype_names then Inherited else Undefined)"

text \<open>\<open>generateSystemPrompt\<close>. The template prints a \<open>null\<close> tone as the text \<open>null\<close>.\<close>

definition generateSystemPrompt :: "PersonaKey \<Rightarrow> string" where
  "generateSystemPrompt personaKey =
     (let p = PERSONAS personaKey in
      if personaKey = CUA then description p
      else ''You are '' @ name p @ '', a '' @ role p @ ''. '' @ description p
           @ '' Your tone must be '' @ (case tone p of Some t \<Rightarrow> t | None \<Rightarrow> ''null'')
           @ ''. You can invoke other agents for tasks outside your expertise.'')"

text \<open>
  The composition rule in the words of the specification, as a function of the persona
  record: the persona without a tone uses its raw description, every other one the
  composed template.
\<close>

definition buildSystemPrompt_spec :: "persona \<Rightarrow> string" where
  "buildSystemPrompt_spec p =
     (case tone p of
        None \<Rightarrow> description p
      | Some t \<Rightarrow> ''You are '' @ name p @ '', a '' @ role p @ ''. '' @ description p
           @ '' Your tone must be '' @ t
           @ ''. You can invoke other agents for tasks outside your expertise.'')"

section \<open>Transcripts and the history store (db.ts)\<close>

text \<open>
  The arguments of an \<open>invokeAgent\<close> call are untyped in the source. The program reads
  them in one way only: \<open>agentName\<close> is turned into a string, and \<open>prompt\<close> must have
  the method \<open>substring\<close>. \<open>Args a p\<close> is an arguments value whose \<open>agentName\<close> reads as
  the string \<open>a\<close> and whose \<open>prompt\<close> is the string \<open>p\<close>; \<open>BadArgs m\<close> is any other
  value: reading it the way the program does throws an error with message \<open>m\<close>.
\<close>

datatype invoke_args = Args string string | BadArgs string

record functionCall =
  fc_name :: string
  fc_args :: invoke_args

record functionResponse =
  fr_name :: string
  fr_content :: string

record inlineData =
  mimeType :: string
  data :: string

record GeminiPart =
  part_text :: "string option"
  part_inlineData :: "inlineData option"
  part_functionCall :: "functionCall option"
  part_functionResponse :: "functionResponse option"

datatype gemini_role = user | model

record GeminiMessage =
  g_role :: gemini_role
  parts :: "GeminiPart list"

datatype content_part = text_part string | image_url string

datatype content = Str string | Parts "content_part list"

record tool_function =
  fn_name :: "string option"
  arguments :: string

record tool_call =
  tc_id :: "string option"
  tc_function :: tool_function

datatype OpenAIMessage =
  system_msg string
| user_msg content
| assistant_msg "string option" "tool_call list option"
| tool_msg "string option" string

datatype Message = GeminiMsg GeminiMessage | OpenAIMsg OpenAIMessage

type_synonym ChatHistory = "Message list"

text \<open>The property \<open>role\<close> of a stored message of either shape.\<close>

fun message_role :: "Message \<Rightarrow> string" where
  "message_role (GeminiMsg m) = (case g_role m of user \<Rightarrow> ''user'' | model \<Rightarrow> ''model'')"
| "message_role (OpenAIMsg (system_msg _)) = ''system''"
| "message_role (OpenAIMsg (user_msg _)) = ''user''"
| "message_role (OpenAIMsg (assistant_msg _ _)) = ''assistant''"
| "message_role (OpenAIMsg (tool_msg _ _)) = ''tool''"

text \<open>
  A stored \<open>ChatSession\<close>. The field \<open>history\<close> is optional because the caller can pass
  an undefined array (\<open>openAIMessages\<close> before its first assignment); the reader guards
  for it with \<open>session?.history?.some\<close>.
\<close>

record ChatSession =
  provider :: string
  history :: "ChatHistory option"

text \<open>
  The object store \<open>chat_sessions\<close> with key path \<open>provider\<close>, as a map from keys to
  records. An IndexedDB request ends in \<open>onsuccess\<close> or in \<open>onerror\<close>; which of the two
  is decided outside the program and is an argument of each operation. The database is
  taken to be open (\<open>openDB\<close> has resolved, as \<open>launchApp\<close> awaits it before it installs
  the handlers).
\<close>

type_synonym object_store = "string \<rightharpoonup> ChatSession"

datatype request = onsuccess | onerror string

datatype 'a promise = Resolved 'a | Rejected string

definition saveHistory :: "request \<Rightarrow> object_store \<Rightarrow> string \<Rightarrow> ChatHistory option \<Rightarrow> object_store \<times> unit promise" where
  "saveHistory req store key h =
     (case req of
        onsuccess \<Rightarrow> (store(key \<mapsto> \<lparr>provider = key, history = h\<rparr>), Resolved ())
      | onerror e \<Rightarrow> (store, Rejected e))"

definition getHistory :: "request \<Rightarrow> object_store \<Rightarrow> string \<Rightarrow> ChatSession option promise" where
  "getHistory req store key =
     (case req of
        onsuccess \<Rightarrow> Resolved (store key)
      | onerror e \<Rightarrow> Rejected e)"

definition clearHistory :: "request \<Rightarrow> object_store \<Rightarrow> string \<Rightarrow> object_store \<times> unit promise" where
  "clearHistory req store key =
     (case req of
        onsuccess \<Rightarrow> (store(key := None), Resolved ())
      | onerror e \<Rightarrow> (store, Rejected e))"

section \<open>The page: controls, chat window, orchestration log\<close>

datatype provider_id = gemini | openai

fun provider_string :: "provider_id \<Rightarrow> string" where
  "provider_string gemini = ''gemini''"
| "provider_string openai = ''openai''"

datatype log_type = log_user | log_info | log_invoke | log_success | log_complete | log_error

datatype node = text_node string | span string | img string string

text \<open>
  A message of the chat window as \<open>appendMessage\<close> builds it: the prefix, the class given
  by the caller, the class \<open>thinking\<close> that callers add and remove, and the children of
  the content wrapper.
\<close>

record message_div =
  prefix :: string
  messageClass :: string
  thinking :: bool
  children :: "node list"

text \<open>
  A staged \<open>File\<close>: its name, the URL that \<open>URL.createObjectURL\<close> gives for it, and what
  \<open>FileReader.readAsDataURL\<close> delivers (\<open>None\<close> when the reader signals \<open>onerror\<close>).
\<close>

record File =
  file_name :: string
  object_url :: string
  data_url :: "string option"

section \<open>The two provider clients\<close>

text \<open>
  The providers are outside the program. Their behaviour is a script: the replies they
  give, in order, to the streaming requests and to the non-streaming requests of the
  program. A theorem for every script covers whatever the providers answer. A request
  that finds its script empty is never answered. The requests sent are recorded.
\<close>

record gemini_chunk =
  chunk_text :: "string option"
  chunk_functionCalls :: "functionCall list option"

record tool_call_delta =
  index :: nat
  delta_id :: "string option"
  delta_name :: "string option"
  delta_arguments :: "string option"

record openai_chunk =
  delta_content :: "string option"
  delta_tool_calls :: "tool_call_delta list option"

text \<open>A streamed reply: the chunks it yields, then either the end of the stream or an
  error (an error of the call itself is a stream that fails before its first chunk).\<close>

record 'c stream =
  chunks :: "'c list"
  fails :: "string option"

datatype api_request =
  generateContent string string
| completions_create ChatHistory
| sendMessageStream "GeminiPart list" "string list option"
| completions_create_stream ChatHistory "string list option"

text \<open>
  The \<open>Chat\<close> object of the Gemini client: its configuration and the history it keeps.
  The types \<open>GeminiMessage[]\<close> and \<open>OpenAIMessage[]\<close> of the source are erased when the
  program runs (\<open>session.history as GeminiMessage[]\<close> converts nothing), so the live
  contexts hold lists of messages of either shape, as the store does.
\<close>

record Chat =
  systemInstruction :: string
  chat_history :: ChatHistory

section \<open>Program state\<close>

text \<open>
  The module-level variables of \<open>index.tsx\<close>, the parts of the page that the handlers
  read and write, the object store, and the environment (provider scripts, the outcome of
  the next IndexedDB request, and \<open>JSON.parse\<close> followed by the reading of the two
  argument fields, as a function from the accumulated \<open>arguments\<close> text).
  A handler runs from its start to its end without another handler in between.
\<close>

record app =
  stagedFile :: "File option"
  chatInput_value :: string
  chatInput_disabled :: bool
  submitButton_disabled :: bool
  uploadButton_disabled :: bool
  modelSelector :: provider_id
  personaSelector :: PersonaKey
  chatContainer :: "message_div list"
  orchestrationLog :: "(string \<times> log_type) list"
  geminiChat :: "Chat option"
  openAIMessages :: "ChatHistory option"
  ai :: bool
  openai_client :: bool
  store :: object_store
  idb_request :: request
  gemini_streams :: "gemini_chunk stream list"
  openai_streams :: "openai_chunk stream list"
  completions :: "string promise list"
  requests :: "api_request list"
  JSON_parse :: "string \<Rightarrow> invoke_args"

definition logOrchestrationEvent :: "string \<Rightarrow> log_type \<Rightarrow> app \<Rightarrow> app" where
  "logOrchestrationEvent message type st =
     st\<lparr>orchestrationLog := orchestrationLog st @ [(message, type)]\<rparr>"

text \<open>
  \<open>appendMessage\<close> returns the content wrapper of the message it appends. No handler
  appends a second message while it still writes to the first, so the wrapper it holds is
  the last message of the chat window: \<open>on_wrapper\<close> writes to it, \<open>remove_wrapper\<close> is
  \<open>wrapper.parentElement?.remove()\<close>.
\<close>

definition appendMessage :: "string \<Rightarrow> string \<Rightarrow> app \<Rightarrow> app" where
  "appendMessage pfx cls st =
     st\<lparr>chatContainer := chatContainer st
          @ [\<lparr>prefix = pfx, messageClass = cls, thinking = False, children = []\<rparr>]\<rparr>"

definition on_wrapper :: "(message_div \<Rightarrow> message_div) \<Rightarrow> app \<Rightarrow> app" where
  "on_wrapper f st =
     st\<lparr>chatContainer := (case rev (chatContainer st) of
                             [] \<Rightarrow> []
                           | m # ms \<Rightarrow> rev ms @ [f m])\<rparr>"

definition textContent :: "string \<Rightarrow> message_div \<Rightarrow> message_div" where
  "textContent s m = m\<lparr>children := [text_node s]\<rparr>"

definition appendChild :: "node \<Rightarrow> message_div \<Rightarrow> message_div" where
  "appendChild n m = m\<lparr>children := children m @ [n]\<rparr>"

definition remove_wrapper :: "app \<Rightarrow> app" where
  "remove_wrapper st = st\<lparr>chatContainer := butlast (chatContainer st)\<rparr>"

definition set_controls_disabled :: "bool \<Rightarrow> app \<Rightarrow> app" where
  "set_controls_disabled b st =
     st\<lparr>chatInput_disabled := b, submitButton_disabled := b, uploadButton_disabled := b\<rparr>"

definition clearStagedFile :: "app \<Rightarrow> app" where
  "clearStagedFile st = st\<lparr>stagedFile := None\<rparr>"

section \<open>File encoding\<close>

fun split_on :: "char \<Rightarrow> string \<Rightarrow> string list" where
  "split_on c [] = [[]]"
| "split_on c (x # xs) =
     (if x = c then [] # split_on c xs
      else (case split_on c xs of [] \<Rightarrow> [[x]] | y # ys \<Rightarrow> (x # y) # ys))"

text \<open>
  \<open>fileToBase64\<close>. A reader error rejects with an event, which the handlers render as
  \<open>An unknown error occurred.\<close>; a header without a colon makes the \<open>onload\<close> callback
  throw, and then the promise is never settled (\<open>None\<close>).
\<close>

definition fileToBase64 :: "File \<Rightarrow> inlineData promise option" where
  "fileToBase64 f =
     (case data_url f of
        None \<Rightarrow> Some (Rejected ''An unknown error occurred.'')
      | Some result \<Rightarrow>
          (case take 2 (split_on CHR '','' result) of
             [header, d] \<Rightarrow>
               if header = [] \<or> d = [] then Some (Rejected ''Invalid file format.'')
               else (case split_on CHR '':'' header of
                       _ # m # _ \<Rightarrow> Some (Resolved \<lparr>mimeType = hd (split_on CHR '';'' m), data = d\<rparr>)
                     | _ \<Rightarrow> None)
           | _ \<Rightarrow> Some (Rejected ''Invalid file format.'')))"

section \<open>Tool declaration\<close>

text \<open>\<open>getTools\<close>: both declarations are fixed text around the list of agent names, which
  is what the model keeps of them.\<close>

definition getTools :: "PersonaKey \<Rightarrow> string list option" where
  "getTools currentPersona =
     (let availableAgents =
            map (\<lambda>k. name (PERSONAS k)) (filter (\<lambda>k. k \<noteq> currentPersona \<and> k \<noteq> CUA) persona_keys)
      in if length availableAgents = 0 then None else Some availableAgents)"

section \<open>Delegation executor\<close>

text \<open>
  \<open>executeInvokeAgent\<close>. The lookup is a property read of \<open>PERSONA_NAME_TO_KEY_MAP\<close> with
  the name as given. An inherited property passes the test \<open>!agentKey\<close> and then
  \<open>persona.name\<close> throws outside the \<open>try\<close>, which rejects the promise. \<open>None\<close>: the
  provider never answers.
\<close>

definition executeInvokeAgent :: "app \<Rightarrow> string \<Rightarrow> string \<Rightarrow> (app \<times> string promise) option" where
  "executeInvokeAgent st agentName prompt =
     (case PERSONA_NAME_TO_KEY_MAP agentName of
        Undefined \<Rightarrow> Some (st, Resolved (''Error: Agent '' @ sq @ agentName @ sq @ '' not found.''))
      | Inherited \<Rightarrow>
          Some (st, Rejected (''Cannot read properties of undefined (reading '' @ sq @ ''name'' @ sq @ '')''))
      | Own agentKey \<Rightarrow>
          (let st1 = logOrchestrationEvent
                       (''Executing call to ['' @ agentName @ '']. Awaiting response...'') log_info st;
               systemPrompt = generateSystemPrompt agentKey;
               p = modelSelector st1
           in if (p = gemini \<and> ai st1) \<or> (p = openai \<and> openai_client st1) then
                (case completions st1 of
                   [] \<Rightarrow> None
                 | reply # rest \<Rightarrow>
                     (let st2 = st1\<lparr>completions := rest,
                                    requests := requests st1 @
                                      [if p = gemini then generateContent systemPrompt prompt
                                       else completions_create
                                              [OpenAIMsg (system_msg systemPrompt),
                                               OpenAIMsg (user_msg (Str prompt))]]\<rparr>
                      in case reply of
                           Resolved result \<Rightarrow>
                             Some (logOrchestrationEvent
                                     (''['' @ agentName @ ''] returned a response.'') log_success st2,
                                   Resolved result)
                         | Rejected errorMessage \<Rightarrow>
                             Some (logOrchestrationEvent
                                     (''Error during invocation of ['' @ agentName @ '']: '' @ errorMessage)
                                     log_error st2,
                                   Resolved (''Error during invocation of '' @ agentName @ '': ''
                                             @ errorMessage))))
              else Some (logOrchestrationEvent
                           (''['' @ agentName @ ''] returned a response.'') log_success st1,
                         Resolved ''Error: No valid provider configured for sub-agent call.'')))"

section \<open>Mention parser\<close>

text \<open>
  The match of \<open>/^@(\w+)[, ]?(.*)/s\<close>: the greedy \<open>\w+\<close> takes the longest run of word
  characters after the \<open>@\<close>, one comma or space is skipped if it follows, and the second
  group is the rest of the input (the flag \<open>s\<close> lets the dot match line ends).
\<close>

definition mentionMatch :: "string \<Rightarrow> (string \<times> string) option" where
  "mentionMatch s =
     (case s of
        [] \<Rightarrow> None
      | c # cs \<Rightarrow>
          if c = CHR ''@'' \<and> takeWhile isWordChar cs \<noteq> [] then
            Some (takeWhile isWordChar cs,
                  (case dropWhile isWordChar cs of
                     [] \<Rightarrow> []
                   | d # ds \<Rightarrow> if d = CHR '','' \<or> d = CHR '' '' then ds else d # ds))
          else None)"

text \<open>
  \<open>Object.keys(PERSONA_NAME_TO_KEY_MAP).find(name => name.toLowerCase() ===
  agentName.toLowerCase())\<close>, followed by the read of the map at the key found: the
  first entry whose name matches, as the pair of the name and its persona key.
\<close>

definition find_agentNameKey :: "string \<Rightarrow> (string \<times> PersonaKey) option" where
  "find_agentNameKey agentName =
     find (\<lambda>e. toLowerCase (fst e) = toLowerCase agentName) PERSONA_NAME_TO_KEY_entries"

section \<open>Turn orchestrator\<close>

definition text_of :: "string \<Rightarrow> GeminiPart" where
  "text_of s = \<lparr>part_text = Some s, part_inlineData = None,
                part_functionCall = None, part_functionResponse = None\<rparr>"

definition inlineData_of :: "inlineData \<Rightarrow> GeminiPart" where
  "inlineData_of d = \<lparr>part_text = None, part_inlineData = Some d,
                      part_functionCall = None, part_functionResponse = None\<rparr>"

definition functionCall_of :: "functionCall \<Rightarrow> GeminiPart" where
  "functionCall_of c = \<lparr>part_text = None, part_inlineData = None,
                         part_functionCall = Some c, part_functionResponse = None\<rparr>"

definition functionResponse_of :: "functionResponse \<Rightarrow> GeminiPart" where
  "functionResponse_of r = \<lparr>part_text = None, part_inlineData = None,
                             part_functionCall = None, part_functionResponse = Some r\<rparr>"

text \<open>The body of \<open>for await (const chunk of stream)\<close> in the Gemini branch, on the pair
  \<open>(aggregatedText, functionCalls)\<close>.\<close>

definition gemini_chunk_step ::
  "string \<times> functionCall list \<Rightarrow> gemini_chunk \<Rightarrow> string \<times> functionCall list" where
  "gemini_chunk_step acc chunk =
     ((case chunk_text chunk of Some t \<Rightarrow> fst acc @ t | None \<Rightarrow> fst acc),
      (case chunk_functionCalls chunk of Some cs \<Rightarrow> snd acc @ cs | None \<Rightarrow> snd acc))"

text \<open>
  What the \<open>Chat\<close> object of the client library adds to its history when a stream has
  ended: the content sent, with role \<open>user\<close>, and the content of each chunk received,
  with role \<open>model\<close>, one message for each chunk. A stream that fails adds nothing.
\<close>

definition chunk_parts :: "gemini_chunk \<Rightarrow> GeminiPart list" where
  "chunk_parts chunk =
     (case chunk_text chunk of Some t \<Rightarrow> [text_of t] | None \<Rightarrow> [])
     @ (case chunk_functionCalls chunk of Some cs \<Rightarrow> map functionCall_of cs | None \<Rightarrow> [])"

definition record_exchange :: "GeminiPart list \<Rightarrow> gemini_chunk list \<Rightarrow> Chat \<Rightarrow> Chat" where
  "record_exchange sent received c =
     c\<lparr>chat_history := chat_history c
          @ GeminiMsg \<lparr>g_role = user, parts = sent\<rparr>
            # map (\<lambda>chunk. GeminiMsg \<lparr>g_role = model, parts = chunk_parts chunk\<rparr>) received\<rparr>"

text \<open>
  The two statements before a delegation (the log entry of type \<open>invoke\<close> and the
  \<open>Consulting with\<close> line in the wrapper) and the log entry after it. Both loops contain
  them with the same text.
\<close>

definition announce_invocation :: "string \<Rightarrow> string \<Rightarrow> string \<Rightarrow> string \<Rightarrow> app \<Rightarrow> app" where
  "announce_invocation selectedPersonaName aggregatedText agentName prompt st =
     on_wrapper
       (textContent (aggregatedText @ [CHR 0x0A, CHR 0x0A]
                     @ ''[Consulting with '' @ agentName @ ''...]''))
       (logOrchestrationEvent
          (''['' @ selectedPersonaName @ ''] is invoking ['' @ agentName @ ''] for task: '' @ dq
           @ take 50 prompt @ ''...'' @ dq) log_invoke st)"

definition announce_response :: "string \<Rightarrow> string \<Rightarrow> app \<Rightarrow> app" where
  "announce_response selectedPersonaName agentName st =
     logOrchestrationEvent
       (''['' @ selectedPersonaName @ ''] received response from ['' @ agentName
        @ '']. Continuing main task...'') log_info st"

text \<open>
  The state when a Gemini stream has ended: the wrapper shows the aggregated text (it is
  assigned whenever a chunk carries text), and the \<open>Chat\<close> has recorded the exchange.
  What the wrapper shows while a stream fails is not kept, because the handler removes
  the wrapper then.
\<close>

definition gemini_stream_end :: "GeminiPart list \<Rightarrow> gemini_chunk list \<Rightarrow> app \<Rightarrow> app" where
  "gemini_stream_end messageToSend received st =
     (let aggregatedText = fst (foldl gemini_chunk_step ([], []) received);
          st1 = (if aggregatedText \<noteq> [] then on_wrapper (textContent aggregatedText) st else st)
      in st1\<lparr>geminiChat := map_option (record_exchange messageToSend received) (geminiChat st1)\<rparr>)"

text \<open>
  How an iteration of a tool-call loop ends: the loop is left, with \<open>fullResponse\<close> or
  with the error thrown (\<open>Exit\<close>), or \<open>continueConversation\<close> is still true and the next
  iteration starts (\<open>Continue\<close>, with the next \<open>messageToSend\<close> in the Gemini branch).
\<close>

datatype 'm iteration = Exit "string promise" | Continue 'm

text \<open>The delegation executor takes nothing from the streamed scripts.\<close>

lemma executeInvokeAgent_streams:
  "executeInvokeAgent st a p = Some (st', r) \<Longrightarrow>
     gemini_streams st' = gemini_streams st \<and> openai_streams st' = openai_streams st"
  by (auto simp: executeInvokeAgent_def logOrchestrationEvent_def Let_def
           split: property.splits if_splits list.splits promise.splits)

text \<open>
  The body of the Gemini tool-call loop (\<open>while (continueConversation)\<close>). An iteration
  takes the next streamed reply of the script; \<open>None\<close>: the provider never answers.
\<close>

definition gemini_iteration ::
  "string \<Rightarrow> string list option \<Rightarrow> GeminiPart list \<Rightarrow> app
     \<Rightarrow> (app \<times> GeminiPart list iteration) option" where
  "gemini_iteration selectedPersonaName tools messageToSend st =
     (case gemini_streams st of
        [] \<Rightarrow> None
      | reply # rest \<Rightarrow>
          (let st1 = st\<lparr>gemini_streams := rest,
                         requests := requests st @ [sendMessageStream messageToSend tools]\<rparr>;
               aggregatedText = fst (foldl gemini_chunk_step ([], []) (chunks reply));
               functionCalls = snd (foldl gemini_chunk_step ([], []) (chunks reply))
           in case fails reply of
                Some e \<Rightarrow> Some (st1, Exit (Rejected e))
              | None \<Rightarrow>
                  (let st2 = gemini_stream_end messageToSend (chunks reply) st1
                   in case functionCalls of
                        [] \<Rightarrow> Some (st2, Exit (Resolved aggregatedText))
                      | call # _ \<Rightarrow>
                          (case fc_args call of
                             BadArgs m \<Rightarrow> Some (st2, Exit (Rejected m))
                           | Args agentName prompt \<Rightarrow>
                               (case executeInvokeAgent
                                       (announce_invocation selectedPersonaName aggregatedText
                                          agentName prompt st2)
                                       agentName prompt of
                                  None \<Rightarrow> None
                                | Some (st3, Rejected m) \<Rightarrow> Some (st3, Exit (Rejected m))
                                | Some (st3, Resolved toolResult) \<Rightarrow>
                                    Some (announce_response selectedPersonaName agentName st3,
                                          Continue
                                            [functionResponse_of
                                               \<lparr>fr_name = fc_name call,
                                                fr_content = toolResult\<rparr>]))))))"

lemma gemini_iteration_streams:
  "gemini_iteration n t m st = Some (st', x) \<Longrightarrow>
     length (gemini_streams st') < length (gemini_streams st)"
  by (auto simp: gemini_iteration_def announce_response_def announce_invocation_def
                 gemini_stream_end_def logOrchestrationEvent_def on_wrapper_def Let_def
           split: list.splits option.splits invoke_args.splits promise.splits if_splits
           dest!: executeInvokeAgent_streams)

function geminiLoop ::
  "string \<Rightarrow> string list option \<Rightarrow> GeminiPart list \<Rightarrow> app \<Rightarrow> (app \<times> string promise) option" where
  "geminiLoop selectedPersonaName tools messageToSend st =
     (case gemini_iteration selectedPersonaName tools messageToSend st of
        None \<Rightarrow> None
      | Some (st1, Exit r) \<Rightarrow> Some (st1, r)
      | Some (st1, Continue messageToSend1) \<Rightarrow>
          geminiLoop selectedPersonaName tools messageToSend1 st1)"
  by pat_completeness auto

termination geminiLoop
  by (relation "measure (\<lambda>(n, t, m, st). length (gemini_streams st))")
     (auto dest: gemini_iteration_streams)

declare geminiLoop.simps [simp del]

text \<open>
  The body of \<open>delta.tool_calls.forEach\<close>: a delta whose index is the current length
  opens a new call; a non-empty \<open>arguments\<close> fragment is appended to the call at the
  index, and throws when there is no call at that index.
\<close>

definition apply_delta :: "tool_call list \<Rightarrow> tool_call_delta \<Rightarrow> tool_call list promise" where
  "apply_delta toolCalls tc =
     (let toolCalls1 =
            (if index tc = length toolCalls
             then toolCalls @ [\<lparr>tc_id = delta_id tc,
                                tc_function = \<lparr>fn_name = delta_name tc, arguments = []\<rparr>\<rparr>]
             else toolCalls)
      in case delta_arguments tc of
           None \<Rightarrow> Resolved toolCalls1
         | Some a \<Rightarrow>
             if a = [] then Resolved toolCalls1
             else if index tc < length toolCalls1 then
               Resolved (toolCalls1[index tc :=
                  (toolCalls1 ! index tc)\<lparr>tc_function :=
                     (tc_function (toolCalls1 ! index tc))\<lparr>arguments :=
                        arguments (tc_function (toolCalls1 ! index tc)) @ a\<rparr>\<rparr>])
             else Rejected (''Cannot read properties of undefined (reading '' @ sq
                            @ ''function'' @ sq @ '')''))"

fun apply_deltas :: "tool_call list \<Rightarrow> tool_call_delta list \<Rightarrow> tool_call list promise" where
  "apply_deltas toolCalls [] = Resolved toolCalls"
| "apply_deltas toolCalls (tc # tcs) =
     (case apply_delta toolCalls tc of
        Rejected m \<Rightarrow> Rejected m
      | Resolved toolCalls1 \<Rightarrow> apply_deltas toolCalls1 tcs)"

text \<open>The \<open>for await\<close> of the OpenAI branch, on \<open>(aggregatedText, toolCalls)\<close>.\<close>

fun openai_collect ::
  "openai_chunk list \<Rightarrow> string \<times> tool_call list \<Rightarrow> (string \<times> tool_call list) promise" where
  "openai_collect [] acc = Resolved acc"
| "openai_collect (chunk # cs) acc =
     (let aggregatedText = fst acc @ (case delta_content chunk of Some c \<Rightarrow> c | None \<Rightarrow> [])
      in case delta_tool_calls chunk of
           None \<Rightarrow> openai_collect cs (aggregatedText, snd acc)
         | Some ds \<Rightarrow>
             (case apply_deltas (snd acc) ds of
                Rejected m \<Rightarrow> Rejected m
              | Resolved toolCalls \<Rightarrow> openai_collect cs (aggregatedText, toolCalls)))"

text \<open>
  The OpenAI tool-call loop. \<open>openAIMessages\<close> is the module-level array; the caller has
  tested it before the loop, so the first alternative is never taken from
  \<open>handleChatSubmit\<close>. The wrapper is assigned once for each chunk, so after a stream
  with at least one chunk it shows the aggregated text.
\<close>

definition push_message :: "OpenAIMessage \<Rightarrow> app \<Rightarrow> app" where
  "push_message m st =
     st\<lparr>openAIMessages := map_option (\<lambda>ms. ms @ [OpenAIMsg m]) (openAIMessages st)\<rparr>"

definition openai_iteration ::
  "string \<Rightarrow> string list option \<Rightarrow> app \<Rightarrow> (app \<times> unit iteration) option" where
  "openai_iteration selectedPersonaName tools st =
     (case openAIMessages st of
        None \<Rightarrow> Some (st, Exit (Rejected ''OpenAI chat not initialized.''))
      | Some messages \<Rightarrow>
     (case openai_streams st of
        [] \<Rightarrow> None
      | reply # rest \<Rightarrow>
          (let st1 = st\<lparr>openai_streams := rest,
                         requests := requests st @ [completions_create_stream messages tools]\<rparr>
           in case openai_collect (chunks reply) ([], []) of
                Rejected m \<Rightarrow> Some (st1, Exit (Rejected m))
              | Resolved (aggregatedText, toolCalls) \<Rightarrow>
                  (case fails reply of
                     Some e \<Rightarrow> Some (st1, Exit (Rejected e))
                   | None \<Rightarrow>
                       (let st2 = (if chunks reply \<noteq> []
                                   then on_wrapper (textContent aggregatedText) st1 else st1)
                        in case toolCalls of
                             [] \<Rightarrow>
                               Some (push_message (assistant_msg (Some aggregatedText) None) st2,
                                     Exit (Resolved aggregatedText))
                           | call # _ \<Rightarrow>
                               (let st3 = push_message (assistant_msg None (Some toolCalls)) st2
                                in case JSON_parse st3 (arguments (tc_function call)) of
                                     BadArgs m \<Rightarrow> Some (st3, Exit (Rejected m))
                                   | Args agentName prompt \<Rightarrow>
                                       (case executeInvokeAgent
                                               (announce_invocation selectedPersonaName
                                                  aggregatedText agentName prompt st3)
                                               agentName prompt of
                                          None \<Rightarrow> None
                                        | Some (st4, Rejected m) \<Rightarrow> Some (st4, Exit (Rejected m))
                                        | Some (st4, Resolved toolResult) \<Rightarrow>
                                            Some (push_message (tool_msg (tc_id call) toolResult)
                                                    (announce_response selectedPersonaName
                                                       agentName st4),
                                                  Continue ()))))))))"

lemma openai_iteration_streams:
  "openai_iteration n t st = Some (st', Continue u) \<Longrightarrow>
     length (openai_streams st') < length (openai_streams st)"
  by (auto simp: openai_iteration_def announce_response_def announce_invocation_def
                 push_message_def logOrchestrationEvent_def on_wrapper_def Let_def
           split: list.splits option.splits invoke_args.splits promise.splits if_splits
           dest!: executeInvokeAgent_streams)

function openaiLoop ::
  "string \<Rightarrow> string list option \<Rightarrow> app \<Rightarrow> (app \<times> string promise) option" where
  "openaiLoop selectedPersonaName tools st =
     (case openai_iteration selectedPersonaName tools st of
        None \<Rightarrow> None
      | Some (st1, Exit r) \<Rightarrow> Some (st1, r)
      | Some (st1, Continue _) \<Rightarrow> openaiLoop selectedPersonaName tools st1)"
  by pat_completeness auto

termination openaiLoop
  by (relation "measure (\<lambda>(n, t, st). length (openai_streams st))")
     (auto dest: openai_iteration_streams)

declare openaiLoop.simps [simp del]

text \<open>
  The \<open>try\<close> block of \<open>handleChatSubmit\<close>, in its three stages: the encoding of the
  staged file; the branch of the selected provider with its tool-call loop
  (\<open>provider_turn\<close>, whose result is \<open>fullResponse\<close>); the final update of the wrapper
  and the save of the exported history (\<open>complete_turn\<close>). The result of the block is
  the state together with normal completion or the error thrown.
\<close>

definition provider_turn ::
  "provider_id \<Rightarrow> PersonaKey \<Rightarrow> string \<Rightarrow> inlineData option \<Rightarrow> app
     \<Rightarrow> (app \<times> string promise) option" where
  "provider_turn selectedProvider selectedPersonaKey userInput base64File st =
     (let selectedPersonaName = name (PERSONAS selectedPersonaKey)
      in if selectedProvider = gemini \<and> ai st then
           (case geminiChat st of
              None \<Rightarrow> Some (st, Rejected ''Gemini chat not initialized.'')
            | Some _ \<Rightarrow>
                geminiLoop selectedPersonaName (getTools selectedPersonaKey)
                  ((if userInput \<noteq> [] then [text_of userInput] else [])
                   @ (case base64File of None \<Rightarrow> [] | Some d \<Rightarrow> [inlineData_of d]))
                  st)
         else if selectedProvider = openai \<and> openai_client st then
           (case openAIMessages st of
              None \<Rightarrow> Some (st, Rejected ''OpenAI chat not initialized.'')
            | Some _ \<Rightarrow>
                (let contentParts =
                       (if userInput \<noteq> [] then [text_part userInput] else [])
                       @ (case base64File of
                            None \<Rightarrow> []
                          | Some d \<Rightarrow> [image_url (''data:'' @ mimeType d @ '';base64,'' @ data d)]);
                     userMessage =
                       user_msg (case contentParts of
                                   [text_part t] \<Rightarrow> Str t
                                 | _ \<Rightarrow> Parts contentParts)
                 in openaiLoop selectedPersonaName (getTools selectedPersonaKey)
                      (push_message userMessage st)))
         else Some (st, Resolved []))"

definition sessionKey :: "provider_id \<Rightarrow> PersonaKey \<Rightarrow> string" where
  "sessionKey selectedProvider selectedPersonaKey =
     provider_string selectedProvider @ ''-'' @ key_string selectedPersonaKey"

definition complete_turn :: "provider_id \<Rightarrow> PersonaKey \<Rightarrow> string \<Rightarrow> app \<Rightarrow> app \<times> unit promise" where
  "complete_turn selectedProvider selectedPersonaKey fullResponse st =
     (let selectedPersonaName = name (PERSONAS selectedPersonaKey);
          st1 = logOrchestrationEvent
                  (''['' @ selectedPersonaName @ ''] generated final response. Task complete.'')
                  log_complete
                  (on_wrapper (textContent fullResponse)
                     (on_wrapper (\<lambda>m. m\<lparr>thinking := False\<rparr>) st))
      in if selectedProvider = gemini then
           (case geminiChat st1 of
              None \<Rightarrow>
                (st1, Rejected (''Cannot read properties of undefined (reading ''
                                @ sq @ ''getHistory'' @ sq @ '')''))
            | Some c \<Rightarrow>
                (case saveHistory (idb_request st1) (store st1)
                        (sessionKey selectedProvider selectedPersonaKey)
                        (Some (chat_history c)) of
                   (store1, r) \<Rightarrow> (st1\<lparr>store := store1\<rparr>, r)))
         else
           (case saveHistory (idb_request st1) (store st1)
                        (sessionKey selectedProvider selectedPersonaKey)
                   (openAIMessages st1) of
              (store1, r) \<Rightarrow> (st1\<lparr>store := store1\<rparr>, r)))"

definition turn_body ::
  "provider_id \<Rightarrow> PersonaKey \<Rightarrow> string \<Rightarrow> File option \<Rightarrow> app \<Rightarrow> (app \<times> unit promise) option" where
  "turn_body selectedProvider selectedPersonaKey userInput fileToProcess st =
     (case (case fileToProcess of
              None \<Rightarrow> Some (Resolved None)
            | Some f \<Rightarrow> (case fileToBase64 f of
                          None \<Rightarrow> None
                        | Some (Rejected m) \<Rightarrow> Some (Rejected m)
                        | Some (Resolved d) \<Rightarrow> Some (Resolved (Some d)))) of
        None \<Rightarrow> None
      | Some (Rejected m) \<Rightarrow> Some (st, Rejected m)
      | Some (Resolved base64File) \<Rightarrow>
          (case provider_turn selectedProvider selectedPersonaKey userInput base64File st of
             None \<Rightarrow> None
           | Some (st1, Rejected m) \<Rightarrow> Some (st1, Rejected m)
           | Some (st1, Resolved fullResponse) \<Rightarrow>
               Some (complete_turn selectedProvider selectedPersonaKey fullResponse st1)))"

text \<open>
  \<open>handleChatSubmit\<close> from the second emptiness test to its end: the user message and the
  thinking wrapper, the \<open>try\<close> block, and the \<open>catch\<close> and \<open>finally\<close> clauses.
\<close>

definition submitTurn :: "string \<Rightarrow> app \<Rightarrow> app option" where
  "submitTurn userInput st =
     (if userInput = [] \<and> stagedFile st = None then Some st
      else
        (let st1 = set_controls_disabled True (st\<lparr>chatInput_value := []\<rparr>);
             selectedProvider = modelSelector st1;
             selectedPersonaKey = personaSelector st1;
             selectedPersonaName = name (PERSONAS selectedPersonaKey);
             st2 = logOrchestrationEvent
                     (''User command received: '' @ dq @ userInput @ dq) log_user st1;
             st3 = on_wrapper
                     (\<lambda>m. m\<lparr>children :=
                              (case stagedFile st2 of
                                 None \<Rightarrow> []
                               | Some f \<Rightarrow> [img (object_url f) (file_name f)])
                              @ (if userInput \<noteq> [] then [span userInput] else [])\<rparr>)
                     (appendMessage ''USER>'' ''user-message'' st2);
             st4 = on_wrapper (\<lambda>m. m\<lparr>thinking := True\<rparr>)
                     (appendMessage (toUpperCase (key_string selectedPersonaKey) @ ''>'') [] st3);
             fileToProcess = stagedFile st4;
             st5 = logOrchestrationEvent
                     (''Task routed to ['' @ selectedPersonaName @ '']. Processing...'') log_info
                     (clearStagedFile st4)
         in case turn_body selectedProvider selectedPersonaKey userInput fileToProcess st5 of
              None \<Rightarrow> None
            | Some (st6, Resolved _) \<Rightarrow> Some (set_controls_disabled False st6)
            | Some (st6, Rejected errorMessage) \<Rightarrow>
                Some (set_controls_disabled False
                        (on_wrapper (textContent (''Error: '' @ errorMessage))
                           (appendMessage ''SYSTEM_ERROR>'' ''error-message''
                              (remove_wrapper
                                 (logOrchestrationEvent (''SYSTEM ERROR: '' @ errorMessage)
                                    log_error st6)))))))"

text \<open>The one-off delegation of \<open>handleChatSubmit\<close> (the branch that ends in \<open>return\<close>).\<close>

definition oneOffDelegation :: "string \<Rightarrow> string \<Rightarrow> string \<Rightarrow> PersonaKey \<Rightarrow> app \<Rightarrow> app option" where
  "oneOffDelegation userInput agentName promptForAgent targetPersonaKey st =
     (let st1 = set_controls_disabled True (st\<lparr>chatInput_value := []\<rparr>);
          currentPersonaName = name (PERSONAS (personaSelector st1));
          st2 = logOrchestrationEvent
                  (''Delegation detected. Routing task from ['' @ currentPersonaName @ ''] to [''
                   @ agentName @ ''].'') log_invoke
                  (logOrchestrationEvent
                     (''User command received: '' @ dq @ userInput @ dq) log_user st1);
          st3 = on_wrapper (textContent userInput) (appendMessage ''USER>'' ''user-message'' st2);
          st4 = on_wrapper (\<lambda>m. m\<lparr>thinking := True\<rparr>)
                  (appendMessage (toUpperCase (key_string targetPersonaKey) @ ''>'') [] st3)
      in case executeInvokeAgent st4 agentName promptForAgent of
           None \<Rightarrow> None
         | Some (st5, Resolved result) \<Rightarrow>
             Some (set_controls_disabled False
                     (logOrchestrationEvent
                        (''['' @ agentName @ ''] generated response. Task complete.'') log_complete
                        (on_wrapper (textContent result)
                           (on_wrapper (\<lambda>m. m\<lparr>thinking := False\<rparr>) st5))))
         | Some (st5, Rejected errorMessage) \<Rightarrow>
             Some (set_controls_disabled False
                     (on_wrapper (textContent (''Error during delegation: '' @ errorMessage))
                        (appendMessage ''SYSTEM_ERROR>'' ''error-message''
                           (remove_wrapper
                              (logOrchestrationEvent
                                 (''SYSTEM ERROR during delegation: '' @ errorMessage)
                                 log_error st5))))))"

text \<open>\<open>handleChatSubmit\<close>. \<open>None\<close>: the handler waits for ever on a provider (or on the
  file reader).\<close>

definition handleChatSubmit :: "app \<Rightarrow> app option" where
  "handleChatSubmit st =
     (let userInput = trim (chatInput_value st) in
      if userInput = [] \<and> stagedFile st = None then Some st
      else
        (case (if stagedFile st = None then mentionMatch userInput else None) of
           None \<Rightarrow> submitTurn userInput st
         | Some (agentName, rest) \<Rightarrow>
             (let promptForAgent = trim rest in
              case find_agentNameKey agentName of
                None \<Rightarrow> submitTurn userInput st
              | Some (agentNameKey, targetPersonaKey) \<Rightarrow>
                  if promptForAgent \<noteq> [] then
                    (if targetPersonaKey = personaSelector st then submitTurn promptForAgent st
                     else oneOffDelegation userInput agentName promptForAgent targetPersonaKey st)
                  else submitTurn userInput st)))"

section \<open>Session switch\<close>

text \<open>The filter of \<open>renderHistory\<close> and the children it gives to the wrapper of a message.\<close>

fun is_rendered :: "Message \<Rightarrow> bool" where
  "is_rendered (GeminiMsg m) =
     (\<not> list_ex (\<lambda>p. part_functionCall p \<noteq> None \<or> part_functionResponse p \<noteq> None) (parts m))"
| "is_rendered (OpenAIMsg (system_msg _)) = False"
| "is_rendered (OpenAIMsg (tool_msg _ _)) = False"
| "is_rendered (OpenAIMsg (assistant_msg _ tool_calls)) = (tool_calls = None)"
| "is_rendered (OpenAIMsg (user_msg _)) = True"

definition part_nodes :: "GeminiPart \<Rightarrow> node list" where
  "part_nodes p =
     (case part_text p of
        Some t \<Rightarrow> if t \<noteq> [] then [span t]
                  else (case part_inlineData p of
                          Some d \<Rightarrow> [img (''data:'' @ mimeType d @ '';base64,'' @ data d) ''Uploaded image'']
                        | None \<Rightarrow> [])
      | None \<Rightarrow> (case part_inlineData p of
                   Some d \<Rightarrow> [img (''data:'' @ mimeType d @ '';base64,'' @ data d) ''Uploaded image'']
                 | None \<Rightarrow> []))"

fun content_part_node :: "content_part \<Rightarrow> node" where
  "content_part_node (text_part t) = span t"
| "content_part_node (image_url u) = img u ''Uploaded image''"

fun content_nodes :: "content \<Rightarrow> node list" where
  "content_nodes (Str t) = [span t]"
| "content_nodes (Parts ps) = map content_part_node ps"

fun message_nodes :: "Message \<Rightarrow> node list" where
  "message_nodes (GeminiMsg m) = concat (map part_nodes (parts m))"
| "message_nodes (OpenAIMsg (system_msg t)) = [span t]"
| "message_nodes (OpenAIMsg (user_msg c)) = content_nodes c"
| "message_nodes (OpenAIMsg (assistant_msg c _)) = (case c of Some t \<Rightarrow> [span t] | None \<Rightarrow> [])"
| "message_nodes (OpenAIMsg (tool_msg _ t)) = [span t]"

definition render_message :: "app \<Rightarrow> Message \<Rightarrow> app" where
  "render_message st m =
     on_wrapper (\<lambda>d. d\<lparr>children := message_nodes m\<rparr>)
       (if message_role m = ''user'' then appendMessage ''USER>'' ''user-message'' st
        else appendMessage (toUpperCase (key_string (personaSelector st)) @ ''>'') [] st)"

definition renderHistory :: "ChatHistory \<Rightarrow> app \<Rightarrow> app" where
  "renderHistory h st = foldl render_message (st\<lparr>chatContainer := []\<rparr>) (filter is_rendered h)"

definition resetChatState :: "provider_id \<Rightarrow> PersonaKey \<Rightarrow> app \<Rightarrow> app" where
  "resetChatState p persona st =
     (let systemPrompt = generateSystemPrompt persona;
          st1 = (if p = gemini \<and> ai st
                 then st\<lparr>geminiChat := Some \<lparr>systemInstruction = systemPrompt, chat_history = []\<rparr>\<rparr>
                 else st)
      in if p = openai \<and> openai_client st1
         then st1\<lparr>openAIMessages := Some [OpenAIMsg (system_msg systemPrompt)]\<rparr>
         else st1)"

text \<open>
  \<open>handleSessionSwitch\<close>. The text of the selected option of the model selector comes
  from the page and is the argument \<open>providerName\<close>; the text of a persona option is the
  name of the persona (\<open>populatePersonas\<close>).
\<close>

definition hasMeaningfulHistory :: "ChatSession option \<Rightarrow> bool" where
  "hasMeaningfulHistory session =
     (case session of
        None \<Rightarrow> False
      | Some se \<Rightarrow> (case history se of
                     None \<Rightarrow> False
                   | Some h \<Rightarrow> list_ex (\<lambda>m. message_role m = ''user'') h))"

text \<open>
  \<open>ai.chats.create\<close> with a \<open>history\<close>: the client library checks the roles of the seeded
  messages and throws at the first one that is neither \<open>user\<close> nor \<open>model\<close>.
\<close>

definition validateHistory :: "ChatHistory \<Rightarrow> string option" where
  "validateHistory h =
     (case find (\<lambda>m. message_role m \<noteq> ''user'' \<and> message_role m \<noteq> ''model'') h of
        None \<Rightarrow> None
      | Some m \<Rightarrow> Some (''Role must be user or model, but got '' @ message_role m @ ''.''))"

definition handleSessionSwitch :: "string \<Rightarrow> app \<Rightarrow> app \<times> unit promise" where
  "handleSessionSwitch providerName st =
     (let selectedProvider = modelSelector st;
          selectedPersona = personaSelector st;
          personaName = name (PERSONAS selectedPersona);
          pfx = toUpperCase (key_string selectedPersona) @ ''>'';
          st1 = logOrchestrationEvent
                  (''Initializing session for '' @ personaName @ '' via '' @ providerName @ ''.'')
                  log_info (st\<lparr>chatContainer := [], orchestrationLog := []\<rparr>)
      in case getHistory (idb_request st1) (store st1)
                (sessionKey selectedProvider selectedPersona) of
           Rejected m \<Rightarrow> (st1, Rejected m)
         | Resolved session \<Rightarrow>
             (case (if hasMeaningfulHistory session then session else None) of
                Some se \<Rightarrow>
                  (let h = (case history se of Some h \<Rightarrow> h | None \<Rightarrow> []);
                       systemPrompt = generateSystemPrompt selectedPersona
                   in case (if selectedProvider = gemini \<and> ai st1 then
                              (case validateHistory h of
                                 Some e \<Rightarrow> Rejected e
                               | None \<Rightarrow>
                                   Resolved
                                     (st1\<lparr>geminiChat :=
                                            Some \<lparr>systemInstruction = systemPrompt,
                                                  chat_history = h\<rparr>\<rparr>))
                            else if selectedProvider = openai \<and> openai_client st1 then
                              Resolved (st1\<lparr>openAIMessages := Some h\<rparr>)
                            else Resolved st1) of
                        Rejected e \<Rightarrow> (st1, Rejected e)
                      | Resolved st2 \<Rightarrow>
                          (logOrchestrationEvent ''Session history restored.'' log_info
                             (on_wrapper
                                (textContent (''Session restored for '' @ personaName @ '' via ''
                                              @ providerName @ ''.''))
                                (appendMessage pfx ''system-message'' (renderHistory h st2))),
                           Resolved ()))
              | None \<Rightarrow>
                  (logOrchestrationEvent ''No history found. New session created.'' log_info
                     (on_wrapper
                        (textContent (''New session started for '' @ personaName @ '' via ''
                                      @ providerName @ ''. Awaiting your input.''))
                        (appendMessage pfx ''system-message''
                           (resetChatState selectedProvider selectedPersona st1))),
                   Resolved ())))"

section \<open>Observations on states and inputs\<close>

text \<open>Requests of the tool-call loops, as opposed to requests of the delegation executor.\<close>

fun is_stream_request :: "api_request \<Rightarrow> bool" where
  "is_stream_request (sendMessageStream _ _) = True"
| "is_stream_request (completions_create_stream _ _) = True"
| "is_stream_request (generateContent _ _) = False"
| "is_stream_request (completions_create _) = False"

text \<open>The number of log entries of type \<open>invoke\<close>. The loops write one before each call of
  the delegation executor.\<close>

definition invoke_count :: "app \<Rightarrow> nat" where
  "invoke_count st = length (filter (\<lambda>e. snd e = log_invoke) (orchestrationLog st))"

text \<open>
  The three tests that \<open>handleChatSubmit\<close> makes on a text before it treats it as a
  mention: the expression matches, the name is the name of a persona in some letter
  case, and the trimmed remainder is not empty.
\<close>

definition mention_resolves :: "string \<Rightarrow> bool" where
  "mention_resolves s =
     (case mentionMatch s of
        None \<Rightarrow> False
      | Some (agentName, rest) \<Rightarrow> find_agentNameKey agentName \<noteq> None \<and> trim rest \<noteq> [])"

text \<open>The identifiers of the tool calls that a message records, and the identifier that a
  message of role \<open>tool\<close> answers.\<close>

fun tool_call_ids :: "Message \<Rightarrow> string option list" where
  "tool_call_ids (OpenAIMsg (assistant_msg _ (Some tcs))) = map tc_id tcs"
| "tool_call_ids _ = []"

fun tool_response_ids :: "Message \<Rightarrow> string option list" where
  "tool_response_ids (OpenAIMsg (tool_msg i _)) = [i]"
| "tool_response_ids _ = []"

section \<open>Example states\<close>

text \<open>
  A state to run the handlers on: both clients configured, Gemini and the persona Lyra
  selected, a fresh session for them, an empty store, providers that have nothing to
  say yet. \<open>example_parse\<close> is \<open>JSON.parse\<close> and the reading of the two fields on the
  texts that the examples stream: two JSON objects, and the empty text, which
  \<open>JSON.parse\<close> refuses. No other text occurs in the examples.
\<close>

definition kara_arguments :: string where
  "kara_arguments =
     ''{'' @ dq @ ''agentName'' @ dq @ '':'' @ dq @ ''Kara'' @ dq @ '',''
     @ dq @ ''prompt'' @ dq @ '':'' @ dq @ ''audit'' @ dq @ ''}''"

definition dan_arguments :: string where
  "dan_arguments =
     ''{'' @ dq @ ''agentName'' @ dq @ '':'' @ dq @ ''Dan'' @ dq @ '',''
     @ dq @ ''prompt'' @ dq @ '':'' @ dq @ ''deploy'' @ dq @ ''}''"

definition example_parse :: "string \<Rightarrow> invoke_args" where
  "example_parse s =
     (if s = kara_arguments then Args ''Kara'' ''audit''
      else if s = dan_arguments then Args ''Dan'' ''deploy''
      else BadArgs ''Unexpected end of JSON input'')"

definition example_app :: app where
  "example_app =
     \<lparr>stagedFile = None, chatInput_value = [], chatInput_disabled = False,
      submitButton_disabled = False, uploadButton_disabled = False,
      modelSelector = gemini, personaSelector = Lyra,
      chatContainer = [], orchestrationLog = [],
      geminiChat = Some \<lparr>systemInstruction = generateSystemPrompt Lyra, chat_history = []\<rparr>,
      openAIMessages = None, ai = True, openai_client = True,
      store = Map.empty, idb_request = onsuccess,
      gemini_streams = [], openai_streams = [], completions = [], requests = [],
      JSON_parse = example_parse\<rparr>"

text \<open>The same with OpenAI selected and its fresh session.\<close>

definition example_openai_app :: app where
  "example_openai_app =
     example_app\<lparr>modelSelector := openai, geminiChat := None,
                  openAIMessages := Some [OpenAIMsg (system_msg (generateSystemPrompt Lyra))]\<rparr>"

section \<open>What each step leaves unchanged\<close>

text \<open>Every step of a handler writes a few components of the state and leaves the others
  as they are.\<close>

lemma logOrchestrationEvent_fields [simp]:
  "stagedFile (logOrchestrationEvent m t st) = stagedFile st"
  "chatInput_value (logOrchestrationEvent m t st) = chatInput_value st"
  "chatInput_disabled (logOrchestrationEvent m t st) = chatInput_disabled st"
  "submitButton_disabled (logOrchestrationEvent m t st) = submitButton_disabled st"
  "uploadButton_disabled (logOrchestrationEvent m t st) = uploadButton_disabled st"
  "modelSelector (logOrchestrationEvent m t st) = modelSelector st"
  "personaSelector (logOrchestrationEvent m t st) = personaSelector st"
  "chatContainer (logOrchestrationEvent m t st) = chatContainer st"
  "geminiChat (logOrchestrationEvent m t st) = geminiChat st"
  "openAIMessages (logOrchestrationEvent m t st) = openAIMessages st"
  "ai (logOrchestrationEvent m t st) = ai st"
  "openai_client (logOrchestrationEvent m t st) = openai_client st"
  "store (logOrchestrationEvent m t st) = store st"
  "idb_request (logOrchestrationEvent m t st) = idb_request st"
  "gemini_streams (logOrchestrationEvent m t st) = gemini_streams st"
  "openai_streams (logOrchestrationEvent m t st) = openai_streams st"
  "completions (logOrchestrationEvent m t st) = completions st"
  "requests (logOrchestrationEvent m t st) = requests st"
  "JSON_parse (logOrchestrationEvent m t st) = JSON_parse st"
  by (simp_all add: logOrchestrationEvent_def)

lemma appendMessage_fields [simp]:
  "stagedFile (appendMessage p c st) = stagedFile st"
  "chatInput_value (appendMessage p c st) = chatInput_value st"
  "chatInput_disabled (appendMessage p c st) = chatInput_disabled st"
  "submitButton_disabled (appendMessage p c st) = submitButton_disabled st"
  "uploadButton_disabled (appendMessage p c st) = uploadButton_disabled st"
  "modelSelector (appendMessage p c st) = modelSelector st"
  "personaSelector (appendMessage p c st) = personaSelector st"
  "orchestrationLog (appendMessage p c st) = orchestrationLog st"
  "geminiChat (appendMessage p c st) = geminiChat st"
  "openAIMessages (appendMessage p c st) = openAIMessages st"
  "ai (appendMessage p c st) = ai st"
  "openai_client (appendMessage p c st) = openai_client st"
  "store (appendMessage p c st) = store st"
  "idb_request (appendMessage p c st) = idb_request st"
  "gemini_streams (appendMessage p c st) = gemini_streams st"
  "openai_streams (appendMessage p c st) = openai_streams st"
  "completions (appendMessage p c st) = completions st"
  "requests (appendMessage p c st) = requests st"
  "JSON_parse (appendMessage p c st) = JSON_parse st"
  by (simp_all add: appendMessage_def)

lemma on_wrapper_fields [simp]:
  "stagedFile (on_wrapper f st) = stagedFile st"
  "chatInput_value (on_wrapper f st) = chatInput_value st"
  "chatInput_disabled (on_wrapper f st) = chatInput_disabled st"
  "submitButton_disabled (on_wrapper f st) = submitButton_disabled st"
  "uploadButton_disabled (on_wrapper f st) = uploadButton_disabled st"
  "modelSelector (on_wrapper f st) = modelSelector st"
  "personaSelector (on_wrapper f st) = personaSelector st"
  "orchestrationLog (on_wrapper f st) = orchestrationLog st"
  "geminiChat (on_wrapper f st) = geminiChat st"
  "openAIMessages (on_wrapper f st) = openAIMessages st"
  "ai (on_wrapper f st) = ai st"
  "openai_client (on_wrapper f st) = openai_client st"
  "store (on_wrapper f st) = store st"
  "idb_request (on_wrapper f st) = idb_request st"
  "gemini_streams (on_wrapper f st) = gemini_streams st"
  "openai_streams (on_wrapper f st) = openai_streams st"
  "completions (on_wrapper f st) = completions st"
  "requests (on_wrapper f st) = requests st"
  "JSON_parse (on_wrapper f st) = JSON_parse st"
  by (simp_all add: on_wrapper_def)

lemma remove_wrapper_fields [simp]:
  "stagedFile (remove_wrapper st) = stagedFile st"
  "chatInput_value (remove_wrapper st) = chatInput_value st"
  "chatInput_disabled (remove_wrapper st) = chatInput_disabled st"
  "submitButton_disabled (remove_wrapper st) = submitButton_disabled st"
  "uploadButton_disabled (remove_wrapper st) = uploadButton_disabled st"
  "modelSelector (remove_wrapper st) = modelSelector st"
  "personaSelector (remove_wrapper st) = personaSelector st"
  "orchestrationLog (remove_wrapper st) = orchestrationLog st"
  "geminiChat (remove_wrapper st) = geminiChat st"
  "openAIMessages (remove_wrapper st) = openAIMessages st"
  "ai (remove_wrapper st) = ai st"
  "openai_client (remove_wrapper st) = openai_client st"
  "store (remove_wrapper st) = store st"
  "idb_request (remove_wrapper st) = idb_request st"
  "gemini_streams (remove_wrapper st) = gemini_streams st"
  "openai_streams (remove_wrapper st) = openai_streams st"
  "completions (remove_wrapper st) = completions st"
  "requests (remove_wrapper st) = requests st"
  "JSON_parse (remove_wrapper st) = JSON_parse st"
  by (simp_all add: remove_wrapper_def)

lemma set_controls_disabled_fields [simp]:
  "stagedFile (set_controls_disabled b st) = stagedFile st"
  "chatInput_value (set_controls_disabled b st) = chatInput_value st"
  "modelSelector (set_controls_disabled b st) = modelSelector st"
  "personaSelector (set_controls_disabled b st) = personaSelector st"
  "chatContainer (set_controls_disabled b st) = chatContainer st"
  "orchestrationLog (set_controls_disabled b st) = orchestrationLog st"
  "geminiChat (set_controls_disabled b st) = geminiChat st"
  "openAIMessages (set_controls_disabled b st) = openAIMessages st"
  "ai (set_controls_disabled b st) = ai st"
  "openai_client (set_controls_disabled b st) = openai_client st"
  "store (set_controls_disabled b st) = store st"
  "idb_request (set_controls_disabled b st) = idb_request st"
  "gemini_streams (set_controls_disabled b st) = gemini_streams st"
  "openai_streams (set_controls_disabled b st) = openai_streams st"
  "completions (set_controls_disabled b st) = completions st"
  "requests (set_controls_disabled b st) = requests st"
  "JSON_parse (set_controls_disabled b st) = JSON_parse st"
  by (simp_all add: set_controls_disabled_def)

lemma clearStagedFile_fields [simp]:
  "chatInput_value (clearStagedFile st) = chatInput_value st"
  "chatInput_disabled (clearStagedFile st) = chatInput_disabled st"
  "submitButton_disabled (clearStagedFile st) = submitButton_disabled st"
  "uploadButton_disabled (clearStagedFile st) = uploadButton_disabled st"
  "modelSelector (clearStagedFile st) = modelSelector st"
  "personaSelector (clearStagedFile st) = personaSelector st"
  "chatContainer (clearStagedFile st) = chatContainer st"
  "orchestrationLog (clearStagedFile st) = orchestrationLog st"
  "geminiChat (clearStagedFile st) = geminiChat st"
  "openAIMessages (clearStagedFile st) = openAIMessages st"
  "ai (clearStagedFile st) = ai st"
  "openai_client (clearStagedFile st) = openai_client st"
  "store (clearStagedFile st) = store st"
  "idb_request (clearStagedFile st) = idb_request st"
  "gemini_streams (clearStagedFile st) = gemini_streams st"
  "openai_streams (clearStagedFile st) = openai_streams st"
  "completions (clearStagedFile st) = completions st"
  "requests (clearStagedFile st) = requests st"
  "JSON_parse (clearStagedFile st) = JSON_parse st"
  by (simp_all add: clearStagedFile_def)

lemma push_message_fields [simp]:
  "stagedFile (push_message m st) = stagedFile st"
  "chatInput_value (push_message m st) = chatInput_value st"
  "chatInput_disabled (push_message m st) = chatInput_disabled st"
  "submitButton_disabled (push_message m st) = submitButton_disabled st"
  "uploadButton_disabled (push_message m st) = uploadButton_disabled st"
  "modelSelector (push_message m st) = modelSelector st"
  "personaSelector (push_message m st) = personaSelector st"
  "chatContainer (push_message m st) = chatContainer st"
  "orchestrationLog (push_message m st) = orchestrationLog st"
  "geminiChat (push_message m st) = geminiChat st"
  "ai (push_message m st) = ai st"
  "openai_client (push_message m st) = openai_client st"
  "store (push_message m st) = store st"
  "idb_request (push_message m st) = idb_request st"
  "gemini_streams (push_message m st) = gemini_streams st"
  "openai_streams (push_message m st) = openai_streams st"
  "completions (push_message m st) = completions st"
  "requests (push_message m st) = requests st"
  "JSON_parse (push_message m st) = JSON_parse st"
  by (simp_all add: push_message_def)

lemma announce_invocation_fields [simp]:
  "stagedFile (announce_invocation n T a p st) = stagedFile st"
  "chatInput_value (announce_invocation n T a p st) = chatInput_value st"
  "chatInput_disabled (announce_invocation n T a p st) = chatInput_disabled st"
  "submitButton_disabled (announce_invocation n T a p st) = submitButton_disabled st"
  "uploadButton_disabled (announce_invocation n T a p st) = uploadButton_disabled st"
  "modelSelector (announce_invocation n T a p st) = modelSelector st"
  "personaSelector (announce_invocation n T a p st) = personaSelector st"
  "geminiChat (announce_invocation n T a p st) = geminiChat st"
  "openAIMessages (announce_invocation n T a p st) = openAIMessages st"
  "ai (announce_invocation n T a p st) = ai st"
  "openai_client (announce_invocation n T a p st) = openai_client st"
  "store (announce_invocation n T a p st) = store st"
  "idb_request (announce_invocation n T a p st) = idb_request st"
  "gemini_streams (announce_invocation n T a p st) = gemini_streams st"
  "openai_streams (announce_invocation n T a p st) = openai_streams st"
  "completions (announce_invocation n T a p st) = completions st"
  "requests (announce_invocation n T a p st) = requests st"
  "JSON_parse (announce_invocation n T a p st) = JSON_parse st"
  by (simp_all add: announce_invocation_def logOrchestrationEvent_def on_wrapper_def)

lemma announce_response_fields [simp]:
  "stagedFile (announce_response n a st) = stagedFile st"
  "chatInput_value (announce_response n a st) = chatInput_value st"
  "chatInput_disabled (announce_response n a st) = chatInput_disabled st"
  "submitButton_disabled (announce_response n a st) = submitButton_disabled st"
  "uploadButton_disabled (announce_response n a st) = uploadButton_disabled st"
  "modelSelector (announce_response n a st) = modelSelector st"
  "personaSelector (announce_response n a st) = personaSelector st"
  "chatContainer (announce_response n a st) = chatContainer st"
  "geminiChat (announce_response n a st) = geminiChat st"
  "openAIMessages (announce_response n a st) = openAIMessages st"
  "ai (announce_response n a st) = ai st"
  "openai_client (announce_response n a st) = openai_client st"
  "store (announce_response n a st) = store st"
  "idb_request (announce_response n a st) = idb_request st"
  "gemini_streams (announce_response n a st) = gemini_streams st"
  "openai_streams (announce_response n a st) = openai_streams st"
  "completions (announce_response n a st) = completions st"
  "requests (announce_response n a st) = requests st"
  "JSON_parse (announce_response n a st) = JSON_parse st"
  by (simp_all add: announce_response_def logOrchestrationEvent_def)

lemma gemini_stream_end_fields [simp]:
  "stagedFile (gemini_stream_end m cs st) = stagedFile st"
  "chatInput_value (gemini_stream_end m cs st) = chatInput_value st"
  "chatInput_disabled (gemini_stream_end m cs st) = chatInput_disabled st"
  "submitButton_disabled (gemini_stream_end m cs st) = submitButton_disabled st"
  "uploadButton_disabled (gemini_stream_end m cs st) = uploadButton_disabled st"
  "modelSelector (gemini_stream_end m cs st) = modelSelector st"
  "personaSelector (gemini_stream_end m cs st) = personaSelector st"
  "orchestrationLog (gemini_stream_end m cs st) = orchestrationLog st"
  "openAIMessages (gemini_stream_end m cs st) = openAIMessages st"
  "ai (gemini_stream_end m cs st) = ai st"
  "openai_client (gemini_stream_end m cs st) = openai_client st"
  "store (gemini_stream_end m cs st) = store st"
  "idb_request (gemini_stream_end m cs st) = idb_request st"
  "gemini_streams (gemini_stream_end m cs st) = gemini_streams st"
  "openai_streams (gemini_stream_end m cs st) = openai_streams st"
  "completions (gemini_stream_end m cs st) = completions st"
  "requests (gemini_stream_end m cs st) = requests st"
  "JSON_parse (gemini_stream_end m cs st) = JSON_parse st"
  by (simp_all add: gemini_stream_end_def on_wrapper_def Let_def)

lemma orchestrationLog_logOrchestrationEvent [simp]:
  "orchestrationLog (logOrchestrationEvent m t st) = orchestrationLog st @ [(m, t)]"
  by (simp add: logOrchestrationEvent_def)

lemma chatContainer_appendMessage [simp]:
  "chatContainer (appendMessage p c st) =
     chatContainer st @ [\<lparr>prefix = p, messageClass = c, thinking = False, children = []\<rparr>]"
  by (simp add: appendMessage_def)

lemma chatContainer_on_wrapper_snoc [simp]:
  "chatContainer st = ms @ [m] \<Longrightarrow> chatContainer (on_wrapper f st) = ms @ [f m]"
  by (simp add: on_wrapper_def)

lemma chatContainer_remove_wrapper [simp]:
  "chatContainer (remove_wrapper st) = butlast (chatContainer st)"
  by (simp add: remove_wrapper_def)

lemma openAIMessages_push_message [simp]:
  "openAIMessages (push_message m st) = map_option (\<lambda>ms. ms @ [OpenAIMsg m]) (openAIMessages st)"
  by (simp add: push_message_def)

section \<open>Lemmas on the executor and the loops\<close>


lemma executeInvokeAgent_store:
  "executeInvokeAgent st a p = Some (st', r) \<Longrightarrow> store st' = store st"
  by (auto simp: executeInvokeAgent_def logOrchestrationEvent_def Let_def
           split: property.splits if_splits list.splits promise.splits)










section \<open>Lemmas on the mention path\<close>

lemma trim_idem: "trim (trim s) = trim s"
proof -
  define ys where "ys = dropWhile isSpaceChar s"
  define zs where "zs = dropWhile isSpaceChar (rev ys)"
  have t: "trim s = rev zs" by (simp add: trim_def ys_def zs_def)
  show ?thesis
  proof (cases "zs = []")
    case True
    then have e: "trim s = []" by (simp add: t)
    have "trim [] = []" by (simp add: trim_def)
    then show ?thesis by (simp only: e)
  next
    case False
    then have hz: "\<not> isSpaceChar (hd zs)" unfolding zs_def by (rule hd_dropWhile)
    have "ys \<noteq> []" using False by (auto simp: zs_def)
    then have hy: "\<not> isSpaceChar (hd ys)" unfolding ys_def by (rule hd_dropWhile)
    obtain pre where pre: "rev ys = pre @ zs"
      unfolding zs_def by (metis takeWhile_dropWhile_id)
    then have "ys = rev zs @ rev pre" by (metis rev_append rev_rev_ident)
    with False have "hd (rev zs) = hd ys" by simp
    with hy have 1: "dropWhile isSpaceChar (rev zs) = rev zs"
      using False by (cases "rev zs") auto
    have 2: "dropWhile isSpaceChar zs = zs" using hz False by (cases zs) auto
    show ?thesis by (simp add: t) (simp add: trim_def 1 2)
  qed
qed

lemma mentionMatch_nonempty: "mentionMatch s = Some x \<Longrightarrow> s \<noteq> []"
  by (auto simp: mentionMatch_def)

lemma submitTurn_chatInput:
  "u \<noteq> [] \<Longrightarrow> submitTurn u (st\<lparr>chatInput_value := x\<rparr>) = submitTurn u st"
  by (simp add: submitTurn_def set_controls_disabled_def)

lemma executeInvokeAgent_context:
  "executeInvokeAgent st a p = Some (st', r) \<Longrightarrow>
     geminiChat st' = geminiChat st \<and> openAIMessages st' = openAIMessages st"
  by (auto simp: executeInvokeAgent_def logOrchestrationEvent_def Let_def
           split: property.splits if_splits list.splits promise.splits)

lemma executeInvokeAgent_requests:
  "executeInvokeAgent st a p = Some (st', r) \<Longrightarrow>
     filter is_stream_request (requests st') = filter is_stream_request (requests st)"
  by (auto simp: executeInvokeAgent_def logOrchestrationEvent_def Let_def
           split: property.splits if_splits list.splits promise.splits)

lemma executeInvokeAgent_answers:
  "completions st \<noteq> [] \<Longrightarrow> executeInvokeAgent st a p \<noteq> None"
  by (auto simp: executeInvokeAgent_def logOrchestrationEvent_def Let_def
           split: property.splits if_splits list.splits promise.splits)

lemma executeInvokeAgent_frame:
  assumes "executeInvokeAgent st a p = Some (st', r)"
  shows "geminiChat st' = geminiChat st \<and> openAIMessages st' = openAIMessages st
       \<and> store st' = store st
       \<and> gemini_streams st' = gemini_streams st \<and> openai_streams st' = openai_streams st
       \<and> filter is_stream_request (requests st') = filter is_stream_request (requests st)"
  using executeInvokeAgent_context[OF assms] executeInvokeAgent_store[OF assms]
    executeInvokeAgent_streams[OF assms] executeInvokeAgent_requests[OF assms]
  by simp

lemma oneOffDelegation_frame:
  assumes "oneOffDelegation u a p k st = Some st'"
  shows "geminiChat st' = geminiChat st \<and> openAIMessages st' = openAIMessages st
       \<and> store st' = store st
       \<and> gemini_streams st' = gemini_streams st \<and> openai_streams st' = openai_streams st
       \<and> filter is_stream_request (requests st') = filter is_stream_request (requests st)"
  using assms
  by (auto simp: oneOffDelegation_def Let_def
           split: option.splits promise.splits
           dest!: executeInvokeAgent_frame)

lemma oneOffDelegation_returns:
  assumes "completions st \<noteq> []"
  shows "oneOffDelegation u a p k st \<noteq> None"
proof -
  have "executeInvokeAgent s a p \<noteq> None" if "completions s = completions st" for s
    using that assms by (intro executeInvokeAgent_answers) simp
  then show ?thesis
    by (auto simp: oneOffDelegation_def Let_def split: option.splits promise.splits)
qed

text \<open>Definitions to unfold when a handler is run on a concrete state.\<close>

lemmas string_defs = trim_def isSpaceChar_def mentionMatch_def isWordChar_def upper_letters_def
  lower_letters_def digit_chars_def latin1_upper_def latin1_lower_def find_agentNameKey_def PERSONA_NAME_TO_KEY_entries_def
  persona_keys_def toLowerCase_def toLowerChar_def toUpperCase_def toUpperChar_def

lemmas eval_defs = handleChatSubmit_def submitTurn_def oneOffDelegation_def turn_body_def
  provider_turn_def complete_turn_def geminiLoop.simps gemini_iteration_def openaiLoop.simps
  openai_iteration_def executeInvokeAgent_def PERSONA_NAME_TO_KEY_MAP_def object_prototype_names_def
  gemini_chunk_step_def saveHistory_def sessionKey_def
  announce_invocation_def announce_response_def gemini_stream_end_def record_exchange_def
  chunk_parts_def push_message_def logOrchestrationEvent_def on_wrapper_def appendMessage_def
  remove_wrapper_def set_controls_disabled_def clearStagedFile_def textContent_def
  text_of_def functionCall_of_def functionResponse_of_def inlineData_of_def
  getTools_def dq_def sq_def Let_def

section \<open>Lemmas on the iterations of the loops\<close>

lemmas turn_defs = submitTurn_def turn_body_def provider_turn_def complete_turn_def
  gemini_iteration_def openai_iteration_def executeInvokeAgent_def
  saveHistory_def sessionKey_def
  announce_invocation_def announce_response_def gemini_stream_end_def
  push_message_def logOrchestrationEvent_def on_wrapper_def appendMessage_def
  remove_wrapper_def set_controls_disabled_def clearStagedFile_def textContent_def
  invoke_count_def Let_def

lemmas iteration_defs = gemini_iteration_def openai_iteration_def executeInvokeAgent_def
  announce_invocation_def announce_response_def gemini_stream_end_def
  push_message_def logOrchestrationEvent_def on_wrapper_def invoke_count_def Let_def

text \<open>
  A turn (on a text, on a staged file that the reader encodes, or on both) with a script
  of two streamed replies, the first with a tool call whose arguments can be read, the
  second with text only: what the delegation executor is called with, what it returns
  and where its result goes, in terms of the run of the executor on the state before
  the turn.
\<close>

lemma gemini_call_then_text:
  assumes input: "userInput \<noteq> [] \<or> stagedFile st \<noteq> None"
    and staged: "\<forall>f. stagedFile st = Some f \<longrightarrow> fileToBase64 f = Some (Resolved d)"
    and ready: "modelSelector st = gemini" "ai st" "geminiChat st = Some c" "idb_request st = onsuccess"
    and script: "gemini_streams st = \<lparr>chunks = cs1, fails = None\<rparr> # \<lparr>chunks = cs2, fails = None\<rparr> # later"
    and r1: "foldl gemini_chunk_step ([], []) cs1 = (T1, call # others)" "fc_args call = Args agentName prompt"
    and r2: "foldl gemini_chunk_step ([], []) cs2 = (answer, [])"
    and deleg: "PERSONA_NAME_TO_KEY_MAP agentName \<noteq> Inherited" "completions st \<noteq> []"
  shows "case executeInvokeAgent st agentName prompt of
           Some (sd, Resolved toolResult) \<Rightarrow>
             (\<exists>st'. submitTurn userInput st = Some st'
                \<and> completions st' = completions sd
                \<and> requests st' = requests st
                     @ sendMessageStream
                         ((if userInput \<noteq> [] then [text_of userInput] else [])
                          @ (case stagedFile st of None \<Rightarrow> [] | Some f \<Rightarrow> [inlineData_of d]))
                         (getTools (personaSelector st))
                     # drop (length (requests st)) (requests sd)
                     @ [sendMessageStream
                          [functionResponse_of \<lparr>fr_name = fc_name call, fr_content = toolResult\<rparr>]
                          (getTools (personaSelector st))]
                \<and> invoke_count st' = invoke_count st + 1
                \<and> gemini_streams st' = later \<and> openai_streams st' = openai_streams st
                \<and> chatContainer st' = chatContainer st
                     @ [\<lparr>prefix = ''USER>'', messageClass = ''user-message'', thinking = False,
                          children = (case stagedFile st of
                                        None \<Rightarrow> []
                                      | Some f \<Rightarrow> [img (object_url f) (file_name f)])
                                     @ (if userInput \<noteq> [] then [span userInput] else [])\<rparr>,
                        \<lparr>prefix = toUpperCase (key_string (personaSelector st)) @ ''>'',
                          messageClass = [], thinking = False, children = [text_node answer]\<rparr>]
                \<and> snd (last (orchestrationLog st')) = log_complete
                \<and> store st' = (store st)(sessionKey gemini (personaSelector st) \<mapsto>
                     \<lparr>provider = sessionKey gemini (personaSelector st),
                      history = map_option chat_history (geminiChat st')\<rparr>))
         | _ \<Rightarrow> False"
proof (cases "PERSONA_NAME_TO_KEY_MAP agentName")
  case Undefined
  show ?thesis
    using assms Undefined
    by (cases "stagedFile st") (simp_all add: turn_defs geminiLoop.simps)
next
  case Inherited
  with deleg show ?thesis by simp
next
  case (Own k)
  from deleg obtain reply rest where comp: "completions st = reply # rest"
    by (cases "completions st") auto
  show ?thesis
  proof (cases reply)
    case (Resolved res)
    show ?thesis
      using assms Own comp Resolved
      by (cases "stagedFile st") (simp_all add: turn_defs geminiLoop.simps)
  next
    case (Rejected e)
    show ?thesis
      using assms Own comp Rejected
      by (cases "stagedFile st") (simp_all add: turn_defs geminiLoop.simps)
  qed
qed

lemma openai_call_then_text:
  assumes input: "userInput \<noteq> [] \<or> stagedFile st \<noteq> None"
    and staged: "\<forall>f. stagedFile st = Some f \<longrightarrow> fileToBase64 f = Some (Resolved d)"
    and ready: "modelSelector st = openai" "openai_client st" "openAIMessages st = Some ms"
      "idb_request st = onsuccess"
    and script: "openai_streams st = \<lparr>chunks = ds1, fails = None\<rparr> # \<lparr>chunks = ds2, fails = None\<rparr> # later"
    and r1: "openai_collect ds1 ([], []) = Resolved (T1, call # others)"
      "JSON_parse st (arguments (tc_function call)) = Args agentName prompt"
    and r2: "openai_collect ds2 ([], []) = Resolved (answer, [])"
    and deleg: "PERSONA_NAME_TO_KEY_MAP agentName \<noteq> Inherited" "completions st \<noteq> []"
    and msg: "userMessage =
        OpenAIMsg (user_msg
          (case (if userInput \<noteq> [] then [text_part userInput] else [])
                @ (case stagedFile st of
                     None \<Rightarrow> []
                   | Some f \<Rightarrow> [image_url (''data:'' @ mimeType d @ '';base64,'' @ data d)]) of
             [text_part t] \<Rightarrow> Str t
           | contentParts \<Rightarrow> Parts contentParts))"
  shows "case executeInvokeAgent st agentName prompt of
           Some (sd, Resolved toolResult) \<Rightarrow>
             (\<exists>st'. submitTurn userInput st = Some st'
                \<and> completions st' = completions sd
                \<and> requests st' = requests st
                     @ completions_create_stream (ms @ [userMessage])
                         (getTools (personaSelector st))
                     # drop (length (requests st)) (requests sd)
                     @ [completions_create_stream
                          (ms @ [userMessage,
                                 OpenAIMsg (assistant_msg None (Some (call # others))),
                                 OpenAIMsg (tool_msg (tc_id call) toolResult)])
                          (getTools (personaSelector st))]
                \<and> invoke_count st' = invoke_count st + 1
                \<and> openai_streams st' = later \<and> gemini_streams st' = gemini_streams st
                \<and> chatContainer st' = chatContainer st
                     @ [\<lparr>prefix = ''USER>'', messageClass = ''user-message'', thinking = False,
                          children = (case stagedFile st of
                                        None \<Rightarrow> []
                                      | Some f \<Rightarrow> [img (object_url f) (file_name f)])
                                     @ (if userInput \<noteq> [] then [span userInput] else [])\<rparr>,
                        \<lparr>prefix = toUpperCase (key_string (personaSelector st)) @ ''>'',
                          messageClass = [], thinking = False, children = [text_node answer]\<rparr>]
                \<and> snd (last (orchestrationLog st')) = log_complete
                \<and> openAIMessages st' = Some (ms @
                      [userMessage,
                       OpenAIMsg (assistant_msg None (Some (call # others))),
                       OpenAIMsg (tool_msg (tc_id call) toolResult),
                       OpenAIMsg (assistant_msg (Some answer) None)])
                \<and> store st' = (store st)(sessionKey openai (personaSelector st) \<mapsto>
                     \<lparr>provider = sessionKey openai (personaSelector st),
                      history = openAIMessages st'\<rparr>))
         | _ \<Rightarrow> False"
proof -
  have ne1: "ds1 \<noteq> []" using r1 by (cases ds1) auto
  show ?thesis
  proof (cases "PERSONA_NAME_TO_KEY_MAP agentName")
    case Undefined
    show ?thesis
      using assms Undefined ne1
      by (cases "stagedFile st") (simp_all add: turn_defs openaiLoop.simps)
  next
    case Inherited
    with deleg show ?thesis by simp
  next
    case (Own k)
    from deleg obtain reply rest where comp: "completions st = reply # rest"
      by (cases "completions st") auto
    show ?thesis
    proof (cases reply)
      case (Resolved res)
      show ?thesis
        using assms Own comp Resolved ne1
        by (cases "stagedFile st") (simp_all add: turn_defs openaiLoop.simps)
    next
      case (Rejected e)
      show ?thesis
        using assms Own comp Rejected ne1
        by (cases "stagedFile st") (simp_all add: turn_defs openaiLoop.simps)
    qed
  qed
qed

text \<open>An iteration on a reply with tool calls runs the executor on the first call.\<close>

lemma gemini_iteration_runs_executor:
  assumes "gemini_streams st = r # rest" "fails r = None"
    and "foldl gemini_chunk_step ([], []) (chunks r) = (T, call # others)"
    and "fc_args call = Args a p"
  shows "map_option (\<lambda>(s, x). (x, completions s, requests s, invoke_count s))
           (gemini_iteration n t m st)
       = map_option
           (\<lambda>(sd, res).
              (case res of
                 Resolved v \<Rightarrow>
                   Continue [functionResponse_of \<lparr>fr_name = fc_name call, fr_content = v\<rparr>]
               | Rejected e \<Rightarrow> Exit (Rejected e),
               completions sd,
               requests st @ sendMessageStream m t # drop (length (requests st)) (requests sd),
               invoke_count st + 1))
           (executeInvokeAgent st a p)"
  using assms
  by (simp add: iteration_defs split: property.splits list.splits promise.splits)

lemma openai_iteration_runs_executor:
  assumes "openAIMessages st = Some ms" "openai_streams st = q # rest" "fails q = None"
    and "openai_collect (chunks q) ([], []) = Resolved (U, call # others)"
    and "JSON_parse st (arguments (tc_function call)) = Args a p"
  shows "map_option (\<lambda>(s, x). (x, completions s, requests s, invoke_count s, openAIMessages s))
           (openai_iteration n t st)
       = map_option
           (\<lambda>(sd, res).
              (case res of Resolved v \<Rightarrow> Continue () | Rejected e \<Rightarrow> Exit (Rejected e),
               completions sd,
               requests st @ completions_create_stream ms t
                 # drop (length (requests st)) (requests sd),
               invoke_count st + 1,
               Some (ms @ OpenAIMsg (assistant_msg None (Some (call # others)))
                       # (case res of
                            Resolved v \<Rightarrow> [OpenAIMsg (tool_msg (tc_id call) v)]
                          | Rejected e \<Rightarrow> []))))
           (executeInvokeAgent st a p)"
proof -
  have "chunks q \<noteq> []" using assms(4) by auto
  with assms show ?thesis
    by (simp add: iteration_defs split: property.splits list.splits promise.splits)
qed

text \<open>The calls after the first have no effect beyond the transcript.\<close>

lemma gemini_first_call_only:
  assumes "fails r = None" "fails r' = None"
    and "foldl gemini_chunk_step ([], []) (chunks r) = (T, call # others)"
    and "foldl gemini_chunk_step ([], []) (chunks r') = (T, call # others')"
  shows "map_option (\<lambda>(a, x). (a\<lparr>geminiChat := None\<rparr>, x))
           (gemini_iteration n t m (st\<lparr>gemini_streams := r # rest\<rparr>))
       = map_option (\<lambda>(a, x). (a\<lparr>geminiChat := None\<rparr>, x))
           (gemini_iteration n t m (st\<lparr>gemini_streams := r' # rest\<rparr>))"
  using assms
  by (simp add: iteration_defs
        split: invoke_args.splits property.splits list.splits promise.splits)

lemma openai_first_call_only:
  assumes "fails r = None" "fails r' = None"
    and "openai_collect (chunks r) ([], []) = Resolved (T, call # others)"
    and "openai_collect (chunks r') ([], []) = Resolved (T, call # others')"
    and "openAIMessages st = Some ms"
  shows "map_option (\<lambda>(a, x). (a\<lparr>openAIMessages := None\<rparr>, x))
           (openai_iteration n t (st\<lparr>openai_streams := r # rest\<rparr>))
       = map_option (\<lambda>(a, x). (a\<lparr>openAIMessages := None\<rparr>, x))
           (openai_iteration n t (st\<lparr>openai_streams := r' # rest\<rparr>))"
proof -
  have "chunks r \<noteq> []" "chunks r' \<noteq> []" using assms(3,4) by auto
  with assms show ?thesis
    by (simp add: iteration_defs
        split: option.splits invoke_args.splits property.splits list.splits promise.splits)
qed

lemma gemini_iteration_one_invocation:
  "gemini_iteration n t m st = Some (st', x) \<Longrightarrow>
     invoke_count st' \<le> invoke_count st + 1 \<and> length (completions st) \<le> length (completions st') + 1"
  by (auto simp: iteration_defs
        split: option.splits invoke_args.splits property.splits list.splits promise.splits if_splits)

lemma openai_iteration_one_invocation:
  "openai_iteration n t st = Some (st', x) \<Longrightarrow>
     invoke_count st' \<le> invoke_count st + 1 \<and> length (completions st) \<le> length (completions st') + 1"
  by (auto simp: iteration_defs
        split: option.splits invoke_args.splits property.splits list.splits promise.splits if_splits prod.splits)

lemma openai_iteration_several_calls:
  assumes "openAIMessages st = Some ms" "openai_streams st = r # rest" "fails r = None"
    and "openai_collect (chunks r) ([], []) = Resolved (T, call # others)"
    and "openai_iteration n t st = Some (st1, x)"
  shows "\<exists>tl. openAIMessages st1
               = Some (ms @ OpenAIMsg (assistant_msg None (Some (call # others))) # tl)
            \<and> (x = Continue () \<longrightarrow> (\<exists>toolResult. tl = [OpenAIMsg (tool_msg (tc_id call) toolResult)]))
            \<and> (x \<noteq> Continue () \<longrightarrow> tl = [])"
  using assms
  by (auto simp: iteration_defs
        split: option.splits invoke_args.splits property.splits list.splits promise.splits if_splits)

lemma openai_iteration_answers:
  assumes "openAIMessages st = Some ms" "openai_streams st = r # rest"
    and "completions st \<noteq> []"
  shows "openai_iteration n t st \<noteq> None"
  using assms
  by (auto simp: iteration_defs
        split: option.splits invoke_args.splits property.splits list.splits promise.splits if_splits prod.splits)

text \<open>A run that is stated by cases on its result, as a run that exists.\<close>

lemma resolved_run:
  assumes "case X of None \<Rightarrow> False
           | Some (sd, r) \<Rightarrow> (case r of Resolved v \<Rightarrow> P sd v | Rejected e \<Rightarrow> False)"
  shows "\<exists>sd v. X = Some (sd, Resolved v) \<and> P sd v"
proof (cases X)
  case None
  with assms show ?thesis by simp
next
  case (Some p)
  obtain sd r where p: "p = (sd, r)" by (cases p)
  show ?thesis using assms Some p by (cases r) auto
qed

text \<open>
  An OpenAI iteration on a reply with tool calls, when the arguments of the first can be
  read and the executor does not throw: it continues, with the assistant message and the
  message of role \<open>tool\<close> that carries the result of the executor.
\<close>

lemma openai_iteration_continues:
  assumes "openAIMessages st = Some ms" "openai_streams st = q # rest" "fails q = None"
    and "openai_collect (chunks q) ([], []) = Resolved (U, call # others)"
    and "JSON_parse st (arguments (tc_function call)) = Args a p"
    and "PERSONA_NAME_TO_KEY_MAP a \<noteq> Inherited" "completions st \<noteq> []"
  shows "case executeInvokeAgent st a p of
           None \<Rightarrow> False
         | Some (sd, r) \<Rightarrow>
             (case r of
                Resolved toolResult \<Rightarrow>
                  (\<exists>st1. openai_iteration n t st = Some (st1, Continue ())
                     \<and> completions st1 = completions sd
                     \<and> openAIMessages st1
                         = Some (ms @ [OpenAIMsg (assistant_msg None (Some (call # others))),
                                       OpenAIMsg (tool_msg (tc_id call) toolResult)]))
              | Rejected e \<Rightarrow> False)"
proof -
  have ne: "chunks q \<noteq> []" using assms(4) by auto
  show ?thesis
  proof (cases "PERSONA_NAME_TO_KEY_MAP a")
    case Undefined
    show ?thesis
      using assms Undefined ne by (simp add: iteration_defs)
  next
    case Inherited
    with assms(6) show ?thesis by simp
  next
    case (Own k)
    from assms(7) obtain reply later where comp: "completions st = reply # later"
      by (cases "completions st") auto
    show ?thesis
      using assms Own comp ne by (cases reply) (simp_all add: iteration_defs)
  qed
qed

section \<open>The persona registry\<close>

text \<open>
  C3: the system prompt is a function of the persona record alone (it is the composition
  rule \<open>buildSystemPrompt_spec\<close> applied to the record); for the base persona \<open>CUA\<close> it
  is the raw description and nothing else; for every other persona it is the template
  filled with the name, role, description and tone of the persona.
\<close>

theorem generateSystemPrompt_composition:
  "generateSystemPrompt CUA = description (PERSONAS CUA)
   \<and> (\<forall>k. k \<noteq> CUA \<longrightarrow>
          (\<exists>t. tone (PERSONAS k) = Some t
             \<and> generateSystemPrompt k =
                 ''You are '' @ name (PERSONAS k) @ '', a '' @ role (PERSONAS k) @ ''. ''
                 @ description (PERSONAS k) @ '' Your tone must be '' @ t
                 @ ''. You can invoke other agents for tasks outside your expertise.''))
   \<and> (\<forall>k. generateSystemPrompt k = buildSystemPrompt_spec (PERSONAS k))"
proof (intro conjI allI impI)
  show "generateSystemPrompt CUA = description (PERSONAS CUA)"
    by (simp add: generateSystemPrompt_def)
next
  fix k :: PersonaKey
  assume "k \<noteq> CUA"
  then show "\<exists>t. tone (PERSONAS k) = Some t
             \<and> generateSystemPrompt k =
                 ''You are '' @ name (PERSONAS k) @ '', a '' @ role (PERSONAS k) @ ''. ''
                 @ description (PERSONAS k) @ '' Your tone must be '' @ t
                 @ ''. You can invoke other agents for tasks outside your expertise.''"
    by (cases k) (simp_all add: generateSystemPrompt_def)
next
  fix k :: PersonaKey
  show "generateSystemPrompt k = buildSystemPrompt_spec (PERSONAS k)"
    by (cases k) (simp_all add: generateSystemPrompt_def buildSystemPrompt_spec_def)
qed

theorem generateSystemPrompt_composition_witness:
  "Guac \<noteq> CUA
   \<and> generateSystemPrompt Guac =
       ''You are Guac, a Communication Moderator. You oversee inter-application messaging and network security, ensuring all communications are secure, efficient, and properly routed. Your tone must be Concise, secure, and reliable. You can invoke other agents for tasks outside your expertise.''"
proof -
  have ne: "Guac \<noteq> CUA" by simp
  from generateSystemPrompt_composition have
    "\<exists>t. tone (PERSONAS Guac) = Some t
       \<and> generateSystemPrompt Guac =
           ''You are '' @ name (PERSONAS Guac) @ '', a '' @ role (PERSONAS Guac) @ ''. ''
           @ description (PERSONAS Guac) @ '' Your tone must be '' @ t
           @ ''. You can invoke other agents for tasks outside your expertise.''"
    using ne by blast
  then show ?thesis by simp
qed

section \<open>The history store\<close>

text \<open>
  C8: when both requests succeed, saving a transcript under a key and then loading the key
  returns the record that holds the key and the very transcript that was saved, whatever
  the shape of its messages (any list over both message shapes); the store neither
  reshapes nor rejects it.
\<close>

theorem save_then_load_roundtrip:
  "snd (saveHistory onsuccess s key (Some T)) = Resolved ()
   \<and> getHistory onsuccess (fst (saveHistory onsuccess s key (Some T))) key
       = Resolved (Some \<lparr>provider = key, history = Some T\<rparr>)"
  by (simp add: saveHistory_def getHistory_def)

section \<open>Persistence\<close>



section \<open>Mentions\<close>

text \<open>
  C6, as amended: when no file is staged, the input begins with a mention of the active
  persona and the trimmed remainder is not empty, the submission is the ordinary turn on
  the trimmed remainder (\<open>submitTurn\<close> on that text) and no one-off delegation takes
  place, whatever the remainder is. And when the remainder is not itself a mention that
  resolves (a mention of a persona, in any letter case, with a non-empty remainder), this
  is exactly what submitting the input with the mention stripped does: the handler on any
  input \<open>u\<close> that trims to the same text, the remainder itself in particular.
\<close>

theorem self_mention_is_plain_input:
  assumes "stagedFile st = None"
    and "mentionMatch (trim (chatInput_value st)) = Some (agentName, rest)"
    and "find_agentNameKey agentName = Some (agentNameKey, personaSelector st)"
    and "trim rest \<noteq> []"
  shows "handleChatSubmit st = submitTurn (trim rest) st
       \<and> (trim u = trim rest \<and> \<not> mention_resolves (trim rest) \<longrightarrow>
            handleChatSubmit (st\<lparr>chatInput_value := u\<rparr>) = handleChatSubmit st)"
proof (intro conjI impI)
  have ne: "trim (chatInput_value st) \<noteq> []" using assms(2) by (rule mentionMatch_nonempty)
  show own: "handleChatSubmit st = submitTurn (trim rest) st"
    using assms ne by (simp add: handleChatSubmit_def Let_def)
  assume h: "trim u = trim rest \<and> \<not> mention_resolves (trim rest)"
  have "handleChatSubmit (st\<lparr>chatInput_value := u\<rparr>)
          = submitTurn (trim rest) (st\<lparr>chatInput_value := u\<rparr>)"
    using assms(1,4) h
    by (auto simp: handleChatSubmit_def Let_def mention_resolves_def split: option.splits)
  also have "\<dots> = submitTurn (trim rest) st"
    using assms(4) by (simp add: submitTurn_chatInput)
  finally show "handleChatSubmit (st\<lparr>chatInput_value := u\<rparr>) = handleChatSubmit st"
    using own by simp
qed

theorem self_mention_is_plain_input_witness:
  "handleChatSubmit (example_app\<lparr>chatInput_value := ''@Lyra summarize this''\<rparr>)
     = submitTurn ''summarize this'' (example_app\<lparr>chatInput_value := ''@Lyra summarize this''\<rparr>)
   \<and> handleChatSubmit (example_app\<lparr>chatInput_value := ''summarize this''\<rparr>)
     = handleChatSubmit (example_app\<lparr>chatInput_value := ''@Lyra summarize this''\<rparr>)
   \<and> handleChatSubmit (example_app\<lparr>chatInput_value := ''@Lyra @Kara audit''\<rparr>)
     = submitTurn ''@Kara audit'' (example_app\<lparr>chatInput_value := ''@Lyra @Kara audit''\<rparr>)"
proof -
  let ?W = "example_app\<lparr>chatInput_value := ''@Lyra summarize this''\<rparr>"
  let ?N = "example_app\<lparr>chatInput_value := ''@Lyra @Kara audit''\<rparr>"
  have 1: "stagedFile ?W = None" by (simp add: example_app_def)
  have 2: "mentionMatch (trim (chatInput_value ?W)) = Some (''Lyra'', ''summarize this'')"
    by (simp add: string_defs)
  have 3: "find_agentNameKey ''Lyra'' = Some (''Lyra'', personaSelector ?W)"
    by (simp add: string_defs example_app_def)
  have t: "trim ''summarize this'' = ''summarize this''" by (simp add: string_defs)
  have 4: "trim ''summarize this'' \<noteq> []" by (simp add: t)
  have 5: "trim ''summarize this'' = trim ''summarize this''
           \<and> \<not> mention_resolves (trim ''summarize this'')"
    by (simp add: t) (simp add: mention_resolves_def string_defs)
  have n1: "stagedFile ?N = None" by (simp add: example_app_def)
  have n2: "mentionMatch (trim (chatInput_value ?N)) = Some (''Lyra'', ''@Kara audit'')"
    by (simp add: string_defs)
  have n3: "find_agentNameKey ''Lyra'' = Some (''Lyra'', personaSelector ?N)"
    by (simp add: string_defs example_app_def)
  have nt: "trim ''@Kara audit'' = ''@Kara audit''" by (simp add: string_defs)
  have n4: "trim ''@Kara audit'' \<noteq> []" by (simp add: nt)
  from self_mention_is_plain_input[OF 1 2 3 4, of "''summarize this''"] 5
  have "handleChatSubmit ?W = submitTurn ''summarize this'' ?W
      \<and> handleChatSubmit (?W\<lparr>chatInput_value := ''summarize this''\<rparr>) = handleChatSubmit ?W"
    by (simp add: t)
  moreover from self_mention_is_plain_input[OF n1 n2 n3 n4]
  have "handleChatSubmit ?N = submitTurn ''@Kara audit'' ?N"
    by (simp add: nt)
  ultimately show ?thesis by simp
qed

text \<open>
  The claim as stated fails twice on the state \<open>example_app\<close> with one streamed reply and
  one delegate reply in the scripts: a remainder that is a mention of another persona is
  sent to the active persona as text, while submitting that remainder alone delegates;
  and the bare self-mention is not the no-operation that empty input is.
\<close>

theorem self_mention_counterexample:
  "handleChatSubmit
     (example_app\<lparr>chatInput_value := ''@Lyra @Kara audit'',
        gemini_streams := [\<lparr>chunks = [\<lparr>chunk_text = Some ''Ready.'', chunk_functionCalls = None\<rparr>],
                            fails = None\<rparr>],
        completions := [Resolved ''All clear.'']\<rparr>)
   \<noteq> handleChatSubmit
     (example_app\<lparr>chatInput_value := ''@Kara audit'',
        gemini_streams := [\<lparr>chunks = [\<lparr>chunk_text = Some ''Ready.'', chunk_functionCalls = None\<rparr>],
                            fails = None\<rparr>],
        completions := [Resolved ''All clear.'']\<rparr>)
   \<and> handleChatSubmit
     (example_app\<lparr>chatInput_value := ''@Lyra'',
        gemini_streams := [\<lparr>chunks = [\<lparr>chunk_text = Some ''Ready.'', chunk_functionCalls = None\<rparr>],
                            fails = None\<rparr>]\<rparr>)
   \<noteq> Some (example_app\<lparr>chatInput_value := ''@Lyra'',
        gemini_streams := [\<lparr>chunks = [\<lparr>chunk_text = Some ''Ready.'', chunk_functionCalls = None\<rparr>],
                            fails = None\<rparr>]\<rparr>)
   \<and> handleChatSubmit
     (example_app\<lparr>chatInput_value := [],
        gemini_streams := [\<lparr>chunks = [\<lparr>chunk_text = Some ''Ready.'', chunk_functionCalls = None\<rparr>],
                            fails = None\<rparr>]\<rparr>)
   = Some (example_app\<lparr>chatInput_value := [],
        gemini_streams := [\<lparr>chunks = [\<lparr>chunk_text = Some ''Ready.'', chunk_functionCalls = None\<rparr>],
                            fails = None\<rparr>]\<rparr>)"
proof (intro conjI)
  let ?s = "[\<lparr>chunks = [\<lparr>chunk_text = Some ''Ready.'', chunk_functionCalls = None\<rparr>],
              fails = None\<rparr>]"
  have a: "map_option requests (handleChatSubmit
     (example_app\<lparr>chatInput_value := ''@Lyra @Kara audit'', gemini_streams := ?s,
        completions := [Resolved ''All clear.'']\<rparr>))
     = Some [sendMessageStream [text_of ''@Kara audit''] (getTools Lyra)]"
    by (simp add: eval_defs example_app_def string_defs)
  have b: "map_option requests (handleChatSubmit
     (example_app\<lparr>chatInput_value := ''@Kara audit'', gemini_streams := ?s,
        completions := [Resolved ''All clear.'']\<rparr>))
     = Some [generateContent (generateSystemPrompt Kara) ''audit'']"
    by (simp add: eval_defs example_app_def string_defs)
  show "handleChatSubmit
     (example_app\<lparr>chatInput_value := ''@Lyra @Kara audit'', gemini_streams := ?s,
        completions := [Resolved ''All clear.'']\<rparr>)
   \<noteq> handleChatSubmit
     (example_app\<lparr>chatInput_value := ''@Kara audit'', gemini_streams := ?s,
        completions := [Resolved ''All clear.'']\<rparr>)"
    using a b by auto
  have c: "map_option requests (handleChatSubmit
     (example_app\<lparr>chatInput_value := ''@Lyra'', gemini_streams := ?s\<rparr>))
     = Some [sendMessageStream [text_of ''@Lyra''] (getTools Lyra)]"
    by (simp add: eval_defs example_app_def string_defs)
  have d: "requests (example_app\<lparr>chatInput_value := ''@Lyra'', gemini_streams := ?s\<rparr>) = []"
    by (simp add: example_app_def)
  show "handleChatSubmit (example_app\<lparr>chatInput_value := ''@Lyra'', gemini_streams := ?s\<rparr>)
   \<noteq> Some (example_app\<lparr>chatInput_value := ''@Lyra'', gemini_streams := ?s\<rparr>)"
    using c d by auto
  show "handleChatSubmit (example_app\<lparr>chatInput_value := [], gemini_streams := ?s\<rparr>)
   = Some (example_app\<lparr>chatInput_value := [], gemini_streams := ?s\<rparr>)"
    by (simp add: handleChatSubmit_def example_app_def string_defs)
qed

text \<open>
  C7: when no file is staged and the input is a mention of a persona other than the
  active one with a non-empty remainder, the handler returns as soon as the delegate
  has answered (it does whenever the provider has a reply for the delegation request),
  and in the state it returns the two conversation contexts are the ones it started
  with, the object store is untouched, no streamed reply has been taken and no request
  of a tool-call loop has been sent.
\<close>

theorem one_off_delegation_frame:
  assumes "stagedFile st = None"
    and "mentionMatch (trim (chatInput_value st)) = Some (agentName, rest)"
    and "find_agentNameKey agentName = Some (agentNameKey, targetPersonaKey)"
    and "targetPersonaKey \<noteq> personaSelector st"
    and "trim rest \<noteq> []"
  shows "(completions st \<noteq> [] \<longrightarrow> handleChatSubmit st \<noteq> None)
       \<and> (\<forall>st'. handleChatSubmit st = Some st' \<longrightarrow>
             geminiChat st' = geminiChat st \<and> openAIMessages st' = openAIMessages st
             \<and> store st' = store st
             \<and> gemini_streams st' = gemini_streams st \<and> openai_streams st' = openai_streams st
             \<and> filter is_stream_request (requests st') = filter is_stream_request (requests st))"
proof -
  have ne: "trim (chatInput_value st) \<noteq> []" using assms(2) by (rule mentionMatch_nonempty)
  have h: "handleChatSubmit st
             = oneOffDelegation (trim (chatInput_value st)) agentName (trim rest) targetPersonaKey st"
    using assms ne by (simp add: handleChatSubmit_def Let_def)
  show ?thesis
    unfolding h using oneOffDelegation_frame oneOffDelegation_returns by blast
qed

theorem one_off_delegation_frame_witness:
  "stagedFile (example_app\<lparr>chatInput_value := ''@Kara audit'', completions := [Resolved ''All clear.'']\<rparr>) = None
   \<and> mentionMatch (trim ''@Kara audit'') = Some (''Kara'', ''audit'')
   \<and> find_agentNameKey ''Kara'' = Some (''Kara'', Kara)
   \<and> Kara \<noteq> personaSelector (example_app\<lparr>chatInput_value := ''@Kara audit'', completions := [Resolved ''All clear.'']\<rparr>)
   \<and> trim ''audit'' \<noteq> []
   \<and> (\<exists>st'. handleChatSubmit
               (example_app\<lparr>chatInput_value := ''@Kara audit'', completions := [Resolved ''All clear.'']\<rparr>)
               = Some st'
            \<and> geminiChat st' = geminiChat example_app
            \<and> openAIMessages st' = openAIMessages example_app
            \<and> store st' = store example_app
            \<and> gemini_streams st' = [] \<and> openai_streams st' = []
            \<and> filter is_stream_request (requests st') = [])"
proof -
  let ?W = "example_app\<lparr>chatInput_value := ''@Kara audit'', completions := [Resolved ''All clear.'']\<rparr>"
  have 1: "stagedFile ?W = None" by (simp add: example_app_def)
  have 2: "mentionMatch (trim (chatInput_value ?W)) = Some (''Kara'', ''audit'')"
    by (simp add: string_defs)
  have 3: "find_agentNameKey ''Kara'' = Some (''Kara'', Kara)" by (simp add: string_defs)
  have 4: "Kara \<noteq> personaSelector ?W" by (simp add: example_app_def)
  have 5: "trim ''audit'' \<noteq> []" by (simp add: string_defs)
  have 6: "completions ?W \<noteq> []" by simp
  have 7: "mentionMatch (trim ''@Kara audit'') = Some (''Kara'', ''audit'')"
    by (simp add: string_defs)
  from one_off_delegation_frame[OF 1 2 3 4 5] 6
  obtain st' where "handleChatSubmit ?W = Some st'"
    and "geminiChat st' = geminiChat ?W \<and> openAIMessages st' = openAIMessages ?W
         \<and> store st' = store ?W
         \<and> gemini_streams st' = gemini_streams ?W \<and> openai_streams st' = openai_streams ?W
         \<and> filter is_stream_request (requests st') = filter is_stream_request (requests ?W)"
    by blast
  then have "handleChatSubmit ?W = Some st'
            \<and> geminiChat st' = geminiChat example_app
            \<and> openAIMessages st' = openAIMessages example_app
            \<and> store st' = store example_app
            \<and> gemini_streams st' = [] \<and> openai_streams st' = []
            \<and> filter is_stream_request (requests st') = []"
    by (simp add: example_app_def)
  then show ?thesis using 1 7 3 4 5 by blast
qed

text \<open>
  C1: the code at the input \<open>@kara audit\<close> (active persona Lyra). The lookup of the
  mention ignores letter case and finds the persona Kara, but the handler passes the
  name as typed to the delegation executor, whose lookup is an exact property read: it
  answers that the agent was not found, under the prefix of the persona it failed to
  find. With \<open>@Kara audit\<close> the delegate answers.
\<close>

theorem mention_in_lower_case_is_not_found:
  "find_agentNameKey ''kara'' = Some (''Kara'', Kara)
   \<and> find_agentNameKey ''Kara'' = Some (''Kara'', Kara)
   \<and> PERSONA_NAME_TO_KEY_MAP ''Kara'' = Own Kara
   \<and> PERSONA_NAME_TO_KEY_MAP ''kara'' = Undefined
   \<and> map_option chatContainer
        (handleChatSubmit
           (example_app\<lparr>chatInput_value := ''@kara audit'', completions := [Resolved ''All clear.'']\<rparr>))
       = Some [\<lparr>prefix = ''USER>'', messageClass = ''user-message'', thinking = False,
                 children = [text_node ''@kara audit'']\<rparr>,
               \<lparr>prefix = ''KARA>'', messageClass = [], thinking = False,
                 children = [text_node (''Error: Agent '' @ sq @ ''kara'' @ sq @ '' not found.'')]\<rparr>]
   \<and> map_option chatContainer
        (handleChatSubmit
           (example_app\<lparr>chatInput_value := ''@Kara audit'', completions := [Resolved ''All clear.'']\<rparr>))
       = Some [\<lparr>prefix = ''USER>'', messageClass = ''user-message'', thinking = False,
                 children = [text_node ''@Kara audit'']\<rparr>,
               \<lparr>prefix = ''KARA>'', messageClass = [], thinking = False,
                 children = [text_node ''All clear.'']\<rparr>]"
proof (intro conjI)
  show "find_agentNameKey ''kara'' = Some (''Kara'', Kara)" by (simp add: string_defs)
  show "find_agentNameKey ''Kara'' = Some (''Kara'', Kara)" by (simp add: string_defs)
  show "PERSONA_NAME_TO_KEY_MAP ''Kara'' = Own Kara"
    by (simp add: PERSONA_NAME_TO_KEY_MAP_def string_defs)
  show "PERSONA_NAME_TO_KEY_MAP ''kara'' = Undefined"
    by (simp add: PERSONA_NAME_TO_KEY_MAP_def object_prototype_names_def string_defs)
  show "map_option chatContainer
        (handleChatSubmit
           (example_app\<lparr>chatInput_value := ''@kara audit'', completions := [Resolved ''All clear.'']\<rparr>))
       = Some [\<lparr>prefix = ''USER>'', messageClass = ''user-message'', thinking = False,
                 children = [text_node ''@kara audit'']\<rparr>,
               \<lparr>prefix = ''KARA>'', messageClass = [], thinking = False,
                 children = [text_node (''Error: Agent '' @ sq @ ''kara'' @ sq @ '' not found.'')]\<rparr>]"
    by (simp add: eval_defs example_app_def string_defs)
  show "map_option chatContainer
        (handleChatSubmit
           (example_app\<lparr>chatInput_value := ''@Kara audit'', completions := [Resolved ''All clear.'']\<rparr>))
       = Some [\<lparr>prefix = ''USER>'', messageClass = ''user-message'', thinking = False,
                 children = [text_node ''@Kara audit'']\<rparr>,
               \<lparr>prefix = ''KARA>'', messageClass = [], thinking = False,
                 children = [text_node ''All clear.'']\<rparr>]"
    by (simp add: eval_defs example_app_def string_defs)
qed

section \<open>Session switch\<close>

lemma renderHistory_frame:
  "store (foldl render_message s ms) = store s
   \<and> geminiChat (foldl render_message s ms) = geminiChat s
   \<and> openAIMessages (foldl render_message s ms) = openAIMessages s"
  by (induction ms arbitrary: s) (simp_all add: render_message_def on_wrapper_def appendMessage_def)

lemmas switch_defs = handleSessionSwitch_def getHistory_def Let_def renderHistory_def
  renderHistory_frame resetChatState_def logOrchestrationEvent_def on_wrapper_def
  appendMessage_def textContent_def

text \<open>
  C10: on a session switch with a record stored under the session key, the record stays
  in the store. If its history has no message of role \<open>user\<close>, nothing is restored: the
  switch does exactly what it does when no record is stored; when the read of the store
  succeeds it returns normally, the context of the selected provider is a new one (a
  \<open>Chat\<close> with the system prompt of the persona and an empty history, or the array that
  holds the system message only) whatever the context was before, and the chat window
  shows the line \<open>New session started\<close> alone. If the history has a message of role
  \<open>user\<close> and the read succeeds, it becomes the live context of the selected provider:
  the array \<open>openAIMessages\<close>, or the history of a new \<open>Chat\<close> when the client accepts
  it (all roles are \<open>user\<close> or \<open>model\<close>); when the client refuses it, the switch ends
  in that error and the \<open>Chat\<close> is the one of before.
\<close>

theorem session_switch_needs_user_message:
  assumes rec: "store st (sessionKey (modelSelector st) (personaSelector st)) = Some se"
  shows "store (fst (handleSessionSwitch providerName st)) = store st
     \<and> ((\<forall>h. history se = Some h \<longrightarrow> (\<forall>m \<in> set h. message_role m \<noteq> ''user'')) \<longrightarrow>
          handleSessionSwitch providerName st
            = (case handleSessionSwitch providerName
                      (st\<lparr>store := (store st)(sessionKey (modelSelector st) (personaSelector st) := None)\<rparr>) of
                 (s, r) \<Rightarrow> (s\<lparr>store := store st\<rparr>, r)))
     \<and> ((\<forall>h. history se = Some h \<longrightarrow> (\<forall>m \<in> set h. message_role m \<noteq> ''user''))
          \<and> idb_request st = onsuccess \<longrightarrow>
          snd (handleSessionSwitch providerName st) = Resolved ()
        \<and> (modelSelector st = gemini \<and> ai st \<longrightarrow>
              geminiChat (fst (handleSessionSwitch providerName st))
                = Some \<lparr>systemInstruction = generateSystemPrompt (personaSelector st),
                        chat_history = []\<rparr>)
        \<and> (modelSelector st = openai \<and> openai_client st \<longrightarrow>
              openAIMessages (fst (handleSessionSwitch providerName st))
                = Some [OpenAIMsg (system_msg (generateSystemPrompt (personaSelector st)))])
        \<and> chatContainer (fst (handleSessionSwitch providerName st))
            = [\<lparr>prefix = toUpperCase (key_string (personaSelector st)) @ ''>'',
                 messageClass = ''system-message'', thinking = False,
                 children = [text_node (''New session started for ''
                                        @ name (PERSONAS (personaSelector st)) @ '' via ''
                                        @ providerName @ ''. Awaiting your input.'')]\<rparr>])
     \<and> (\<forall>h. history se = Some h \<and> (\<exists>m \<in> set h. message_role m = ''user'')
            \<and> idb_request st = onsuccess \<longrightarrow>
           (modelSelector st = gemini \<and> ai st \<and> validateHistory h = None \<longrightarrow>
              snd (handleSessionSwitch providerName st) = Resolved ()
              \<and> geminiChat (fst (handleSessionSwitch providerName st))
                  = Some \<lparr>systemInstruction = generateSystemPrompt (personaSelector st),
                          chat_history = h\<rparr>)
         \<and> (\<forall>e. modelSelector st = gemini \<and> ai st \<and> validateHistory h = Some e \<longrightarrow>
              snd (handleSessionSwitch providerName st) = Rejected e
              \<and> geminiChat (fst (handleSessionSwitch providerName st)) = geminiChat st)
         \<and> (modelSelector st = openai \<and> openai_client st \<longrightarrow>
              snd (handleSessionSwitch providerName st) = Resolved ()
              \<and> openAIMessages (fst (handleSessionSwitch providerName st)) = Some h))"
proof (intro conjI allI impI)
  show "store (fst (handleSessionSwitch providerName st)) = store st"
    using rec
    by (cases "idb_request st") (simp_all add: switch_defs split: option.splits promise.splits)
next
  assume "\<forall>h. history se = Some h \<longrightarrow> (\<forall>m \<in> set h. message_role m \<noteq> ''user'')"
  then have no: "\<not> hasMeaningfulHistory (Some se)"
    by (auto simp: hasMeaningfulHistory_def list_ex_iff split: option.splits)
  show "handleSessionSwitch providerName st
            = (case handleSessionSwitch providerName
                      (st\<lparr>store := (store st)(sessionKey (modelSelector st) (personaSelector st) := None)\<rparr>) of
                 (s, r) \<Rightarrow> (s\<lparr>store := store st\<rparr>, r))"
    using rec no
    by (cases "idb_request st") (simp_all add: switch_defs hasMeaningfulHistory_def)
next
  assume a: "(\<forall>h. history se = Some h \<longrightarrow> (\<forall>m \<in> set h. message_role m \<noteq> ''user''))
          \<and> idb_request st = onsuccess"
  then have no: "\<not> hasMeaningfulHistory (Some se)"
    by (auto simp: hasMeaningfulHistory_def list_ex_iff split: option.splits)
  from a have ok: "idb_request st = onsuccess" by simp
  show "snd (handleSessionSwitch providerName st) = Resolved ()"
    using ok rec no by (simp add: switch_defs)
  show "chatContainer (fst (handleSessionSwitch providerName st))
            = [\<lparr>prefix = toUpperCase (key_string (personaSelector st)) @ ''>'',
                 messageClass = ''system-message'', thinking = False,
                 children = [text_node (''New session started for ''
                                        @ name (PERSONAS (personaSelector st)) @ '' via ''
                                        @ providerName @ ''. Awaiting your input.'')]\<rparr>]"
    using ok rec no by (simp add: switch_defs)
  { assume "modelSelector st = gemini \<and> ai st"
    then show "geminiChat (fst (handleSessionSwitch providerName st))
                = Some \<lparr>systemInstruction = generateSystemPrompt (personaSelector st),
                        chat_history = []\<rparr>"
      using ok rec no by (simp add: switch_defs) }
  { assume "modelSelector st = openai \<and> openai_client st"
    then show "openAIMessages (fst (handleSessionSwitch providerName st))
                = Some [OpenAIMsg (system_msg (generateSystemPrompt (personaSelector st)))]"
      using ok rec no by (simp add: switch_defs) }
next
  fix h
  assume h: "history se = Some h \<and> (\<exists>m \<in> set h. message_role m = ''user'')
            \<and> idb_request st = onsuccess"
  then have m: "hasMeaningfulHistory (Some se)"
    by (auto simp: hasMeaningfulHistory_def list_ex_iff)
  from h have ok: "idb_request st = onsuccess" by simp
  { assume "modelSelector st = gemini \<and> ai st \<and> validateHistory h = None"
    then show "snd (handleSessionSwitch providerName st) = Resolved ()"
      "geminiChat (fst (handleSessionSwitch providerName st))
         = Some \<lparr>systemInstruction = generateSystemPrompt (personaSelector st), chat_history = h\<rparr>"
      using ok rec m h by (simp_all add: switch_defs) }
  { fix e assume "modelSelector st = gemini \<and> ai st \<and> validateHistory h = Some e"
    then show "snd (handleSessionSwitch providerName st) = Rejected e"
      "geminiChat (fst (handleSessionSwitch providerName st)) = geminiChat st"
      using ok rec m h by (simp_all add: switch_defs) }
  { assume "modelSelector st = openai \<and> openai_client st"
    then show "snd (handleSessionSwitch providerName st) = Resolved ()"
      "openAIMessages (fst (handleSessionSwitch providerName st)) = Some h"
      using ok rec m h by (simp_all add: switch_defs) }
qed

theorem session_switch_needs_user_message_witness:
  "handleSessionSwitch ''Gemini''
     (example_app\<lparr>geminiChat := Some \<lparr>systemInstruction = generateSystemPrompt Kara,
                                     chat_history =
                                       [GeminiMsg \<lparr>g_role = user, parts = [text_of ''audit'']\<rparr>]\<rparr>,
        store := [''gemini-Lyra'' \<mapsto>
          \<lparr>provider = ''gemini-Lyra'',
           history = Some [GeminiMsg \<lparr>g_role = model, parts = [text_of ''Ready.'']\<rparr>]\<rparr>]\<rparr>)
   = (example_app\<lparr>geminiChat := Some \<lparr>systemInstruction = generateSystemPrompt Lyra,
                                      chat_history = []\<rparr>,
        store := [''gemini-Lyra'' \<mapsto>
          \<lparr>provider = ''gemini-Lyra'',
           history = Some [GeminiMsg \<lparr>g_role = model, parts = [text_of ''Ready.'']\<rparr>]\<rparr>],
        chatContainer :=
          [\<lparr>prefix = ''LYRA>'', messageClass = ''system-message'', thinking = False,
             children = [text_node ''New session started for Lyra via Gemini. Awaiting your input.'']\<rparr>],
        orchestrationLog :=
          [(''Initializing session for Lyra via Gemini.'', log_info),
           (''No history found. New session created.'', log_info)]\<rparr>,
      Resolved ())
   \<and> geminiChat (fst (handleSessionSwitch ''Gemini''
     (example_app\<lparr>geminiChat := None, store := [''gemini-Lyra'' \<mapsto>
        \<lparr>provider = ''gemini-Lyra'',
         history = Some [GeminiMsg \<lparr>g_role = user, parts = [text_of ''status'']\<rparr>,
                         GeminiMsg \<lparr>g_role = model, parts = [text_of ''Ready.'']\<rparr>]\<rparr>]\<rparr>)))
     = Some \<lparr>systemInstruction = generateSystemPrompt Lyra,
             chat_history = [GeminiMsg \<lparr>g_role = user, parts = [text_of ''status'']\<rparr>,
                             GeminiMsg \<lparr>g_role = model, parts = [text_of ''Ready.'']\<rparr>]\<rparr>
   \<and> snd (handleSessionSwitch ''Gemini''
     (example_app\<lparr>store := [''gemini-Lyra'' \<mapsto>
        \<lparr>provider = ''gemini-Lyra'',
         history = Some [OpenAIMsg (system_msg (generateSystemPrompt Lyra)),
                         OpenAIMsg (user_msg (Str ''status''))]\<rparr>]\<rparr>))
     = Rejected ''Role must be user or model, but got system.''
   \<and> openAIMessages (fst (handleSessionSwitch ''OpenAI''
     (example_openai_app\<lparr>store := [''openai-Lyra'' \<mapsto>
        \<lparr>provider = ''openai-Lyra'',
         history = Some [OpenAIMsg (system_msg (generateSystemPrompt Lyra)),
                         OpenAIMsg (user_msg (Str ''status'')),
                         OpenAIMsg (assistant_msg (Some ''Ready.'') None)]\<rparr>]\<rparr>)))
     = Some [OpenAIMsg (system_msg (generateSystemPrompt Lyra)),
             OpenAIMsg (user_msg (Str ''status'')),
             OpenAIMsg (assistant_msg (Some ''Ready.'') None)]
   \<and> openAIMessages (fst (handleSessionSwitch ''OpenAI''
     (example_openai_app\<lparr>openAIMessages :=
          Some [OpenAIMsg (system_msg (generateSystemPrompt Kara)),
                OpenAIMsg (user_msg (Str ''audit''))],
        store := [''openai-Lyra'' \<mapsto>
        \<lparr>provider = ''openai-Lyra'',
         history = Some [OpenAIMsg (system_msg (generateSystemPrompt Lyra)),
                         OpenAIMsg (assistant_msg (Some ''Ready.'') None)]\<rparr>]\<rparr>)))
     = Some [OpenAIMsg (system_msg (generateSystemPrompt Lyra))]"
proof (intro conjI)
  let ?old = "\<lparr>systemInstruction = generateSystemPrompt Kara,
               chat_history = [GeminiMsg \<lparr>g_role = user, parts = [text_of ''audit'']\<rparr>]\<rparr>"
  let ?se = "\<lparr>provider = ''gemini-Lyra'',
         history = Some [GeminiMsg \<lparr>g_role = model, parts = [text_of ''Ready.'']\<rparr>]\<rparr>"
  let ?W = "example_app\<lparr>geminiChat := Some ?old, store := [''gemini-Lyra'' \<mapsto> ?se]\<rparr>"
  have ok: "idb_request ?W = onsuccess" by (simp add: example_app_def)
  have rec: "store ?W (sessionKey (modelSelector ?W) (personaSelector ?W)) = Some ?se"
    by (simp add: example_app_def sessionKey_def)
  have nouser: "\<forall>h. history ?se = Some h \<longrightarrow> (\<forall>m \<in> set h. message_role m \<noteq> ''user'')"
    by simp
  have sel: "modelSelector ?W = gemini \<and> ai ?W" "personaSelector ?W = Lyra"
    by (simp_all add: example_app_def)
  have key: "(store ?W)(sessionKey (modelSelector ?W) (personaSelector ?W) := None) = Map.empty"
    by (simp add: example_app_def sessionKey_def)
  from session_switch_needs_user_message[OF rec, of "''Gemini''"] nouser
  have a: "handleSessionSwitch ''Gemini'' ?W
            = (case handleSessionSwitch ''Gemini''
                      (?W\<lparr>store := (store ?W)(sessionKey (modelSelector ?W) (personaSelector ?W) := None)\<rparr>) of
                 (s, r) \<Rightarrow> (s\<lparr>store := store ?W\<rparr>, r))"
    by blast
  have "handleSessionSwitch ''Gemini'' ?W
            = (case handleSessionSwitch ''Gemini'' (?W\<lparr>store := Map.empty\<rparr>) of
                 (s, r) \<Rightarrow> (s\<lparr>store := [''gemini-Lyra'' \<mapsto> ?se]\<rparr>, r))"
    using a unfolding key by simp
  also have "\<dots> = (example_app\<lparr>geminiChat := Some \<lparr>systemInstruction = generateSystemPrompt Lyra,
                                      chat_history = []\<rparr>,
        store := [''gemini-Lyra'' \<mapsto> ?se],
        chatContainer :=
          [\<lparr>prefix = ''LYRA>'', messageClass = ''system-message'', thinking = False,
             children = [text_node ''New session started for Lyra via Gemini. Awaiting your input.'']\<rparr>],
        orchestrationLog :=
          [(''Initializing session for Lyra via Gemini.'', log_info),
           (''No history found. New session created.'', log_info)]\<rparr>,
      Resolved ())"
    by (simp add: switch_defs hasMeaningfulHistory_def example_app_def sessionKey_def string_defs)
  finally show "handleSessionSwitch ''Gemini'' ?W
     = (example_app\<lparr>geminiChat := Some \<lparr>systemInstruction = generateSystemPrompt Lyra,
                                      chat_history = []\<rparr>,
        store := [''gemini-Lyra'' \<mapsto> ?se],
        chatContainer :=
          [\<lparr>prefix = ''LYRA>'', messageClass = ''system-message'', thinking = False,
             children = [text_node ''New session started for Lyra via Gemini. Awaiting your input.'']\<rparr>],
        orchestrationLog :=
          [(''Initializing session for Lyra via Gemini.'', log_info),
           (''No history found. New session created.'', log_info)]\<rparr>,
      Resolved ())" .
next
  let ?h = "[GeminiMsg \<lparr>g_role = user, parts = [text_of ''status'']\<rparr>,
             GeminiMsg \<lparr>g_role = model, parts = [text_of ''Ready.'']\<rparr>]"
  let ?se = "\<lparr>provider = ''gemini-Lyra'', history = Some ?h\<rparr>"
  let ?W = "example_app\<lparr>geminiChat := None, store := [''gemini-Lyra'' \<mapsto> ?se]\<rparr>"
  have ok: "idb_request ?W = onsuccess" by (simp add: example_app_def)
  have rec: "store ?W (sessionKey (modelSelector ?W) (personaSelector ?W)) = Some ?se"
    by (simp add: example_app_def sessionKey_def)
  have u: "history ?se = Some ?h \<and> (\<exists>m \<in> set ?h. message_role m = ''user'')" by simp
  have sel: "modelSelector ?W = gemini \<and> ai ?W \<and> validateHistory ?h = None"
    by (simp add: example_app_def validateHistory_def)
  have p: "personaSelector ?W = Lyra" by (simp add: example_app_def)
  from session_switch_needs_user_message[OF rec, of "''Gemini''"] u sel ok
  have "geminiChat (fst (handleSessionSwitch ''Gemini'' ?W))
          = Some \<lparr>systemInstruction = generateSystemPrompt (personaSelector ?W), chat_history = ?h\<rparr>"
    by blast
  then show "geminiChat (fst (handleSessionSwitch ''Gemini'' ?W))
          = Some \<lparr>systemInstruction = generateSystemPrompt Lyra, chat_history = ?h\<rparr>"
    by (simp only: p)
next
  let ?h = "[OpenAIMsg (system_msg (generateSystemPrompt Lyra)),
             OpenAIMsg (user_msg (Str ''status''))]"
  let ?se = "\<lparr>provider = ''gemini-Lyra'', history = Some ?h\<rparr>"
  let ?W = "example_app\<lparr>store := [''gemini-Lyra'' \<mapsto> ?se]\<rparr>"
  have ok: "idb_request ?W = onsuccess" by (simp add: example_app_def)
  have rec: "store ?W (sessionKey (modelSelector ?W) (personaSelector ?W)) = Some ?se"
    by (simp add: example_app_def sessionKey_def)
  have u: "history ?se = Some ?h \<and> (\<exists>m \<in> set ?h. message_role m = ''user'')" by simp
  have sel: "modelSelector ?W = gemini \<and> ai ?W
      \<and> validateHistory ?h = Some ''Role must be user or model, but got system.''"
    by (simp add: example_app_def validateHistory_def)
  from session_switch_needs_user_message[OF rec, of "''Gemini''"] u sel ok
  show "snd (handleSessionSwitch ''Gemini'' ?W)
          = Rejected ''Role must be user or model, but got system.''"
    by blast
next
  let ?h = "[OpenAIMsg (system_msg (generateSystemPrompt Lyra)),
             OpenAIMsg (user_msg (Str ''status'')),
             OpenAIMsg (assistant_msg (Some ''Ready.'') None)]"
  let ?se = "\<lparr>provider = ''openai-Lyra'', history = Some ?h\<rparr>"
  let ?W = "example_openai_app\<lparr>store := [''openai-Lyra'' \<mapsto> ?se]\<rparr>"
  have ok: "idb_request ?W = onsuccess" by (simp add: example_openai_app_def example_app_def)
  have rec: "store ?W (sessionKey (modelSelector ?W) (personaSelector ?W)) = Some ?se"
    by (simp add: example_openai_app_def example_app_def sessionKey_def)
  have u: "history ?se = Some ?h \<and> (\<exists>m \<in> set ?h. message_role m = ''user'')" by simp
  have sel: "modelSelector ?W = openai \<and> openai_client ?W"
    by (simp add: example_openai_app_def example_app_def)
  from session_switch_needs_user_message[OF rec, of "''OpenAI''"] u sel ok
  show "openAIMessages (fst (handleSessionSwitch ''OpenAI'' ?W)) = Some ?h"
    by blast
next
  let ?h = "[OpenAIMsg (system_msg (generateSystemPrompt Lyra)),
             OpenAIMsg (assistant_msg (Some ''Ready.'') None)]"
  let ?se = "\<lparr>provider = ''openai-Lyra'', history = Some ?h\<rparr>"
  let ?W = "example_openai_app\<lparr>openAIMessages :=
              Some [OpenAIMsg (system_msg (generateSystemPrompt Kara)),
                    OpenAIMsg (user_msg (Str ''audit''))],
              store := [''openai-Lyra'' \<mapsto> ?se]\<rparr>"
  have rec: "store ?W (sessionKey (modelSelector ?W) (personaSelector ?W)) = Some ?se"
    by (simp add: example_openai_app_def example_app_def sessionKey_def)
  have nouser: "(\<forall>h. history ?se = Some h \<longrightarrow> (\<forall>m \<in> set h. message_role m \<noteq> ''user''))
      \<and> idb_request ?W = onsuccess"
    by (simp add: example_openai_app_def example_app_def)
  have sel: "modelSelector ?W = openai \<and> openai_client ?W"
    by (simp add: example_openai_app_def example_app_def)
  have p: "personaSelector ?W = Lyra" by (simp add: example_openai_app_def example_app_def)
  from session_switch_needs_user_message[OF rec, of "''OpenAI''"] nouser sel
  have "openAIMessages (fst (handleSessionSwitch ''OpenAI'' ?W))
          = Some [OpenAIMsg (system_msg (generateSystemPrompt (personaSelector ?W)))]"
    by blast
  then show "openAIMessages (fst (handleSessionSwitch ''OpenAI'' ?W))
          = Some [OpenAIMsg (system_msg (generateSystemPrompt Lyra))]"
    by (simp only: p)
qed


section \<open>The tool-call loop\<close>

text \<open>
  C4, as amended: a turn that reaches the provider (on a text, on a staged file that the
  reader encodes, or on both) against a provider whose first streamed reply carries
  exactly one tool call and whose second carries text only (either provider), when the
  arguments of the call can be read, the agent name is not a name that the name map
  inherits from \<open>Object.prototype\<close>, the delegate's provider answers the delegation
  request and the save succeeds. The handler returns. It has called the delegation
  executor once, with the agent name and the prompt of the call: the replies left for
  the delegate's provider and the requests sent in between the two streamed requests
  are those of that run of the executor, and the second streamed request carries the
  result of the run (as the function response, or as the message of role \<open>tool\<close>).
  Exactly two streamed requests have been sent and two replies taken, one log entry of
  type \<open>invoke\<close> has been written, the turn is completed (its last log entry is the
  \<open>complete\<close> entry), and the wrapper shows the text of the second reply.
\<close>

theorem one_tool_call_then_answer:
  assumes input: "userInput \<noteq> [] \<or> stagedFile st \<noteq> None"
    and staged: "\<forall>f. stagedFile st = Some f \<longrightarrow> fileToBase64 f = Some (Resolved d)"
    and save_ok: "idb_request st = onsuccess"
    and deleg: "PERSONA_NAME_TO_KEY_MAP agentName \<noteq> Inherited" "completions st \<noteq> []"
    and script:
      "modelSelector st = gemini \<and> ai st \<and> geminiChat st \<noteq> None
         \<and> gemini_streams st = \<lparr>chunks = cs1, fails = None\<rparr> # \<lparr>chunks = cs2, fails = None\<rparr> # later
         \<and> foldl gemini_chunk_step ([], []) cs1 = (T1, [call])
         \<and> fc_args call = Args agentName prompt
         \<and> foldl gemini_chunk_step ([], []) cs2 = (answer, [])
       \<or> modelSelector st = openai \<and> openai_client st \<and> openAIMessages st \<noteq> None
         \<and> openai_streams st = \<lparr>chunks = ds1, fails = None\<rparr> # \<lparr>chunks = ds2, fails = None\<rparr> # later'
         \<and> openai_collect ds1 ([], []) = Resolved (T1, [tcall])
         \<and> JSON_parse st (arguments (tc_function tcall)) = Args agentName prompt
         \<and> openai_collect ds2 ([], []) = Resolved (answer, [])"
  shows "\<exists>st' sd toolResult.
             executeInvokeAgent st agentName prompt = Some (sd, Resolved toolResult)
           \<and> submitTurn userInput st = Some st'
           \<and> completions st' = completions sd
           \<and> (modelSelector st = gemini \<longrightarrow>
                 requests st' = requests st
                   @ sendMessageStream
                       ((if userInput \<noteq> [] then [text_of userInput] else [])
                        @ (case stagedFile st of None \<Rightarrow> [] | Some f \<Rightarrow> [inlineData_of d]))
                       (getTools (personaSelector st))
                   # drop (length (requests st)) (requests sd)
                   @ [sendMessageStream
                        [functionResponse_of \<lparr>fr_name = fc_name call, fr_content = toolResult\<rparr>]
                        (getTools (personaSelector st))])
           \<and> (\<forall>ms userMessage.
                 modelSelector st = openai \<and> openAIMessages st = Some ms
                 \<and> userMessage =
                     OpenAIMsg (user_msg
                       (case (if userInput \<noteq> [] then [text_part userInput] else [])
                             @ (case stagedFile st of
                                  None \<Rightarrow> []
                                | Some f \<Rightarrow>
                                    [image_url (''data:'' @ mimeType d @ '';base64,'' @ data d)]) of
                          [text_part t] \<Rightarrow> Str t
                        | contentParts \<Rightarrow> Parts contentParts)) \<longrightarrow>
                 requests st' = requests st
                   @ completions_create_stream (ms @ [userMessage]) (getTools (personaSelector st))
                   # drop (length (requests st)) (requests sd)
                   @ [completions_create_stream
                        (ms @ [userMessage,
                               OpenAIMsg (assistant_msg None (Some [tcall])),
                               OpenAIMsg (tool_msg (tc_id tcall) toolResult)])
                        (getTools (personaSelector st))])
           \<and> invoke_count st' = invoke_count st + 1
           \<and> length (gemini_streams st') + length (openai_streams st') + 2
               = length (gemini_streams st) + length (openai_streams st)
           \<and> chatContainer st' = chatContainer st
                @ [\<lparr>prefix = ''USER>'', messageClass = ''user-message'', thinking = False,
                     children = (case stagedFile st of
                                   None \<Rightarrow> []
                                 | Some f \<Rightarrow> [img (object_url f) (file_name f)])
                                @ (if userInput \<noteq> [] then [span userInput] else [])\<rparr>,
                   \<lparr>prefix = toUpperCase (key_string (personaSelector st)) @ ''>'', messageClass = [],
                     thinking = False, children = [text_node answer]\<rparr>]
           \<and> snd (last (orchestrationLog st')) = log_complete"
  using script
proof (elim disjE conjE)
  assume g: "modelSelector st = gemini" "ai st" "geminiChat st \<noteq> None"
    "gemini_streams st = \<lparr>chunks = cs1, fails = None\<rparr> # \<lparr>chunks = cs2, fails = None\<rparr> # later"
    "foldl gemini_chunk_step ([], []) cs1 = (T1, [call])" "fc_args call = Args agentName prompt"
    "foldl gemini_chunk_step ([], []) cs2 = (answer, [])"
  from g(3) obtain c where c: "geminiChat st = Some c" by blast
  from resolved_run[OF gemini_call_then_text[OF input staged g(1,2) c save_ok g(4,5,6,7) deleg]]
  obtain sd toolResult st'
    where ex: "executeInvokeAgent st agentName prompt = Some (sd, Resolved toolResult)"
      and "submitTurn userInput st = Some st'"
    "completions st' = completions sd"
    "requests st' = requests st
       @ sendMessageStream
           ((if userInput \<noteq> [] then [text_of userInput] else [])
            @ (case stagedFile st of None \<Rightarrow> [] | Some f \<Rightarrow> [inlineData_of d]))
           (getTools (personaSelector st))
       # drop (length (requests st)) (requests sd)
       @ [sendMessageStream
            [functionResponse_of \<lparr>fr_name = fc_name call, fr_content = toolResult\<rparr>]
            (getTools (personaSelector st))]"
    "invoke_count st' = invoke_count st + 1"
    "gemini_streams st' = later" "openai_streams st' = openai_streams st"
    "chatContainer st' = chatContainer st
                @ [\<lparr>prefix = ''USER>'', messageClass = ''user-message'', thinking = False,
                     children = (case stagedFile st of
                                   None \<Rightarrow> []
                                 | Some f \<Rightarrow> [img (object_url f) (file_name f)])
                                @ (if userInput \<noteq> [] then [span userInput] else [])\<rparr>,
                   \<lparr>prefix = toUpperCase (key_string (personaSelector st)) @ ''>'', messageClass = [],
                     thinking = False, children = [text_node answer]\<rparr>]"
    "snd (last (orchestrationLog st')) = log_complete"
    by blast
  with ex g(1,4) show ?thesis by simp
next
  assume o: "modelSelector st = openai" "openai_client st" "openAIMessages st \<noteq> None"
    "openai_streams st = \<lparr>chunks = ds1, fails = None\<rparr> # \<lparr>chunks = ds2, fails = None\<rparr> # later'"
    "openai_collect ds1 ([], []) = Resolved (T1, [tcall])"
    "JSON_parse st (arguments (tc_function tcall)) = Args agentName prompt"
    "openai_collect ds2 ([], []) = Resolved (answer, [])"
  from o(3) obtain ms where ms: "openAIMessages st = Some ms" by blast
  define userMessage where "userMessage =
      OpenAIMsg (user_msg
        (case (if userInput \<noteq> [] then [text_part userInput] else [])
              @ (case stagedFile st of
                   None \<Rightarrow> []
                 | Some f \<Rightarrow> [image_url (''data:'' @ mimeType d @ '';base64,'' @ data d)]) of
           [text_part t] \<Rightarrow> Str t
         | contentParts \<Rightarrow> Parts contentParts))"
  from resolved_run[OF openai_call_then_text[OF input staged o(1,2) ms save_ok o(4,5,6,7) deleg
        userMessage_def]]
  obtain sd toolResult st'
    where ex: "executeInvokeAgent st agentName prompt = Some (sd, Resolved toolResult)"
      and "submitTurn userInput st = Some st'"
    "completions st' = completions sd"
    "requests st' = requests st
       @ completions_create_stream (ms @ [userMessage]) (getTools (personaSelector st))
       # drop (length (requests st)) (requests sd)
       @ [completions_create_stream
            (ms @ [userMessage,
                   OpenAIMsg (assistant_msg None (Some [tcall])),
                   OpenAIMsg (tool_msg (tc_id tcall) toolResult)])
            (getTools (personaSelector st))]"
    "invoke_count st' = invoke_count st + 1"
    "openai_streams st' = later'" "gemini_streams st' = gemini_streams st"
    "chatContainer st' = chatContainer st
                @ [\<lparr>prefix = ''USER>'', messageClass = ''user-message'', thinking = False,
                     children = (case stagedFile st of
                                   None \<Rightarrow> []
                                 | Some f \<Rightarrow> [img (object_url f) (file_name f)])
                                @ (if userInput \<noteq> [] then [span userInput] else [])\<rparr>,
                   \<lparr>prefix = toUpperCase (key_string (personaSelector st)) @ ''>'', messageClass = [],
                     thinking = False, children = [text_node answer]\<rparr>]"
    "snd (last (orchestrationLog st')) = log_complete"
    by blast
  with ex o(1,4) ms show ?thesis unfolding userMessage_def by simp
qed

theorem one_tool_call_then_answer_witness:
  "(\<exists>st'. submitTurn ''status''
       (example_app\<lparr>gemini_streams :=
          [\<lparr>chunks = [\<lparr>chunk_text = Some ''One moment.'',
                        chunk_functionCalls =
                          Some [\<lparr>fc_name = ''invokeAgent'', fc_args = Args ''Kara'' ''audit''\<rparr>]\<rparr>],
            fails = None\<rparr>,
           \<lparr>chunks = [\<lparr>chunk_text = Some ''All '', chunk_functionCalls = None\<rparr>,
                      \<lparr>chunk_text = Some ''clear.'', chunk_functionCalls = None\<rparr>],
            fails = None\<rparr>],
          completions := [Resolved ''No findings.'']\<rparr>) = Some st'
     \<and> completions st' = []
     \<and> requests st'
         = [sendMessageStream [text_of ''status''] (getTools Lyra),
            generateContent (generateSystemPrompt Kara) ''audit'',
            sendMessageStream
              [functionResponse_of \<lparr>fr_name = ''invokeAgent'', fr_content = ''No findings.''\<rparr>]
              (getTools Lyra)]
     \<and> invoke_count st' = 1
     \<and> gemini_streams st' = []
     \<and> chatContainer st'
         = [\<lparr>prefix = ''USER>'', messageClass = ''user-message'', thinking = False,
              children = [span ''status'']\<rparr>,
            \<lparr>prefix = ''LYRA>'', messageClass = [], thinking = False,
              children = [text_node ''All clear.'']\<rparr>]
     \<and> snd (last (orchestrationLog st')) = log_complete)
   \<and> (\<exists>st'. submitTurn ''status''
       (example_openai_app\<lparr>stagedFile :=
          Some \<lparr>file_name = ''shot.png'', object_url = ''blob:1'',
                data_url = Some ''data:image/png;base64,iVBOR''\<rparr>,
          openai_streams :=
          [\<lparr>chunks = [\<lparr>delta_content = None, delta_tool_calls =
                        Some [\<lparr>index = 0, delta_id = Some ''call_1'',
                               delta_name = Some ''invokeAgent'',
                               delta_arguments = Some kara_arguments\<rparr>]\<rparr>],
            fails = None\<rparr>,
           \<lparr>chunks = [\<lparr>delta_content = Some ''All clear.'', delta_tool_calls = None\<rparr>],
            fails = None\<rparr>],
          completions := [Rejected ''503 Service Unavailable'']\<rparr>) = Some st'
     \<and> completions st' = []
     \<and> requests st'
         = [completions_create_stream
              [OpenAIMsg (system_msg (generateSystemPrompt Lyra)),
               OpenAIMsg (user_msg (Parts [text_part ''status'',
                                           image_url ''data:image/png;base64,iVBOR'']))]
              (getTools Lyra),
            completions_create
              [OpenAIMsg (system_msg (generateSystemPrompt Kara)),
               OpenAIMsg (user_msg (Str ''audit''))],
            completions_create_stream
              [OpenAIMsg (system_msg (generateSystemPrompt Lyra)),
               OpenAIMsg (user_msg (Parts [text_part ''status'',
                                           image_url ''data:image/png;base64,iVBOR''])),
               OpenAIMsg (assistant_msg None
                 (Some [\<lparr>tc_id = Some ''call_1'',
                         tc_function = \<lparr>fn_name = Some ''invokeAgent'',
                                        arguments = kara_arguments\<rparr>\<rparr>])),
               OpenAIMsg (tool_msg (Some ''call_1'')
                 ''Error during invocation of Kara: 503 Service Unavailable'')]
              (getTools Lyra)]
     \<and> invoke_count st' = 1
     \<and> openai_streams st' = []
     \<and> chatContainer st'
         = [\<lparr>prefix = ''USER>'', messageClass = ''user-message'', thinking = False,
              children = [img ''blob:1'' ''shot.png'', span ''status'']\<rparr>,
            \<lparr>prefix = ''LYRA>'', messageClass = [], thinking = False,
              children = [text_node ''All clear.'']\<rparr>]
     \<and> snd (last (orchestrationLog st')) = log_complete)"
proof
  let ?call = "\<lparr>fc_name = ''invokeAgent'', fc_args = Args ''Kara'' ''audit''\<rparr>"
  let ?cs1 = "[\<lparr>chunk_text = Some ''One moment.'', chunk_functionCalls = Some [?call]\<rparr>]"
  let ?cs2 = "[\<lparr>chunk_text = Some ''All '', chunk_functionCalls = None\<rparr>,
               \<lparr>chunk_text = Some ''clear.'', chunk_functionCalls = None\<rparr>]"
  let ?W = "example_app\<lparr>gemini_streams := [\<lparr>chunks = ?cs1, fails = None\<rparr>, \<lparr>chunks = ?cs2, fails = None\<rparr>],
              completions := [Resolved ''No findings.'']\<rparr>"
  have 1: "''status'' \<noteq> [] \<or> stagedFile ?W \<noteq> None"
      "\<forall>f. stagedFile ?W = Some f \<longrightarrow> fileToBase64 f = Some (Resolved \<lparr>mimeType = [], data = []\<rparr>)"
      "idb_request ?W = onsuccess"
    by (simp_all add: example_app_def)
  have 2: "PERSONA_NAME_TO_KEY_MAP ''Kara'' \<noteq> Inherited" "completions ?W \<noteq> []"
    by (simp_all add: PERSONA_NAME_TO_KEY_MAP_def string_defs)
  have 3: "modelSelector ?W = gemini \<and> ai ?W \<and> geminiChat ?W \<noteq> None
         \<and> gemini_streams ?W = \<lparr>chunks = ?cs1, fails = None\<rparr> # \<lparr>chunks = ?cs2, fails = None\<rparr> # []
         \<and> foldl gemini_chunk_step ([], []) ?cs1 = (''One moment.'', [?call])
         \<and> fc_args ?call = Args ''Kara'' ''audit''
         \<and> foldl gemini_chunk_step ([], []) ?cs2 = (''All clear.'', [])"
    by (simp add: example_app_def gemini_chunk_step_def)
  have sel: "modelSelector ?W = gemini" "personaSelector ?W = Lyra" "requests ?W = []"
      "chatContainer ?W = []" "invoke_count ?W = 0" "openai_streams ?W = []"
      "stagedFile ?W = None"
    by (simp_all add: example_app_def invoke_count_def)
  have ex: "executeInvokeAgent ?W ''Kara'' ''audit''
      = Some (logOrchestrationEvent ''[Kara] returned a response.'' log_success
                ((logOrchestrationEvent ''Executing call to [Kara]. Awaiting response...'' log_info ?W)
                   \<lparr>completions := [],
                    requests := [generateContent (generateSystemPrompt Kara) ''audit'']\<rparr>),
              Resolved ''No findings.'')"
    by (simp add: executeInvokeAgent_def PERSONA_NAME_TO_KEY_MAP_def string_defs example_app_def
          logOrchestrationEvent_def Let_def)
  from one_tool_call_then_answer[OF 1 2 disjI1[OF 3]]
  obtain st' sd toolResult where r:
    "executeInvokeAgent ?W ''Kara'' ''audit'' = Some (sd, Resolved toolResult)"
    "submitTurn ''status'' ?W = Some st'"
    "completions st' = completions sd"
    "modelSelector ?W = gemini \<longrightarrow>
       requests st' = requests ?W
         @ sendMessageStream
             ((if ''status'' \<noteq> [] then [text_of ''status''] else [])
              @ (case stagedFile ?W of None \<Rightarrow> [] | Some f \<Rightarrow> [inlineData_of \<lparr>mimeType = [], data = []\<rparr>]))
             (getTools (personaSelector ?W))
         # drop (length (requests ?W)) (requests sd)
         @ [sendMessageStream
              [functionResponse_of \<lparr>fr_name = fc_name ?call, fr_content = toolResult\<rparr>]
              (getTools (personaSelector ?W))]"
    "invoke_count st' = invoke_count ?W + 1"
    "length (gemini_streams st') + length (openai_streams st') + 2
       = length (gemini_streams ?W) + length (openai_streams ?W)"
    "chatContainer st' = chatContainer ?W
                @ [\<lparr>prefix = ''USER>'', messageClass = ''user-message'', thinking = False,
                     children = (case stagedFile ?W of
                                   None \<Rightarrow> []
                                 | Some f \<Rightarrow> [img (object_url f) (file_name f)])
                                @ (if ''status'' \<noteq> [] then [span ''status''] else [])\<rparr>,
                   \<lparr>prefix = toUpperCase (key_string (personaSelector ?W)) @ ''>'', messageClass = [],
                     thinking = False, children = [text_node ''All clear.'']\<rparr>]"
    "snd (last (orchestrationLog st')) = log_complete"
    by blast
  from r(1) ex have sd: "completions sd = []"
      "requests sd = [generateContent (generateSystemPrompt Kara) ''audit'']"
      "toolResult = ''No findings.''"
    by auto
  have "submitTurn ''status'' ?W = Some st'
     \<and> completions st' = []
     \<and> requests st'
         = [sendMessageStream [text_of ''status''] (getTools Lyra),
            generateContent (generateSystemPrompt Kara) ''audit'',
            sendMessageStream
              [functionResponse_of \<lparr>fr_name = ''invokeAgent'', fr_content = ''No findings.''\<rparr>]
              (getTools Lyra)]
     \<and> invoke_count st' = 1
     \<and> gemini_streams st' = []
     \<and> chatContainer st'
         = [\<lparr>prefix = ''USER>'', messageClass = ''user-message'', thinking = False,
              children = [span ''status'']\<rparr>,
            \<lparr>prefix = ''LYRA>'', messageClass = [], thinking = False,
              children = [text_node ''All clear.'']\<rparr>]
     \<and> snd (last (orchestrationLog st')) = log_complete"
    using r(2-8) sd sel by (simp add: string_defs)
  then show "\<exists>st'. submitTurn ''status'' ?W = Some st'
     \<and> completions st' = []
     \<and> requests st'
         = [sendMessageStream [text_of ''status''] (getTools Lyra),
            generateContent (generateSystemPrompt Kara) ''audit'',
            sendMessageStream
              [functionResponse_of \<lparr>fr_name = ''invokeAgent'', fr_content = ''No findings.''\<rparr>]
              (getTools Lyra)]
     \<and> invoke_count st' = 1
     \<and> gemini_streams st' = []
     \<and> chatContainer st'
         = [\<lparr>prefix = ''USER>'', messageClass = ''user-message'', thinking = False,
              children = [span ''status'']\<rparr>,
            \<lparr>prefix = ''LYRA>'', messageClass = [], thinking = False,
              children = [text_node ''All clear.'']\<rparr>]
     \<and> snd (last (orchestrationLog st')) = log_complete"
    by blast
next
  let ?tc = "\<lparr>tc_id = Some ''call_1'',
              tc_function = \<lparr>fn_name = Some ''invokeAgent'', arguments = kara_arguments\<rparr>\<rparr>"
  let ?ds1 = "[\<lparr>delta_content = None, delta_tool_calls =
                 Some [\<lparr>index = 0, delta_id = Some ''call_1'', delta_name = Some ''invokeAgent'',
                        delta_arguments = Some kara_arguments\<rparr>]\<rparr>]"
  let ?ds2 = "[\<lparr>delta_content = Some ''All clear.'', delta_tool_calls = None\<rparr>]"
  let ?f = "\<lparr>file_name = ''shot.png'', object_url = ''blob:1'',
             data_url = Some ''data:image/png;base64,iVBOR''\<rparr>"
  let ?d = "\<lparr>mimeType = ''image/png'', data = ''iVBOR''\<rparr>"
  let ?W = "example_openai_app\<lparr>stagedFile := Some ?f, openai_streams :=
              [\<lparr>chunks = ?ds1, fails = None\<rparr>, \<lparr>chunks = ?ds2, fails = None\<rparr>],
              completions := [Rejected ''503 Service Unavailable'']\<rparr>"
  let ?ms = "[OpenAIMsg (system_msg (generateSystemPrompt Lyra))]"
  let ?u = "OpenAIMsg (user_msg (Parts [text_part ''status'',
                                        image_url ''data:image/png;base64,iVBOR'']))"
  have ka: "kara_arguments \<noteq> []" by (simp add: kara_arguments_def)
  have enc: "fileToBase64 ?f = Some (Resolved ?d)" by (simp add: fileToBase64_def)
  have 1: "''status'' \<noteq> [] \<or> stagedFile ?W \<noteq> None"
      "\<forall>f. stagedFile ?W = Some f \<longrightarrow> fileToBase64 f = Some (Resolved ?d)"
      "idb_request ?W = onsuccess"
    using enc by (simp_all add: example_openai_app_def example_app_def)
  have 2: "PERSONA_NAME_TO_KEY_MAP ''Kara'' \<noteq> Inherited" "completions ?W \<noteq> []"
    by (simp_all add: PERSONA_NAME_TO_KEY_MAP_def string_defs)
  have 3: "modelSelector ?W = openai \<and> openai_client ?W \<and> openAIMessages ?W \<noteq> None
         \<and> openai_streams ?W = \<lparr>chunks = ?ds1, fails = None\<rparr> # \<lparr>chunks = ?ds2, fails = None\<rparr> # []
         \<and> openai_collect ?ds1 ([], []) = Resolved ([], [?tc])
         \<and> JSON_parse ?W (arguments (tc_function ?tc)) = Args ''Kara'' ''audit''
         \<and> openai_collect ?ds2 ([], []) = Resolved (''All clear.'', [])"
    using ka by (simp add: example_openai_app_def example_app_def apply_delta_def example_parse_def)
  have sel: "modelSelector ?W = openai" "personaSelector ?W = Lyra" "requests ?W = []"
      "chatContainer ?W = []" "invoke_count ?W = 0" "openAIMessages ?W = Some ?ms"
      "gemini_streams ?W = []" "stagedFile ?W = Some ?f"
    by (simp_all add: example_openai_app_def example_app_def invoke_count_def)
  have um: "?u = OpenAIMsg (user_msg
                       (case (if ''status'' \<noteq> [] then [text_part ''status''] else [])
                             @ (case stagedFile ?W of
                                  None \<Rightarrow> []
                                | Some f \<Rightarrow>
                                    [image_url (''data:'' @ mimeType ?d @ '';base64,'' @ data ?d)]) of
                          [text_part t] \<Rightarrow> Str t
                        | contentParts \<Rightarrow> Parts contentParts))"
    by simp
  have ex: "executeInvokeAgent ?W ''Kara'' ''audit''
      = Some (logOrchestrationEvent
                ''Error during invocation of [Kara]: 503 Service Unavailable'' log_error
                ((logOrchestrationEvent ''Executing call to [Kara]. Awaiting response...'' log_info ?W)
                   \<lparr>completions := [],
                    requests := [completions_create
                                   [OpenAIMsg (system_msg (generateSystemPrompt Kara)),
                                    OpenAIMsg (user_msg (Str ''audit''))]]\<rparr>),
              Resolved ''Error during invocation of Kara: 503 Service Unavailable'')"
    by (simp add: executeInvokeAgent_def PERSONA_NAME_TO_KEY_MAP_def string_defs
          example_openai_app_def example_app_def logOrchestrationEvent_def Let_def)
  from one_tool_call_then_answer[OF 1 2 disjI2[OF 3]]
  obtain st' sd toolResult where r:
    "executeInvokeAgent ?W ''Kara'' ''audit'' = Some (sd, Resolved toolResult)"
    "submitTurn ''status'' ?W = Some st'"
    "completions st' = completions sd"
    "\<forall>ms userMessage.
       modelSelector ?W = openai \<and> openAIMessages ?W = Some ms
       \<and> userMessage =
           OpenAIMsg (user_msg
             (case (if ''status'' \<noteq> [] then [text_part ''status''] else [])
                   @ (case stagedFile ?W of
                        None \<Rightarrow> []
                      | Some f \<Rightarrow>
                          [image_url (''data:'' @ mimeType ?d @ '';base64,'' @ data ?d)]) of
                [text_part t] \<Rightarrow> Str t
              | contentParts \<Rightarrow> Parts contentParts)) \<longrightarrow>
       requests st' = requests ?W
         @ completions_create_stream (ms @ [userMessage]) (getTools (personaSelector ?W))
         # drop (length (requests ?W)) (requests sd)
         @ [completions_create_stream
              (ms @ [userMessage,
                     OpenAIMsg (assistant_msg None (Some [?tc])),
                     OpenAIMsg (tool_msg (tc_id ?tc) toolResult)])
              (getTools (personaSelector ?W))]"
    "invoke_count st' = invoke_count ?W + 1"
    "length (gemini_streams st') + length (openai_streams st') + 2
       = length (gemini_streams ?W) + length (openai_streams ?W)"
    "chatContainer st' = chatContainer ?W
                @ [\<lparr>prefix = ''USER>'', messageClass = ''user-message'', thinking = False,
                     children = (case stagedFile ?W of
                                   None \<Rightarrow> []
                                 | Some f \<Rightarrow> [img (object_url f) (file_name f)])
                                @ (if ''status'' \<noteq> [] then [span ''status''] else [])\<rparr>,
                   \<lparr>prefix = toUpperCase (key_string (personaSelector ?W)) @ ''>'', messageClass = [],
                     thinking = False, children = [text_node ''All clear.'']\<rparr>]"
    "snd (last (orchestrationLog st')) = log_complete"
    by blast
  from r(1) ex have sd: "completions sd = []"
      "requests sd = [completions_create
                        [OpenAIMsg (system_msg (generateSystemPrompt Kara)),
                         OpenAIMsg (user_msg (Str ''audit''))]]"
      "toolResult = ''Error during invocation of Kara: 503 Service Unavailable''"
    by auto
  from r(4) sel(1,6) um have rq: "requests st' = requests ?W
         @ completions_create_stream (?ms @ [?u]) (getTools (personaSelector ?W))
         # drop (length (requests ?W)) (requests sd)
         @ [completions_create_stream
              (?ms @ [?u,
                     OpenAIMsg (assistant_msg None (Some [?tc])),
                     OpenAIMsg (tool_msg (tc_id ?tc) toolResult)])
              (getTools (personaSelector ?W))]"
    by blast
  have "submitTurn ''status'' ?W = Some st'
     \<and> completions st' = []
     \<and> requests st'
         = [completions_create_stream
              [OpenAIMsg (system_msg (generateSystemPrompt Lyra)), ?u] (getTools Lyra),
            completions_create
              [OpenAIMsg (system_msg (generateSystemPrompt Kara)),
               OpenAIMsg (user_msg (Str ''audit''))],
            completions_create_stream
              [OpenAIMsg (system_msg (generateSystemPrompt Lyra)), ?u,
               OpenAIMsg (assistant_msg None (Some [?tc])),
               OpenAIMsg (tool_msg (Some ''call_1'')
                 ''Error during invocation of Kara: 503 Service Unavailable'')]
              (getTools Lyra)]
     \<and> invoke_count st' = 1
     \<and> openai_streams st' = []
     \<and> chatContainer st'
         = [\<lparr>prefix = ''USER>'', messageClass = ''user-message'', thinking = False,
              children = [img ''blob:1'' ''shot.png'', span ''status'']\<rparr>,
            \<lparr>prefix = ''LYRA>'', messageClass = [], thinking = False,
              children = [text_node ''All clear.'']\<rparr>]
     \<and> snd (last (orchestrationLog st')) = log_complete"
    using r(2,3,5-8) rq sd sel by (simp add: string_defs)
  then show "\<exists>st'. submitTurn ''status'' ?W = Some st'
     \<and> completions st' = []
     \<and> requests st'
         = [completions_create_stream
              [OpenAIMsg (system_msg (generateSystemPrompt Lyra)), ?u] (getTools Lyra),
            completions_create
              [OpenAIMsg (system_msg (generateSystemPrompt Kara)),
               OpenAIMsg (user_msg (Str ''audit''))],
            completions_create_stream
              [OpenAIMsg (system_msg (generateSystemPrompt Lyra)), ?u,
               OpenAIMsg (assistant_msg None (Some [?tc])),
               OpenAIMsg (tool_msg (Some ''call_1'')
                 ''Error during invocation of Kara: 503 Service Unavailable'')]
              (getTools Lyra)]
     \<and> invoke_count st' = 1
     \<and> openai_streams st' = []
     \<and> chatContainer st'
         = [\<lparr>prefix = ''USER>'', messageClass = ''user-message'', thinking = False,
              children = [img ''blob:1'' ''shot.png'', span ''status'']\<rparr>,
            \<lparr>prefix = ''LYRA>'', messageClass = [], thinking = False,
              children = [text_node ''All clear.'']\<rparr>]
     \<and> snd (last (orchestrationLog st')) = log_complete"
    by blast
qed

text \<open>
  The claim as stated fails on the example states with a provider script of the claimed
  shape (a first reply with exactly one tool call, a second reply with text only). When
  the call names \<open>constructor\<close>, the executor throws, the turn ends in the error message,
  no delegation request is sent and the second reply is never asked for. When the save
  of the transcript fails, the delegation is made and both replies are taken, but the
  answer is replaced by the error message. When the \<open>arguments\<close> text of the call is
  empty (OpenAI), \<open>JSON.parse\<close> throws and the turn ends in the error message without a
  delegation. When the delegate's provider never answers, the handler never returns.
\<close>

theorem one_tool_call_then_answer_counterexample:
  "map_option chatContainer
     (submitTurn ''status''
        (example_app\<lparr>gemini_streams :=
           [\<lparr>chunks = [\<lparr>chunk_text = Some ''One moment.'',
                         chunk_functionCalls =
                           Some [\<lparr>fc_name = ''invokeAgent'',
                                  fc_args = Args ''constructor'' ''audit''\<rparr>]\<rparr>],
             fails = None\<rparr>,
            \<lparr>chunks = [\<lparr>chunk_text = Some ''All clear.'', chunk_functionCalls = None\<rparr>],
             fails = None\<rparr>],
           completions := [Resolved ''No findings.'']\<rparr>))
     = Some [\<lparr>prefix = ''USER>'', messageClass = ''user-message'', thinking = False,
               children = [span ''status'']\<rparr>,
             \<lparr>prefix = ''SYSTEM_ERROR>'', messageClass = ''error-message'', thinking = False,
               children = [text_node (''Error: Cannot read properties of undefined (reading ''
                                      @ sq @ ''name'' @ sq @ '')'')]\<rparr>]
   \<and> map_option requests
     (submitTurn ''status''
        (example_app\<lparr>gemini_streams :=
           [\<lparr>chunks = [\<lparr>chunk_text = Some ''One moment.'',
                         chunk_functionCalls =
                           Some [\<lparr>fc_name = ''invokeAgent'',
                                  fc_args = Args ''constructor'' ''audit''\<rparr>]\<rparr>],
             fails = None\<rparr>,
            \<lparr>chunks = [\<lparr>chunk_text = Some ''All clear.'', chunk_functionCalls = None\<rparr>],
             fails = None\<rparr>],
           completions := [Resolved ''No findings.'']\<rparr>))
     = Some [sendMessageStream [text_of ''status''] (getTools Lyra)]
   \<and> map_option chatContainer
     (submitTurn ''status''
        (example_app\<lparr>gemini_streams :=
           [\<lparr>chunks = [\<lparr>chunk_text = Some ''One moment.'',
                         chunk_functionCalls =
                           Some [\<lparr>fc_name = ''invokeAgent'',
                                  fc_args = Args ''Kara'' ''audit''\<rparr>]\<rparr>],
             fails = None\<rparr>,
            \<lparr>chunks = [\<lparr>chunk_text = Some ''All clear.'', chunk_functionCalls = None\<rparr>],
             fails = None\<rparr>],
           completions := [Resolved ''No findings.''],
           idb_request := onerror ''The quota has been exceeded.''\<rparr>))
     = Some [\<lparr>prefix = ''USER>'', messageClass = ''user-message'', thinking = False,
               children = [span ''status'']\<rparr>,
             \<lparr>prefix = ''SYSTEM_ERROR>'', messageClass = ''error-message'', thinking = False,
               children = [text_node ''Error: The quota has been exceeded.'']\<rparr>]
   \<and> map_option chatContainer
     (submitTurn ''status''
        (example_openai_app\<lparr>openai_streams :=
           [\<lparr>chunks = [\<lparr>delta_content = None, delta_tool_calls =
                         Some [\<lparr>index = 0, delta_id = Some ''call_1'',
                                delta_name = Some ''invokeAgent'', delta_arguments = None\<rparr>]\<rparr>],
             fails = None\<rparr>,
            \<lparr>chunks = [\<lparr>delta_content = Some ''All clear.'', delta_tool_calls = None\<rparr>],
             fails = None\<rparr>],
           completions := [Resolved ''No findings.'']\<rparr>))
     = Some [\<lparr>prefix = ''USER>'', messageClass = ''user-message'', thinking = False,
               children = [span ''status'']\<rparr>,
             \<lparr>prefix = ''SYSTEM_ERROR>'', messageClass = ''error-message'', thinking = False,
               children = [text_node ''Error: Unexpected end of JSON input'']\<rparr>]
   \<and> map_option completions
     (submitTurn ''status''
        (example_openai_app\<lparr>openai_streams :=
           [\<lparr>chunks = [\<lparr>delta_content = None, delta_tool_calls =
                         Some [\<lparr>index = 0, delta_id = Some ''call_1'',
                                delta_name = Some ''invokeAgent'', delta_arguments = None\<rparr>]\<rparr>],
             fails = None\<rparr>,
            \<lparr>chunks = [\<lparr>delta_content = Some ''All clear.'', delta_tool_calls = None\<rparr>],
             fails = None\<rparr>],
           completions := [Resolved ''No findings.'']\<rparr>))
     = Some [Resolved ''No findings.'']
   \<and> submitTurn ''status''
        (example_app\<lparr>gemini_streams :=
           [\<lparr>chunks = [\<lparr>chunk_text = Some ''One moment.'',
                         chunk_functionCalls =
                           Some [\<lparr>fc_name = ''invokeAgent'',
                                  fc_args = Args ''Kara'' ''audit''\<rparr>]\<rparr>],
             fails = None\<rparr>,
            \<lparr>chunks = [\<lparr>chunk_text = Some ''All clear.'', chunk_functionCalls = None\<rparr>],
             fails = None\<rparr>],
           completions := []\<rparr>)
     = None"
proof (intro conjI)
  let ?r2 = "\<lparr>chunks = [\<lparr>chunk_text = Some ''All clear.'', chunk_functionCalls = None\<rparr>],
              fails = None\<rparr>"
  let ?c = "[\<lparr>chunks = [\<lparr>chunk_text = Some ''One moment.'',
                         chunk_functionCalls =
                           Some [\<lparr>fc_name = ''invokeAgent'',
                                  fc_args = Args ''constructor'' ''audit''\<rparr>]\<rparr>],
             fails = None\<rparr>, ?r2]"
  let ?k = "[\<lparr>chunks = [\<lparr>chunk_text = Some ''One moment.'',
                         chunk_functionCalls =
                           Some [\<lparr>fc_name = ''invokeAgent'',
                                  fc_args = Args ''Kara'' ''audit''\<rparr>]\<rparr>],
             fails = None\<rparr>, ?r2]"
  let ?o = "[\<lparr>chunks = [\<lparr>delta_content = None, delta_tool_calls =
                         Some [\<lparr>index = 0, delta_id = Some ''call_1'',
                                delta_name = Some ''invokeAgent'', delta_arguments = None\<rparr>]\<rparr>],
             fails = None\<rparr>,
            \<lparr>chunks = [\<lparr>delta_content = Some ''All clear.'', delta_tool_calls = None\<rparr>],
             fails = None\<rparr>]"
  show "map_option chatContainer
     (submitTurn ''status''
        (example_app\<lparr>gemini_streams := ?c, completions := [Resolved ''No findings.'']\<rparr>))
     = Some [\<lparr>prefix = ''USER>'', messageClass = ''user-message'', thinking = False,
               children = [span ''status'']\<rparr>,
             \<lparr>prefix = ''SYSTEM_ERROR>'', messageClass = ''error-message'', thinking = False,
               children = [text_node (''Error: Cannot read properties of undefined (reading ''
                                      @ sq @ ''name'' @ sq @ '')'')]\<rparr>]"
    by (simp add: eval_defs example_app_def string_defs)
  show "map_option requests
     (submitTurn ''status''
        (example_app\<lparr>gemini_streams := ?c, completions := [Resolved ''No findings.'']\<rparr>))
     = Some [sendMessageStream [text_of ''status''] (getTools Lyra)]"
    by (simp add: eval_defs example_app_def string_defs)
  show "map_option chatContainer
     (submitTurn ''status''
        (example_app\<lparr>gemini_streams := ?k, completions := [Resolved ''No findings.''],
           idb_request := onerror ''The quota has been exceeded.''\<rparr>))
     = Some [\<lparr>prefix = ''USER>'', messageClass = ''user-message'', thinking = False,
               children = [span ''status'']\<rparr>,
             \<lparr>prefix = ''SYSTEM_ERROR>'', messageClass = ''error-message'', thinking = False,
               children = [text_node ''Error: The quota has been exceeded.'']\<rparr>]"
    by (simp add: eval_defs example_app_def string_defs)
  show "map_option chatContainer
     (submitTurn ''status''
        (example_openai_app\<lparr>openai_streams := ?o, completions := [Resolved ''No findings.'']\<rparr>))
     = Some [\<lparr>prefix = ''USER>'', messageClass = ''user-message'', thinking = False,
               children = [span ''status'']\<rparr>,
             \<lparr>prefix = ''SYSTEM_ERROR>'', messageClass = ''error-message'', thinking = False,
               children = [text_node ''Error: Unexpected end of JSON input'']\<rparr>]"
    by (simp add: eval_defs example_openai_app_def example_app_def string_defs apply_delta_def
          example_parse_def kara_arguments_def dan_arguments_def)
  show "map_option completions
     (submitTurn ''status''
        (example_openai_app\<lparr>openai_streams := ?o, completions := [Resolved ''No findings.'']\<rparr>))
     = Some [Resolved ''No findings.'']"
    by (simp add: eval_defs example_openai_app_def example_app_def string_defs apply_delta_def
          example_parse_def kara_arguments_def dan_arguments_def)
  show "submitTurn ''status'' (example_app\<lparr>gemini_streams := ?k, completions := []\<rparr>) = None"
    by (simp add: eval_defs example_app_def string_defs)
qed

text \<open>
  C5: one iteration of either loop acts on the first tool call of the reply and on no
  other. When a reply ends with the calls \<open>call # others\<close> and the arguments of \<open>call\<close>
  can be read, the iteration runs the delegation executor on the agent name and the
  prompt of \<open>call\<close>: the replies left for the delegate's provider and the requests that
  follow the streamed request are those of that run, it returns exactly when that run
  does, and the result of the run is what the loop sends back (the function response of
  the next Gemini message, the message of role \<open>tool\<close> for the identifier of \<open>call\<close>), or
  the error that ends the turn. The calls \<open>others\<close> change nothing of this: a reply with
  other calls after \<open>call\<close>, or with none, gives the same iteration apart from what the
  transcript records of the reply. And whatever the reply, an iteration writes at most
  one log entry of type \<open>invoke\<close> and takes at most one reply from the delegate's
  provider.
\<close>

theorem only_first_tool_call_is_executed:
  "(gemini_streams st = r # rest \<and> fails r = None
      \<and> foldl gemini_chunk_step ([], []) (chunks r) = (T, call # others)
      \<and> fc_args call = Args a p \<longrightarrow>
      map_option (\<lambda>(s, x). (x, completions s, requests s, invoke_count s))
        (gemini_iteration n t m st)
      = map_option
          (\<lambda>(sd, res).
             (case res of
                Resolved v \<Rightarrow>
                  Continue [functionResponse_of \<lparr>fr_name = fc_name call, fr_content = v\<rparr>]
              | Rejected e \<Rightarrow> Exit (Rejected e),
              completions sd,
              requests st @ sendMessageStream m t # drop (length (requests st)) (requests sd),
              invoke_count st + 1))
          (executeInvokeAgent st a p))
   \<and> (openAIMessages st = Some ms \<and> openai_streams st = q # rest' \<and> fails q = None
      \<and> openai_collect (chunks q) ([], []) = Resolved (U, tcall # tothers)
      \<and> JSON_parse st (arguments (tc_function tcall)) = Args a' p' \<longrightarrow>
      map_option (\<lambda>(s, x). (x, completions s, requests s, invoke_count s, openAIMessages s))
        (openai_iteration n t st)
      = map_option
          (\<lambda>(sd, res).
             (case res of Resolved v \<Rightarrow> Continue () | Rejected e \<Rightarrow> Exit (Rejected e),
              completions sd,
              requests st @ completions_create_stream ms t
                # drop (length (requests st)) (requests sd),
              invoke_count st + 1,
              Some (ms @ OpenAIMsg (assistant_msg None (Some (tcall # tothers)))
                      # (case res of
                           Resolved v \<Rightarrow> [OpenAIMsg (tool_msg (tc_id tcall) v)]
                         | Rejected e \<Rightarrow> []))))
          (executeInvokeAgent st a' p'))
   \<and> (fails r = None \<and> fails r' = None
      \<and> foldl gemini_chunk_step ([], []) (chunks r) = (T, call # others)
      \<and> foldl gemini_chunk_step ([], []) (chunks r') = (T, call # others') \<longrightarrow>
      map_option (\<lambda>(s, x). (s\<lparr>geminiChat := None\<rparr>, x))
        (gemini_iteration n t m (st\<lparr>gemini_streams := r # rest\<rparr>))
      = map_option (\<lambda>(s, x). (s\<lparr>geminiChat := None\<rparr>, x))
        (gemini_iteration n t m (st\<lparr>gemini_streams := r' # rest\<rparr>)))
   \<and> (openAIMessages st = Some ms \<and> fails q = None \<and> fails q' = None
      \<and> openai_collect (chunks q) ([], []) = Resolved (U, tcall # tothers)
      \<and> openai_collect (chunks q') ([], []) = Resolved (U, tcall # tothers') \<longrightarrow>
      map_option (\<lambda>(s, x). (s\<lparr>openAIMessages := None\<rparr>, x))
        (openai_iteration n t (st\<lparr>openai_streams := q # rest'\<rparr>))
      = map_option (\<lambda>(s, x). (s\<lparr>openAIMessages := None\<rparr>, x))
        (openai_iteration n t (st\<lparr>openai_streams := q' # rest'\<rparr>)))
   \<and> (\<forall>s s' x. gemini_iteration n t m s = Some (s', x) \<longrightarrow>
          invoke_count s' \<le> invoke_count s + 1
          \<and> length (completions s) \<le> length (completions s') + 1)
   \<and> (\<forall>s s' x. openai_iteration n t s = Some (s', x) \<longrightarrow>
          invoke_count s' \<le> invoke_count s + 1
          \<and> length (completions s) \<le> length (completions s') + 1)"
proof (intro conjI impI allI; (elim conjE)?)
  assume "gemini_streams st = r # rest" "fails r = None"
    "foldl gemini_chunk_step ([], []) (chunks r) = (T, call # others)" "fc_args call = Args a p"
  then show "map_option (\<lambda>(s, x). (x, completions s, requests s, invoke_count s))
        (gemini_iteration n t m st)
      = map_option
          (\<lambda>(sd, res).
             (case res of
                Resolved v \<Rightarrow>
                  Continue [functionResponse_of \<lparr>fr_name = fc_name call, fr_content = v\<rparr>]
              | Rejected e \<Rightarrow> Exit (Rejected e),
              completions sd,
              requests st @ sendMessageStream m t # drop (length (requests st)) (requests sd),
              invoke_count st + 1))
          (executeInvokeAgent st a p)"
    by (rule gemini_iteration_runs_executor)
next
  assume "openAIMessages st = Some ms" "openai_streams st = q # rest'" "fails q = None"
    "openai_collect (chunks q) ([], []) = Resolved (U, tcall # tothers)"
    "JSON_parse st (arguments (tc_function tcall)) = Args a' p'"
  then show "map_option (\<lambda>(s, x). (x, completions s, requests s, invoke_count s, openAIMessages s))
        (openai_iteration n t st)
      = map_option
          (\<lambda>(sd, res).
             (case res of Resolved v \<Rightarrow> Continue () | Rejected e \<Rightarrow> Exit (Rejected e),
              completions sd,
              requests st @ completions_create_stream ms t
                # drop (length (requests st)) (requests sd),
              invoke_count st + 1,
              Some (ms @ OpenAIMsg (assistant_msg None (Some (tcall # tothers)))
                      # (case res of
                           Resolved v \<Rightarrow> [OpenAIMsg (tool_msg (tc_id tcall) v)]
                         | Rejected e \<Rightarrow> []))))
          (executeInvokeAgent st a' p')"
    by (rule openai_iteration_runs_executor)
next
  assume "fails r = None" "fails r' = None"
    "foldl gemini_chunk_step ([], []) (chunks r) = (T, call # others)"
    "foldl gemini_chunk_step ([], []) (chunks r') = (T, call # others')"
  then show "map_option (\<lambda>(s, x). (s\<lparr>geminiChat := None\<rparr>, x))
        (gemini_iteration n t m (st\<lparr>gemini_streams := r # rest\<rparr>))
      = map_option (\<lambda>(s, x). (s\<lparr>geminiChat := None\<rparr>, x))
        (gemini_iteration n t m (st\<lparr>gemini_streams := r' # rest\<rparr>))"
    by (rule gemini_first_call_only)
next
  assume "openAIMessages st = Some ms" "fails q = None" "fails q' = None"
    "openai_collect (chunks q) ([], []) = Resolved (U, tcall # tothers)"
    "openai_collect (chunks q') ([], []) = Resolved (U, tcall # tothers')"
  then show "map_option (\<lambda>(s, x). (s\<lparr>openAIMessages := None\<rparr>, x))
        (openai_iteration n t (st\<lparr>openai_streams := q # rest'\<rparr>))
      = map_option (\<lambda>(s, x). (s\<lparr>openAIMessages := None\<rparr>, x))
        (openai_iteration n t (st\<lparr>openai_streams := q' # rest'\<rparr>))"
    by (intro openai_first_call_only)
next
  fix s s' x assume "gemini_iteration n t m s = Some (s', x)"
  then show "invoke_count s' \<le> invoke_count s + 1"
    "length (completions s) \<le> length (completions s') + 1"
    by (auto dest: gemini_iteration_one_invocation)
next
  fix s s' x assume "openai_iteration n t s = Some (s', x)"
  then show "invoke_count s' \<le> invoke_count s + 1"
    "length (completions s) \<le> length (completions s') + 1"
    by (auto dest: openai_iteration_one_invocation)
qed

theorem only_first_tool_call_is_executed_witness:
  "map_option (\<lambda>(s, x). (x, completions s, requests s, invoke_count s))
     (gemini_iteration ''Lyra'' (getTools Lyra) [text_of ''status'']
        (example_app\<lparr>completions := [Resolved ''No findings.'', Resolved ''Deployed.''],
           gemini_streams :=
             [\<lparr>chunks = [\<lparr>chunk_text = Some ''One moment.'',
                           chunk_functionCalls =
                             Some [\<lparr>fc_name = ''invokeAgent'', fc_args = Args ''Kara'' ''audit''\<rparr>,
                                   \<lparr>fc_name = ''invokeAgent'', fc_args = Args ''Dan'' ''deploy''\<rparr>]\<rparr>],
               fails = None\<rparr>]\<rparr>))
     = Some (Continue [functionResponse_of
                         \<lparr>fr_name = ''invokeAgent'', fr_content = ''No findings.''\<rparr>],
             [Resolved ''Deployed.''],
             [sendMessageStream [text_of ''status''] (getTools Lyra),
              generateContent (generateSystemPrompt Kara) ''audit''],
             1)
   \<and> map_option (\<lambda>(s, x). (x, completions s, requests s, invoke_count s, openAIMessages s))
     (openai_iteration ''Lyra'' (getTools Lyra)
        (example_openai_app\<lparr>completions := [Resolved ''No findings.'', Resolved ''Deployed.''],
           openai_streams :=
             [\<lparr>chunks = [\<lparr>delta_content = None, delta_tool_calls =
                  Some [\<lparr>index = 0, delta_id = Some ''call_1'', delta_name = Some ''invokeAgent'',
                         delta_arguments = Some kara_arguments\<rparr>,
                        \<lparr>index = 1, delta_id = Some ''call_2'', delta_name = Some ''invokeAgent'',
                         delta_arguments = Some dan_arguments\<rparr>]\<rparr>],
               fails = None\<rparr>]\<rparr>))
     = Some (Continue (),
             [Resolved ''Deployed.''],
             [completions_create_stream
                [OpenAIMsg (system_msg (generateSystemPrompt Lyra))] (getTools Lyra),
              completions_create
                [OpenAIMsg (system_msg (generateSystemPrompt Kara)),
                 OpenAIMsg (user_msg (Str ''audit''))]],
             1,
             Some [OpenAIMsg (system_msg (generateSystemPrompt Lyra)),
                   OpenAIMsg (assistant_msg None
                     (Some [\<lparr>tc_id = Some ''call_1'',
                             tc_function = \<lparr>fn_name = Some ''invokeAgent'',
                                            arguments = kara_arguments\<rparr>\<rparr>,
                            \<lparr>tc_id = Some ''call_2'',
                             tc_function = \<lparr>fn_name = Some ''invokeAgent'',
                                            arguments = dan_arguments\<rparr>\<rparr>])),
                   OpenAIMsg (tool_msg (Some ''call_1'') ''No findings.'')])
   \<and> map_option (\<lambda>(s, x). (s\<lparr>geminiChat := None\<rparr>, x))
     (gemini_iteration ''Lyra'' (getTools Lyra) [text_of ''status'']
        (example_app\<lparr>completions := [Resolved ''No findings.'', Resolved ''Deployed.''],
           gemini_streams :=
             [\<lparr>chunks = [\<lparr>chunk_text = Some ''One moment.'',
                           chunk_functionCalls =
                             Some [\<lparr>fc_name = ''invokeAgent'', fc_args = Args ''Kara'' ''audit''\<rparr>,
                                   \<lparr>fc_name = ''invokeAgent'', fc_args = Args ''Dan'' ''deploy''\<rparr>]\<rparr>],
               fails = None\<rparr>]\<rparr>))
     = map_option (\<lambda>(s, x). (s\<lparr>geminiChat := None\<rparr>, x))
     (gemini_iteration ''Lyra'' (getTools Lyra) [text_of ''status'']
        (example_app\<lparr>completions := [Resolved ''No findings.'', Resolved ''Deployed.''],
           gemini_streams :=
             [\<lparr>chunks = [\<lparr>chunk_text = Some ''One moment.'',
                           chunk_functionCalls =
                             Some [\<lparr>fc_name = ''invokeAgent'', fc_args = Args ''Kara'' ''audit''\<rparr>]\<rparr>],
               fails = None\<rparr>]\<rparr>))
   \<and> map_option (\<lambda>(s, x). (s\<lparr>openAIMessages := None\<rparr>, x))
     (openai_iteration ''Lyra'' (getTools Lyra)
        (example_openai_app\<lparr>completions := [Resolved ''No findings.'', Resolved ''Deployed.''],
           openai_streams :=
             [\<lparr>chunks = [\<lparr>delta_content = None, delta_tool_calls =
                  Some [\<lparr>index = 0, delta_id = Some ''call_1'', delta_name = Some ''invokeAgent'',
                         delta_arguments = Some kara_arguments\<rparr>,
                        \<lparr>index = 1, delta_id = Some ''call_2'', delta_name = Some ''invokeAgent'',
                         delta_arguments = Some dan_arguments\<rparr>]\<rparr>],
               fails = None\<rparr>]\<rparr>))
     = map_option (\<lambda>(s, x). (s\<lparr>openAIMessages := None\<rparr>, x))
     (openai_iteration ''Lyra'' (getTools Lyra)
        (example_openai_app\<lparr>completions := [Resolved ''No findings.'', Resolved ''Deployed.''],
           openai_streams :=
             [\<lparr>chunks = [\<lparr>delta_content = None, delta_tool_calls =
                  Some [\<lparr>index = 0, delta_id = Some ''call_1'', delta_name = Some ''invokeAgent'',
                         delta_arguments = Some kara_arguments\<rparr>]\<rparr>],
               fails = None\<rparr>]\<rparr>))"
proof (intro conjI)
  let ?k = "\<lparr>fc_name = ''invokeAgent'', fc_args = Args ''Kara'' ''audit''\<rparr>"
  let ?d = "\<lparr>fc_name = ''invokeAgent'', fc_args = Args ''Dan'' ''deploy''\<rparr>"
  let ?r = "\<lparr>chunks = [\<lparr>chunk_text = Some ''One moment.'', chunk_functionCalls = Some [?k, ?d]\<rparr>],
             fails = None\<rparr>"
  let ?G = "example_app\<lparr>completions := [Resolved ''No findings.'', Resolved ''Deployed.''],
              gemini_streams := [?r]\<rparr>"
  have g: "gemini_streams ?G = ?r # [] \<and> fails ?r = None
      \<and> foldl gemini_chunk_step ([], []) (chunks ?r) = (''One moment.'', ?k # [?d])
      \<and> fc_args ?k = Args ''Kara'' ''audit''"
    by (simp add: gemini_chunk_step_def)
  have ex: "map_option (\<lambda>(sd, res). (res, completions sd, requests sd))
              (executeInvokeAgent ?G ''Kara'' ''audit'')
      = Some (Resolved ''No findings.'', [Resolved ''Deployed.''],
              [generateContent (generateSystemPrompt Kara) ''audit''])"
    by (simp add: executeInvokeAgent_def PERSONA_NAME_TO_KEY_MAP_def string_defs example_app_def
          logOrchestrationEvent_def Let_def)
  have sel: "requests ?G = []" "invoke_count ?G = 0"
    by (simp_all add: example_app_def invoke_count_def)
  from only_first_tool_call_is_executed[of ?G ?r "[]" "''One moment.''" ?k "[?d]"
      "''Kara''" "''audit''" "''Lyra''" "getTools Lyra" "[text_of ''status'']"] g
  have "map_option (\<lambda>(s, x). (x, completions s, requests s, invoke_count s))
        (gemini_iteration ''Lyra'' (getTools Lyra) [text_of ''status''] ?G)
      = map_option
          (\<lambda>(sd, res).
             (case res of
                Resolved v \<Rightarrow>
                  Continue [functionResponse_of \<lparr>fr_name = fc_name ?k, fr_content = v\<rparr>]
              | Rejected e \<Rightarrow> Exit (Rejected e),
              completions sd,
              requests ?G @ sendMessageStream [text_of ''status''] (getTools Lyra)
                # drop (length (requests ?G)) (requests sd),
              invoke_count ?G + 1))
          (executeInvokeAgent ?G ''Kara'' ''audit'')"
    by blast
  also have "\<dots> = Some (Continue [functionResponse_of
                         \<lparr>fr_name = ''invokeAgent'', fr_content = ''No findings.''\<rparr>],
             [Resolved ''Deployed.''],
             [sendMessageStream [text_of ''status''] (getTools Lyra),
              generateContent (generateSystemPrompt Kara) ''audit''],
             1)"
    using ex sel by (cases "executeInvokeAgent ?G ''Kara'' ''audit''") auto
  finally show "map_option (\<lambda>(s, x). (x, completions s, requests s, invoke_count s))
     (gemini_iteration ''Lyra'' (getTools Lyra) [text_of ''status''] ?G)
     = Some (Continue [functionResponse_of
                         \<lparr>fr_name = ''invokeAgent'', fr_content = ''No findings.''\<rparr>],
             [Resolved ''Deployed.''],
             [sendMessageStream [text_of ''status''] (getTools Lyra),
              generateContent (generateSystemPrompt Kara) ''audit''],
             1)" .
next
  let ?c1 = "\<lparr>tc_id = Some ''call_1'',
              tc_function = \<lparr>fn_name = Some ''invokeAgent'', arguments = kara_arguments\<rparr>\<rparr>"
  let ?c2 = "\<lparr>tc_id = Some ''call_2'',
              tc_function = \<lparr>fn_name = Some ''invokeAgent'', arguments = dan_arguments\<rparr>\<rparr>"
  let ?q = "\<lparr>chunks = [\<lparr>delta_content = None, delta_tool_calls =
               Some [\<lparr>index = 0, delta_id = Some ''call_1'', delta_name = Some ''invokeAgent'',
                      delta_arguments = Some kara_arguments\<rparr>,
                     \<lparr>index = 1, delta_id = Some ''call_2'', delta_name = Some ''invokeAgent'',
                      delta_arguments = Some dan_arguments\<rparr>]\<rparr>],
             fails = None\<rparr>"
  let ?ms = "[OpenAIMsg (system_msg (generateSystemPrompt Lyra))]"
  let ?O = "example_openai_app\<lparr>completions := [Resolved ''No findings.'', Resolved ''Deployed.''],
              openai_streams := [?q]\<rparr>"
  have ne: "kara_arguments \<noteq> []" "dan_arguments \<noteq> []"
    by (simp_all add: kara_arguments_def dan_arguments_def)
  have o: "openAIMessages ?O = Some ?ms \<and> openai_streams ?O = ?q # [] \<and> fails ?q = None
      \<and> openai_collect (chunks ?q) ([], []) = Resolved ([], ?c1 # [?c2])
      \<and> JSON_parse ?O (arguments (tc_function ?c1)) = Args ''Kara'' ''audit''"
    using ne by (simp add: apply_delta_def example_openai_app_def example_app_def example_parse_def)
  have ex: "map_option (\<lambda>(sd, res). (res, completions sd, requests sd))
              (executeInvokeAgent ?O ''Kara'' ''audit'')
      = Some (Resolved ''No findings.'', [Resolved ''Deployed.''],
              [completions_create
                [OpenAIMsg (system_msg (generateSystemPrompt Kara)),
                 OpenAIMsg (user_msg (Str ''audit''))]])"
    by (simp add: executeInvokeAgent_def PERSONA_NAME_TO_KEY_MAP_def string_defs
          example_openai_app_def example_app_def logOrchestrationEvent_def Let_def)
  have sel: "requests ?O = []" "invoke_count ?O = 0"
    by (simp_all add: example_openai_app_def example_app_def invoke_count_def)
  from only_first_tool_call_is_executed[where st = ?O and ms = ?ms and q = ?q and rest' = "[]"
      and U = "[]" and tcall = ?c1 and tothers = "[?c2]" and a' = "''Kara''" and p' = "''audit''"
      and n = "''Lyra''" and t = "getTools Lyra"] o
  have "map_option (\<lambda>(s, x). (x, completions s, requests s, invoke_count s, openAIMessages s))
        (openai_iteration ''Lyra'' (getTools Lyra) ?O)
      = map_option
          (\<lambda>(sd, res).
             (case res of Resolved v \<Rightarrow> Continue () | Rejected e \<Rightarrow> Exit (Rejected e),
              completions sd,
              requests ?O @ completions_create_stream ?ms (getTools Lyra)
                # drop (length (requests ?O)) (requests sd),
              invoke_count ?O + 1,
              Some (?ms @ OpenAIMsg (assistant_msg None (Some (?c1 # [?c2])))
                      # (case res of
                           Resolved v \<Rightarrow> [OpenAIMsg (tool_msg (tc_id ?c1) v)]
                         | Rejected e \<Rightarrow> []))))
          (executeInvokeAgent ?O ''Kara'' ''audit'')"
    by blast
  also have "\<dots> = Some (Continue (),
             [Resolved ''Deployed.''],
             [completions_create_stream ?ms (getTools Lyra),
              completions_create
                [OpenAIMsg (system_msg (generateSystemPrompt Kara)),
                 OpenAIMsg (user_msg (Str ''audit''))]],
             1,
             Some [OpenAIMsg (system_msg (generateSystemPrompt Lyra)),
                   OpenAIMsg (assistant_msg None (Some [?c1, ?c2])),
                   OpenAIMsg (tool_msg (Some ''call_1'') ''No findings.'')])"
    using ex sel by (cases "executeInvokeAgent ?O ''Kara'' ''audit''") auto
  finally show "map_option (\<lambda>(s, x). (x, completions s, requests s, invoke_count s, openAIMessages s))
     (openai_iteration ''Lyra'' (getTools Lyra) ?O)
     = Some (Continue (),
             [Resolved ''Deployed.''],
             [completions_create_stream ?ms (getTools Lyra),
              completions_create
                [OpenAIMsg (system_msg (generateSystemPrompt Kara)),
                 OpenAIMsg (user_msg (Str ''audit''))]],
             1,
             Some [OpenAIMsg (system_msg (generateSystemPrompt Lyra)),
                   OpenAIMsg (assistant_msg None (Some [?c1, ?c2])),
                   OpenAIMsg (tool_msg (Some ''call_1'') ''No findings.'')])" .
next
  let ?k = "\<lparr>fc_name = ''invokeAgent'', fc_args = Args ''Kara'' ''audit''\<rparr>"
  let ?d = "\<lparr>fc_name = ''invokeAgent'', fc_args = Args ''Dan'' ''deploy''\<rparr>"
  let ?r = "\<lparr>chunks = [\<lparr>chunk_text = Some ''One moment.'', chunk_functionCalls = Some [?k, ?d]\<rparr>],
             fails = None\<rparr>"
  let ?r' = "\<lparr>chunks = [\<lparr>chunk_text = Some ''One moment.'', chunk_functionCalls = Some [?k]\<rparr>],
             fails = None\<rparr>"
  let ?B = "example_app\<lparr>completions := [Resolved ''No findings.'', Resolved ''Deployed.'']\<rparr>"
  have g: "fails ?r = None \<and> fails ?r' = None
      \<and> foldl gemini_chunk_step ([], []) (chunks ?r) = (''One moment.'', ?k # [?d])
      \<and> foldl gemini_chunk_step ([], []) (chunks ?r') = (''One moment.'', ?k # [])"
    by (simp add: gemini_chunk_step_def)
  from only_first_tool_call_is_executed[where st = ?B and r = ?r and r' = ?r' and rest = "[]"
      and T = "''One moment.''" and call = ?k and others = "[?d]" and others' = "[]"
      and n = "''Lyra''" and t = "getTools Lyra" and m = "[text_of ''status'']"] g
  show "map_option (\<lambda>(s, x). (s\<lparr>geminiChat := None\<rparr>, x))
          (gemini_iteration ''Lyra'' (getTools Lyra) [text_of ''status''] (?B\<lparr>gemini_streams := [?r]\<rparr>))
      = map_option (\<lambda>(s, x). (s\<lparr>geminiChat := None\<rparr>, x))
          (gemini_iteration ''Lyra'' (getTools Lyra) [text_of ''status''] (?B\<lparr>gemini_streams := [?r']\<rparr>))"
    by blast
next
  let ?c1 = "\<lparr>tc_id = Some ''call_1'',
              tc_function = \<lparr>fn_name = Some ''invokeAgent'', arguments = kara_arguments\<rparr>\<rparr>"
  let ?c2 = "\<lparr>tc_id = Some ''call_2'',
              tc_function = \<lparr>fn_name = Some ''invokeAgent'', arguments = dan_arguments\<rparr>\<rparr>"
  let ?q = "\<lparr>chunks = [\<lparr>delta_content = None, delta_tool_calls =
               Some [\<lparr>index = 0, delta_id = Some ''call_1'', delta_name = Some ''invokeAgent'',
                      delta_arguments = Some kara_arguments\<rparr>,
                     \<lparr>index = 1, delta_id = Some ''call_2'', delta_name = Some ''invokeAgent'',
                      delta_arguments = Some dan_arguments\<rparr>]\<rparr>],
             fails = None\<rparr>"
  let ?q' = "\<lparr>chunks = [\<lparr>delta_content = None, delta_tool_calls =
               Some [\<lparr>index = 0, delta_id = Some ''call_1'', delta_name = Some ''invokeAgent'',
                      delta_arguments = Some kara_arguments\<rparr>]\<rparr>],
             fails = None\<rparr>"
  let ?ms = "[OpenAIMsg (system_msg (generateSystemPrompt Lyra))]"
  let ?B = "example_openai_app\<lparr>completions := [Resolved ''No findings.'', Resolved ''Deployed.'']\<rparr>"
  have ne: "kara_arguments \<noteq> []" "dan_arguments \<noteq> []"
    by (simp_all add: kara_arguments_def dan_arguments_def)
  have o: "openAIMessages ?B = Some ?ms \<and> fails ?q = None \<and> fails ?q' = None
      \<and> openai_collect (chunks ?q) ([], []) = Resolved ([], ?c1 # [?c2])
      \<and> openai_collect (chunks ?q') ([], []) = Resolved ([], ?c1 # [])"
    using ne by (simp add: apply_delta_def example_openai_app_def example_app_def)
  from only_first_tool_call_is_executed[where st = ?B and ms = ?ms and q = ?q and q' = ?q'
      and rest' = "[]" and U = "[]" and tcall = ?c1 and tothers = "[?c2]" and tothers' = "[]"
      and n = "''Lyra''" and t = "getTools Lyra"] o
  show "map_option (\<lambda>(s, x). (s\<lparr>openAIMessages := None\<rparr>, x))
          (openai_iteration ''Lyra'' (getTools Lyra) (?B\<lparr>openai_streams := [?q]\<rparr>))
      = map_option (\<lambda>(s, x). (s\<lparr>openAIMessages := None\<rparr>, x))
          (openai_iteration ''Lyra'' (getTools Lyra) (?B\<lparr>openai_streams := [?q']\<rparr>))"
    by blast
qed


text \<open>
  C9: an iteration of the OpenAI loop whose stream ends with two or more accumulated
  tool calls. Whenever the iteration returns, it has appended to \<open>openAIMessages\<close> the
  assistant message that records all the calls, followed by one message of role \<open>tool\<close>,
  for the identifier of the first call, when the loop continues, and by nothing when the
  iteration ends the turn in an error. The loop does continue when the arguments of the
  first call can be read, the agent name is not a name that the name map inherits from
  \<open>Object.prototype\<close> and the delegate's provider answers: the message of role \<open>tool\<close>
  then carries the result of the delegation executor. And a turn that reaches the
  provider, whose first reply is such a stream and whose second reply is text only, is
  completed and saved (when the save succeeds):
  the record stored under the session key holds the transcript with the assistant
  message of all the calls and the single message of role \<open>tool\<close>, so it records at
  least two tool-call identifiers and one tool response.
\<close>

theorem several_tool_calls_one_tool_message:
  assumes "openAIMessages st = Some ms" "openai_streams st = r # rest" "fails r = None"
    and "openai_collect (chunks r) ([], []) = Resolved (T, call # second # others)"
  shows "(\<forall>st1 x. openai_iteration n t st = Some (st1, x) \<longrightarrow>
           (\<exists>tl. openAIMessages st1
                    = Some (ms @ OpenAIMsg (assistant_msg None (Some (call # second # others))) # tl)
                 \<and> (x = Continue () \<longrightarrow>
                       (\<exists>toolResult. tl = [OpenAIMsg (tool_msg (tc_id call) toolResult)]))
                 \<and> (x \<noteq> Continue () \<longrightarrow> tl = [])
                 \<and> concat (map tool_call_ids
                       (OpenAIMsg (assistant_msg None (Some (call # second # others))) # tl))
                     = tc_id call # tc_id second # map tc_id others
                 \<and> length (concat (map tool_response_ids
                       (OpenAIMsg (assistant_msg None (Some (call # second # others))) # tl))) \<le> 1))
     \<and> (completions st \<noteq> [] \<longrightarrow> openai_iteration n t st \<noteq> None)
     \<and> (JSON_parse st (arguments (tc_function call)) = Args a p
          \<and> PERSONA_NAME_TO_KEY_MAP a \<noteq> Inherited \<and> completions st \<noteq> [] \<longrightarrow>
         (\<exists>st1 sd toolResult.
             executeInvokeAgent st a p = Some (sd, Resolved toolResult)
           \<and> openai_iteration n t st = Some (st1, Continue ())
           \<and> openAIMessages st1
               = Some (ms @ [OpenAIMsg (assistant_msg None (Some (call # second # others))),
                             OpenAIMsg (tool_msg (tc_id call) toolResult)])))
     \<and> (JSON_parse st (arguments (tc_function call)) = Args a p
          \<and> PERSONA_NAME_TO_KEY_MAP a \<noteq> Inherited \<and> completions st \<noteq> []
          \<and> (userInput \<noteq> [] \<or> stagedFile st \<noteq> None)
          \<and> (\<forall>f. stagedFile st = Some f \<longrightarrow> fileToBase64 f = Some (Resolved d))
          \<and> modelSelector st = openai \<and> openai_client st \<and> idb_request st = onsuccess
          \<and> rest = \<lparr>chunks = ds2, fails = None\<rparr> # later
          \<and> openai_collect ds2 ([], []) = Resolved (answer, [])
          \<and> userMessage =
              OpenAIMsg (user_msg
                (case (if userInput \<noteq> [] then [text_part userInput] else [])
                      @ (case stagedFile st of
                           None \<Rightarrow> []
                         | Some f \<Rightarrow>
                             [image_url (''data:'' @ mimeType d @ '';base64,'' @ data d)]) of
                   [text_part t] \<Rightarrow> Str t
                 | contentParts \<Rightarrow> Parts contentParts)) \<longrightarrow>
         (\<exists>st' sd toolResult saved.
             executeInvokeAgent st a p = Some (sd, Resolved toolResult)
           \<and> submitTurn userInput st = Some st'
           \<and> saved = [userMessage,
                       OpenAIMsg (assistant_msg None (Some (call # second # others))),
                       OpenAIMsg (tool_msg (tc_id call) toolResult),
                       OpenAIMsg (assistant_msg (Some answer) None)]
           \<and> store st' (sessionKey openai (personaSelector st))
               = Some \<lparr>provider = sessionKey openai (personaSelector st),
                       history = Some (ms @ saved)\<rparr>
           \<and> concat (map tool_call_ids saved) = tc_id call # tc_id second # map tc_id others
           \<and> concat (map tool_response_ids saved) = [tc_id call]))"
proof (intro conjI allI impI)
  fix st1 x
  assume it: "openai_iteration n t st = Some (st1, x)"
  from openai_iteration_several_calls[OF assms it]
  obtain tl where tl: "openAIMessages st1
               = Some (ms @ OpenAIMsg (assistant_msg None (Some (call # second # others))) # tl)"
      "x = Continue () \<longrightarrow> (\<exists>toolResult. tl = [OpenAIMsg (tool_msg (tc_id call) toolResult)])"
      "x \<noteq> Continue () \<longrightarrow> tl = []"
    by blast
  then have "concat (map tool_call_ids
                       (OpenAIMsg (assistant_msg None (Some (call # second # others))) # tl))
                     = tc_id call # tc_id second # map tc_id others
           \<and> length (concat (map tool_response_ids
                       (OpenAIMsg (assistant_msg None (Some (call # second # others))) # tl))) \<le> 1"
    by (cases "x = Continue ()") auto
  with tl show "\<exists>tl. openAIMessages st1
                    = Some (ms @ OpenAIMsg (assistant_msg None (Some (call # second # others))) # tl)
                 \<and> (x = Continue () \<longrightarrow>
                       (\<exists>toolResult. tl = [OpenAIMsg (tool_msg (tc_id call) toolResult)]))
                 \<and> (x \<noteq> Continue () \<longrightarrow> tl = [])
                 \<and> concat (map tool_call_ids
                       (OpenAIMsg (assistant_msg None (Some (call # second # others))) # tl))
                     = tc_id call # tc_id second # map tc_id others
                 \<and> length (concat (map tool_response_ids
                       (OpenAIMsg (assistant_msg None (Some (call # second # others))) # tl))) \<le> 1"
    by blast
next
  assume "completions st \<noteq> []"
  with assms(1,2) show "openai_iteration n t st \<noteq> None" by (rule openai_iteration_answers)
next
  assume h: "JSON_parse st (arguments (tc_function call)) = Args a p
          \<and> PERSONA_NAME_TO_KEY_MAP a \<noteq> Inherited \<and> completions st \<noteq> []"
  then have h': "JSON_parse st (arguments (tc_function call)) = Args a p"
      "PERSONA_NAME_TO_KEY_MAP a \<noteq> Inherited" "completions st \<noteq> []"
    by simp_all
  from resolved_run[OF openai_iteration_continues[OF assms h', of n t]]
  show "\<exists>st1 sd toolResult.
             executeInvokeAgent st a p = Some (sd, Resolved toolResult)
           \<and> openai_iteration n t st = Some (st1, Continue ())
           \<and> openAIMessages st1
               = Some (ms @ [OpenAIMsg (assistant_msg None (Some (call # second # others))),
                             OpenAIMsg (tool_msg (tc_id call) toolResult)])"
    by blast
next
  assume h: "JSON_parse st (arguments (tc_function call)) = Args a p
          \<and> PERSONA_NAME_TO_KEY_MAP a \<noteq> Inherited \<and> completions st \<noteq> []
          \<and> (userInput \<noteq> [] \<or> stagedFile st \<noteq> None)
          \<and> (\<forall>f. stagedFile st = Some f \<longrightarrow> fileToBase64 f = Some (Resolved d))
          \<and> modelSelector st = openai \<and> openai_client st \<and> idb_request st = onsuccess
          \<and> rest = \<lparr>chunks = ds2, fails = None\<rparr> # later
          \<and> openai_collect ds2 ([], []) = Resolved (answer, [])
          \<and> userMessage =
              OpenAIMsg (user_msg
                (case (if userInput \<noteq> [] then [text_part userInput] else [])
                      @ (case stagedFile st of
                           None \<Rightarrow> []
                         | Some f \<Rightarrow>
                             [image_url (''data:'' @ mimeType d @ '';base64,'' @ data d)]) of
                   [text_part t] \<Rightarrow> Str t
                 | contentParts \<Rightarrow> Parts contentParts))"
  then have input: "userInput \<noteq> [] \<or> stagedFile st \<noteq> None"
      "\<forall>f. stagedFile st = Some f \<longrightarrow> fileToBase64 f = Some (Resolved d)"
    and um: "userMessage =
              OpenAIMsg (user_msg
                (case (if userInput \<noteq> [] then [text_part userInput] else [])
                      @ (case stagedFile st of
                           None \<Rightarrow> []
                         | Some f \<Rightarrow>
                             [image_url (''data:'' @ mimeType d @ '';base64,'' @ data d)]) of
                   [text_part t] \<Rightarrow> Str t
                 | contentParts \<Rightarrow> Parts contentParts))"
    and ready: "modelSelector st = openai" "openai_client st" "idb_request st = onsuccess"
    and parse: "JSON_parse st (arguments (tc_function call)) = Args a p"
    and deleg: "PERSONA_NAME_TO_KEY_MAP a \<noteq> Inherited" "completions st \<noteq> []"
    and r2: "openai_collect ds2 ([], []) = Resolved (answer, [])"
    and rest: "rest = \<lparr>chunks = ds2, fails = None\<rparr> # later"
    by blast+
  obtain ds1 where r: "r = \<lparr>chunks = ds1, fails = None\<rparr>"
    using assms(3) by (cases r) auto
  have script: "openai_streams st = \<lparr>chunks = ds1, fails = None\<rparr> # \<lparr>chunks = ds2, fails = None\<rparr> # later"
    using assms(2) r rest by simp
  have r1: "openai_collect ds1 ([], []) = Resolved (T, call # second # others)"
    using assms(4) r by simp
  from resolved_run[OF openai_call_then_text[OF input ready(1,2) assms(1) ready(3) script r1 parse r2 deleg um]]
  obtain sd toolResult st'
    where ex: "executeInvokeAgent st a p = Some (sd, Resolved toolResult)"
      and turn: "submitTurn userInput st = Some st'"
      and msgs: "openAIMessages st' = Some (ms @
                      [userMessage,
                       OpenAIMsg (assistant_msg None (Some (call # second # others))),
                       OpenAIMsg (tool_msg (tc_id call) toolResult),
                       OpenAIMsg (assistant_msg (Some answer) None)])"
      and saved: "store st' = (store st)(sessionKey openai (personaSelector st) \<mapsto>
                     \<lparr>provider = sessionKey openai (personaSelector st),
                      history = openAIMessages st'\<rparr>)"
    by blast
  let ?saved = "[userMessage,
                 OpenAIMsg (assistant_msg None (Some (call # second # others))),
                 OpenAIMsg (tool_msg (tc_id call) toolResult),
                 OpenAIMsg (assistant_msg (Some answer) None)]"
  have "store st' (sessionKey openai (personaSelector st))
               = Some \<lparr>provider = sessionKey openai (personaSelector st),
                       history = Some (ms @ ?saved)\<rparr>"
    using saved msgs by simp
  moreover have "concat (map tool_call_ids ?saved) = tc_id call # tc_id second # map tc_id others"
    "concat (map tool_response_ids ?saved) = [tc_id call]"
    by (simp_all add: um)
  ultimately show "\<exists>st' sd toolResult saved.
             executeInvokeAgent st a p = Some (sd, Resolved toolResult)
           \<and> submitTurn userInput st = Some st'
           \<and> saved = [userMessage,
                       OpenAIMsg (assistant_msg None (Some (call # second # others))),
                       OpenAIMsg (tool_msg (tc_id call) toolResult),
                       OpenAIMsg (assistant_msg (Some answer) None)]
           \<and> store st' (sessionKey openai (personaSelector st))
               = Some \<lparr>provider = sessionKey openai (personaSelector st),
                       history = Some (ms @ saved)\<rparr>
           \<and> concat (map tool_call_ids saved) = tc_id call # tc_id second # map tc_id others
           \<and> concat (map tool_response_ids saved) = [tc_id call]"
    using ex turn by blast
qed

theorem several_tool_calls_one_tool_message_witness:
  "(\<exists>st1. openai_iteration ''Lyra'' (getTools Lyra)
       (example_openai_app\<lparr>completions := [Resolved ''No findings.'', Resolved ''Deployed.''],
          openai_streams :=
            [\<lparr>chunks = [\<lparr>delta_content = None, delta_tool_calls =
                 Some [\<lparr>index = 0, delta_id = Some ''call_1'', delta_name = Some ''invokeAgent'',
                        delta_arguments = Some kara_arguments\<rparr>,
                       \<lparr>index = 1, delta_id = Some ''call_2'', delta_name = Some ''invokeAgent'',
                        delta_arguments = Some dan_arguments\<rparr>]\<rparr>],
              fails = None\<rparr>,
             \<lparr>chunks = [\<lparr>delta_content = Some ''All clear.'', delta_tool_calls = None\<rparr>],
              fails = None\<rparr>]\<rparr>) = Some (st1, Continue ())
      \<and> openAIMessages st1
          = Some [OpenAIMsg (system_msg (generateSystemPrompt Lyra)),
                  OpenAIMsg (assistant_msg None
                    (Some [\<lparr>tc_id = Some ''call_1'',
                            tc_function = \<lparr>fn_name = Some ''invokeAgent'',
                                           arguments = kara_arguments\<rparr>\<rparr>,
                           \<lparr>tc_id = Some ''call_2'',
                            tc_function = \<lparr>fn_name = Some ''invokeAgent'',
                                           arguments = dan_arguments\<rparr>\<rparr>])),
                  OpenAIMsg (tool_msg (Some ''call_1'') ''No findings.'')])
   \<and> (\<exists>st'. submitTurn ''status''
       (example_openai_app\<lparr>completions := [Resolved ''No findings.'', Resolved ''Deployed.''],
          openai_streams :=
            [\<lparr>chunks = [\<lparr>delta_content = None, delta_tool_calls =
                 Some [\<lparr>index = 0, delta_id = Some ''call_1'', delta_name = Some ''invokeAgent'',
                        delta_arguments = Some kara_arguments\<rparr>,
                       \<lparr>index = 1, delta_id = Some ''call_2'', delta_name = Some ''invokeAgent'',
                        delta_arguments = Some dan_arguments\<rparr>]\<rparr>],
              fails = None\<rparr>,
             \<lparr>chunks = [\<lparr>delta_content = Some ''All clear.'', delta_tool_calls = None\<rparr>],
              fails = None\<rparr>]\<rparr>) = Some st'
      \<and> store st' ''openai-Lyra''
          = Some \<lparr>provider = ''openai-Lyra'',
                  history = Some
                    [OpenAIMsg (system_msg (generateSystemPrompt Lyra)),
                     OpenAIMsg (user_msg (Str ''status'')),
                     OpenAIMsg (assistant_msg None
                       (Some [\<lparr>tc_id = Some ''call_1'',
                               tc_function = \<lparr>fn_name = Some ''invokeAgent'',
                                              arguments = kara_arguments\<rparr>\<rparr>,
                              \<lparr>tc_id = Some ''call_2'',
                               tc_function = \<lparr>fn_name = Some ''invokeAgent'',
                                              arguments = dan_arguments\<rparr>\<rparr>])),
                     OpenAIMsg (tool_msg (Some ''call_1'') ''No findings.''),
                     OpenAIMsg (assistant_msg (Some ''All clear.'') None)]\<rparr>)"
proof -
  let ?c1 = "\<lparr>tc_id = Some ''call_1'',
              tc_function = \<lparr>fn_name = Some ''invokeAgent'', arguments = kara_arguments\<rparr>\<rparr>"
  let ?c2 = "\<lparr>tc_id = Some ''call_2'',
              tc_function = \<lparr>fn_name = Some ''invokeAgent'', arguments = dan_arguments\<rparr>\<rparr>"
  let ?q = "\<lparr>chunks = [\<lparr>delta_content = None, delta_tool_calls =
               Some [\<lparr>index = 0, delta_id = Some ''call_1'', delta_name = Some ''invokeAgent'',
                      delta_arguments = Some kara_arguments\<rparr>,
                     \<lparr>index = 1, delta_id = Some ''call_2'', delta_name = Some ''invokeAgent'',
                      delta_arguments = Some dan_arguments\<rparr>]\<rparr>],
             fails = None\<rparr>"
  let ?ds2 = "[\<lparr>delta_content = Some ''All clear.'', delta_tool_calls = None\<rparr>]"
  let ?W = "example_openai_app\<lparr>completions := [Resolved ''No findings.'', Resolved ''Deployed.''],
              openai_streams := [?q, \<lparr>chunks = ?ds2, fails = None\<rparr>]\<rparr>"
  let ?ms = "[OpenAIMsg (system_msg (generateSystemPrompt Lyra))]"
  have ne: "kara_arguments \<noteq> []" "dan_arguments \<noteq> []"
    by (simp_all add: kara_arguments_def dan_arguments_def)
  have 1: "openAIMessages ?W = Some ?ms"
    by (simp add: example_openai_app_def example_app_def)
  have 2: "openai_streams ?W = ?q # [\<lparr>chunks = ?ds2, fails = None\<rparr>]" by simp
  have 3: "fails ?q = None" by simp
  have 4: "openai_collect (chunks ?q) ([], []) = Resolved ([], ?c1 # ?c2 # [])"
    using ne by (simp add: apply_delta_def)
  have 5: "JSON_parse ?W (arguments (tc_function ?c1)) = Args ''Kara'' ''audit''
          \<and> PERSONA_NAME_TO_KEY_MAP ''Kara'' \<noteq> Inherited \<and> completions ?W \<noteq> []"
    by (simp add: example_openai_app_def example_app_def example_parse_def
          PERSONA_NAME_TO_KEY_MAP_def string_defs)
  have 6: "(''status'' \<noteq> [] \<or> stagedFile ?W \<noteq> None)
          \<and> (\<forall>f. stagedFile ?W = Some f \<longrightarrow>
                 fileToBase64 f = Some (Resolved \<lparr>mimeType = [], data = []\<rparr>))
          \<and> modelSelector ?W = openai \<and> openai_client ?W \<and> idb_request ?W = onsuccess
          \<and> [\<lparr>chunks = ?ds2, fails = None\<rparr>] = \<lparr>chunks = ?ds2, fails = None\<rparr> # []
          \<and> openai_collect ?ds2 ([], []) = Resolved (''All clear.'', [])
          \<and> OpenAIMsg (user_msg (Str ''status'')) =
              OpenAIMsg (user_msg
                (case (if ''status'' \<noteq> [] then [text_part ''status''] else [])
                      @ (case stagedFile ?W of
                           None \<Rightarrow> []
                         | Some f \<Rightarrow>
                             [image_url (''data:'' @ mimeType \<lparr>mimeType = [], data = []\<rparr>
                                         @ '';base64,'' @ data \<lparr>mimeType = [], data = []\<rparr>)]) of
                   [text_part t] \<Rightarrow> Str t
                 | contentParts \<Rightarrow> Parts contentParts))"
    by (simp add: example_openai_app_def example_app_def)
  have ex: "map_option snd (executeInvokeAgent ?W ''Kara'' ''audit'') = Some (Resolved ''No findings.'')"
    by (simp add: executeInvokeAgent_def PERSONA_NAME_TO_KEY_MAP_def string_defs
          example_openai_app_def example_app_def logOrchestrationEvent_def Let_def)
  have key: "sessionKey openai (personaSelector ?W) = ''openai-Lyra''"
    by (simp add: sessionKey_def example_openai_app_def example_app_def)
  note inst = several_tool_calls_one_tool_message[OF 1 2 3 4,
      where n = "''Lyra''" and t = "getTools Lyra" and a = "''Kara''" and p = "''audit''"
        and userInput = "''status''" and ?ds2.0 = ?ds2 and later = "[]" and answer = "''All clear.''"
        and d = "\<lparr>mimeType = [], data = []\<rparr>"
        and userMessage = "OpenAIMsg (user_msg (Str ''status''))"]
  from inst 5 obtain st1 sd toolResult where a:
      "executeInvokeAgent ?W ''Kara'' ''audit'' = Some (sd, Resolved toolResult)"
      "openai_iteration ''Lyra'' (getTools Lyra) ?W = Some (st1, Continue ())"
      "openAIMessages st1
         = Some (?ms @ [OpenAIMsg (assistant_msg None (Some (?c1 # ?c2 # []))),
                        OpenAIMsg (tool_msg (tc_id ?c1) toolResult)])"
    by blast
  from a(1) ex have "toolResult = ''No findings.''" by simp
  with a have A: "\<exists>st1. openai_iteration ''Lyra'' (getTools Lyra) ?W = Some (st1, Continue ())
      \<and> openAIMessages st1
          = Some [OpenAIMsg (system_msg (generateSystemPrompt Lyra)),
                  OpenAIMsg (assistant_msg None (Some [?c1, ?c2])),
                  OpenAIMsg (tool_msg (Some ''call_1'') ''No findings.'')]"
    by simp
  from inst 5 6 obtain st' sd' toolResult' saved where b:
      "executeInvokeAgent ?W ''Kara'' ''audit'' = Some (sd', Resolved toolResult')"
      "submitTurn ''status'' ?W = Some st'"
      "saved = [OpenAIMsg (user_msg (Str ''status'')),
                OpenAIMsg (assistant_msg None (Some (?c1 # ?c2 # []))),
                OpenAIMsg (tool_msg (tc_id ?c1) toolResult'),
                OpenAIMsg (assistant_msg (Some ''All clear.'') None)]"
      "store st' (sessionKey openai (personaSelector ?W))
         = Some \<lparr>provider = sessionKey openai (personaSelector ?W), history = Some (?ms @ saved)\<rparr>"
    by blast
  from b(1) ex have "toolResult' = ''No findings.''" by simp
  with b key have B: "\<exists>st'. submitTurn ''status'' ?W = Some st'
      \<and> store st' ''openai-Lyra''
          = Some \<lparr>provider = ''openai-Lyra'',
                  history = Some
                    [OpenAIMsg (system_msg (generateSystemPrompt Lyra)),
                     OpenAIMsg (user_msg (Str ''status'')),
                     OpenAIMsg (assistant_msg None (Some [?c1, ?c2])),
                     OpenAIMsg (tool_msg (Some ''call_1'') ''No findings.''),
                     OpenAIMsg (assistant_msg (Some ''All clear.'') None)]\<rparr>"
    by simp
  from A B show ?thesis by blast
qed

end
